theory Spec2Isabelle
  imports Complex_Main "HOL-Library.Monad_Syntax"
begin

section \<open>Data model of itk::BlockMatchingImageFilter\<close>

text \<open>
  The filter is a class template over the two image types, the feature point set and the
  two output point sets. The embedding fixes the representation of the template arguments:
  an image index is a list of signed coordinates (one per axis), an image size or radius a
  list of unsigned extents, a physical point and a displacement vector a list of real
  coordinates, and the scalar type \<open>SimilaritiesValue\<close> in which the block statistics are
  accumulated is the ordered field of the reals (exact arithmetic; no rounding). The search
  of lines 304 to 368 is embedded a second time further below, in IEEE 754 binary64
  arithmetic, for the properties that depend on rounding, on the sign of a computed
  similarity or on the content of the local that line 312 leaves without an initialiser.
  Unsigned counters (\<open>SizeValueType\<close>, \<open>ThreadIdType\<close>) are natural numbers; lemma
  \<open>workRange_no_overflow\<close> below bounds every intermediate value of the range computation
  by the operands, so no unsigned type able to hold the point count and the work unit count
  wraps around there.
\<close>

type_synonym ImageIndexType = "int list"
type_synonym ImageSizeType = "nat list"
type_synonym PhysicalCoordinates = "real list"
type_synonym DisplacementsVector = "real list"
type_synonym SimilaritiesValue = real

text \<open>
  Storage that has been allocated or declared without an initialiser
  (\<open>make_unique_for_overwrite\<close>, \<open>DisplacementsVector displacement;\<close>) holds an
  indeterminate value until it is assigned.
\<close>

datatype 'a cell = Indeterminate | Value 'a

text \<open>
  Images are external collaborators of the filter (itk::Image is not part of the source
  files considered here); the filter uses exactly three capabilities of an image, which are
  taken as parameters: reading the pixel at an index, where the boundary condition of the
  neighbourhood iterator has already supplied the value of an index outside the buffer, and
  the two coordinate mappings.
\<close>

record Image =
  GetPixelAt :: "ImageIndexType \<Rightarrow> SimilaritiesValue"
  TransformPhysicalPointToIndex :: "PhysicalCoordinates \<Rightarrow> ImageIndexType"
  TransformIndexToPhysicalPoint :: "ImageIndexType \<Rightarrow> PhysicalCoordinates"

text \<open>
  Modelled from the spec: an output point collection (itk::PointSet and its containers are
  not part of the source files considered here) consists of a points container and a
  point data container, each a finite map from element identifiers to elements;
  \<open>InsertElement(i, x)\<close> binds identifier \<open>i\<close> to \<open>x\<close>.
\<close>

record 'd PointSet =
  Points :: "nat \<rightharpoonup> PhysicalCoordinates"
  PointData :: "nat \<rightharpoonup> 'd cell"

text \<open>
  The state of the filter object: its configuration, its inputs (smart pointers, which may
  be null), the two per-execution arrays (\<open>std::unique_ptr\<close>, null when released) and its
  two outputs. The feature point set is the ordered sequence of its points, point \<open>i\<close>
  having identifier \<open>i\<close>.
\<close>

record BlockMatchingImageFilter =
  m_BlockRadius :: ImageSizeType
  m_SearchRadius :: ImageSizeType
  m_PointsCount :: nat
  m_DisplacementsVectorsArray :: "DisplacementsVector cell list option"
  m_SimilaritiesValuesArray :: "SimilaritiesValue cell list option"
  NumberOfWorkUnits :: nat
  FeaturePoints :: "PhysicalCoordinates list option"
  FixedImage :: "Image option"
  MovingImage :: "Image option"
  Displacements :: "DisplacementsVector PointSet"
  Similarities :: "SimilaritiesValue PointSet"

text \<open>
  The failures of an execution. \<open>itkExceptionMacro\<close> in
  \<open>BeforeThreadedGenerateData\<close> throws an exception with the message "Invalid number
  of feature points: n."; the pipeline refuses to execute a filter one of whose required
  inputs is not set. The specification calls both \<open>ConfigurationError\<close>. A work unit
  whose behaviour is undefined (null dereference, access out of range, integer division by
  zero) fails with \<open>UndefinedBehaviour\<close>.
\<close>

datatype configurationError = InvalidNumberOfFeaturePoints nat | RequiredInputNotSet string

datatype error = ConfigurationError configurationError | UndefinedBehaviour

section \<open>Loops and checked primitives\<close>

text \<open>
  A \<open>for\<close> loop over a list of values whose body may fail: the option monad, where
  \<open>None\<close> stands for undefined behaviour of the C++ program.
\<close>

fun forEach :: "'a list \<Rightarrow> ('a \<Rightarrow> 's \<Rightarrow> 's option) \<Rightarrow> 's \<Rightarrow> 's option" where
  "forEach [] body s = Some s"
| "forEach (x # xs) body s = (case body x s of None \<Rightarrow> None | Some s' \<Rightarrow> forEach xs body s')"

definition checkedDivide :: "real \<Rightarrow> real \<Rightarrow> real option" where
  "checkedDivide a b = (if b = 0 then None else Some (a / b))"

definition GetPoint :: "PhysicalCoordinates list \<Rightarrow> nat \<Rightarrow> PhysicalCoordinates option" where
  "GetPoint points idx = (if idx < length points then Some (points ! idx) else None)"

definition store :: "'a list \<Rightarrow> nat \<Rightarrow> 'a \<Rightarrow> 'a list option" where
  "store array idx v = (if idx < length array then Some (array[idx := v]) else None)"

definition load :: "'a list \<Rightarrow> nat \<Rightarrow> 'a option" where
  "load array idx = (if idx < length array then Some (array ! idx) else None)"

section \<open>Regions and neighbourhoods\<close>

text \<open>
  Modelled from the spec: the iteration order of itk::ConstNeighborhoodIterator over an
  image region and the layout of a neighbourhood (the iterator classes are not part of the
  source files considered here). The specification fixes both as raster order,
  lexicographic over the axis offsets with the first axis varying fastest; a region is given
  by the index of its corner and its size per axis.
\<close>

fun regionIndices :: "ImageIndexType \<Rightarrow> ImageSizeType \<Rightarrow> ImageIndexType list" where
  "regionIndices (s # ss) (n # ns) =
     concat (map (\<lambda>rest. map (\<lambda>k. (s + int k) # rest) [0..<n]) (regionIndices ss ns))"
| "regionIndices _ _ = [[]]"

text \<open>
  Modelled from the spec: a neighbourhood of radius \<open>r\<close> holds \<open>r + 1 + r\<close> voxels per
  axis, at the offsets \<open>-r .. r\<close> from its centre, numbered in raster order.
\<close>

definition NeighborhoodOffsets :: "ImageSizeType \<Rightarrow> ImageIndexType list" where
  "NeighborhoodOffsets radius =
     regionIndices (map (\<lambda>r. - int r) radius) (map (\<lambda>r. r + 1 + r) radius)"

text \<open>
  Modelled from the spec: \<open>GetPixel(i)\<close> of a neighbourhood iterator positioned at
  \<open>position\<close> reads the \<open>i\<close>-th voxel of the neighbourhood. An \<open>i\<close> that is not below
  the size of the neighbourhood is an access out of range.
\<close>

definition GetPixel :: "Image \<Rightarrow> ImageSizeType \<Rightarrow> ImageIndexType \<Rightarrow> nat \<Rightarrow> SimilaritiesValue option" where
  "GetPixel img radius position i =
     (let offsets = NeighborhoodOffsets radius
      in if i < length offsets
         then Some (GetPixelAt img (map2 (+) position (offsets ! i)))
         else None)"

section \<open>ThreadedGenerateData\<close>

subsection \<open>The range of a work unit (lines 276 to 284)\<close>

text \<open>
  \<open>count = m_PointsCount / workUnitCount; first = threadId * count;\<close> and the last
  work unit adds the remainder. The result is the pair \<open>(first, count)\<close>; dividing by a
  work unit count of zero is undefined.
\<close>

definition workRange :: "nat \<Rightarrow> nat \<Rightarrow> nat \<Rightarrow> (nat \<times> nat) option" where
  "workRange pointsCount workUnitCount threadId =
     (if workUnitCount = 0 then None
      else let count = pointsCount div workUnitCount;
               first = threadId * count;
               count = (if threadId + 1 = workUnitCount
                        then count + pointsCount mod workUnitCount else count)
           in Some (first, count))"

text \<open>The point indices \<open>idx = first, ..., first + count - 1\<close> visited by a work unit.\<close>

definition workIndices :: "nat \<Rightarrow> nat \<Rightarrow> nat \<Rightarrow> nat list" where
  "workIndices pointsCount workUnitCount threadId =
     (case workRange pointsCount workUnitCount threadId of
        None \<Rightarrow> []
      | Some (first, count) \<Rightarrow> [first ..< first + count])"

subsection \<open>Window and block (lines 286 to 299)\<close>

text \<open>
  The size of the window and the number of voxels of a block are computed in
  \<open>SizeValueType\<close>, and the corner of the window in the signed index type. The
  embedding computes them in the natural numbers and the integers: radii are taken to be
  small enough for a block and a window to be held in memory, which keeps these values far
  from the range where the machine types wrap around.
\<close>

definition windowSize :: "ImageSizeType \<Rightarrow> ImageSizeType" where
  "windowSize searchRadius = map (\<lambda>r. 1 + r + r) searchRadius"

definition numberOfVoxelInBlock :: "ImageSizeType \<Rightarrow> nat" where
  "numberOfVoxelInBlock blockRadius = fold (\<lambda>r n. n * (r + 1 + r)) blockRadius 1"

subsection \<open>The statistics of one candidate (lines 329 to 356)\<close>

record BlockSums =
  fixedSum :: SimilaritiesValue
  fixedSumOfSquares :: SimilaritiesValue
  movingSum :: SimilaritiesValue
  movingSumOfSquares :: SimilaritiesValue
  covariance :: SimilaritiesValue

definition zeroSums :: BlockSums where
  "zeroSums = \<lparr>fixedSum = 0, fixedSumOfSquares = 0, movingSum = 0,
               movingSumOfSquares = 0, covariance = 0\<rparr>"

text \<open>
  The body of the loop over the voxels of the block: \<open>windowIterator\<close> runs over the
  fixed image and stands at the candidate, \<open>centerIterator\<close> runs over the moving image
  and stands at the begin of the one-voxel region \<open>center\<close>.
\<close>

definition accumulateVoxel ::
  "Image \<Rightarrow> Image \<Rightarrow> ImageSizeType \<Rightarrow> ImageIndexType \<Rightarrow> ImageIndexType \<Rightarrow> nat \<Rightarrow> BlockSums \<Rightarrow> BlockSums option" where
  "accumulateVoxel fixedImage movingImage blockRadius windowIndex centerIndex i acc =
     do {
       fixedValue \<leftarrow> GetPixel fixedImage blockRadius windowIndex i;
       movingValue \<leftarrow> GetPixel movingImage blockRadius centerIndex i;
       Some (acc\<lparr>movingSum := movingSum acc + movingValue,
                 fixedSum := fixedSum acc + fixedValue,
                 movingSumOfSquares := movingSumOfSquares acc + movingValue * movingValue,
                 fixedSumOfSquares := fixedSumOfSquares acc + fixedValue * fixedValue,
                 covariance := covariance acc + fixedValue * movingValue\<rparr>)
     }"

definition blockSums ::
  "Image \<Rightarrow> Image \<Rightarrow> ImageSizeType \<Rightarrow> nat \<Rightarrow> ImageIndexType \<Rightarrow> ImageIndexType \<Rightarrow> BlockSums option" where
  "blockSums fixedImage movingImage blockRadius voxels windowIndex centerIndex =
     forEach [0 ..< voxels]
       (accumulateVoxel fixedImage movingImage blockRadius windowIndex centerIndex) zeroSums"

text \<open>
  Lines 346 to 356. Every division goes through \<open>checkedDivide\<close>, so that a zero divisor
  would surface as \<open>None\<close>.
\<close>

definition blockSimilarity :: "nat \<Rightarrow> BlockSums \<Rightarrow> SimilaritiesValue option" where
  "blockSimilarity voxels stats =
     do {
       fixedMean \<leftarrow> checkedDivide (fixedSum stats) (real voxels);
       movingMean \<leftarrow> checkedDivide (movingSum stats) (real voxels);
       let fixedVariance = fixedSumOfSquares stats - real voxels * fixedMean * fixedMean;
       let movingVariance = movingSumOfSquares stats - real voxels * movingMean * movingMean;
       let cov = covariance stats - real voxels * fixedMean * movingMean;
       (if fixedVariance * movingVariance \<noteq> 0
        then checkedDivide (cov * cov) (fixedVariance * movingVariance)
        else Some 0)
     }"

subsection \<open>The search for one feature point (lines 304 to 365)\<close>

record Match =
  similarity :: SimilaritiesValue
  displacement :: "DisplacementsVector cell"

text \<open>The body of the loop over the window, lines 327 to 365.\<close>

definition visitCandidate ::
  "Image \<Rightarrow> Image \<Rightarrow> ImageSizeType \<Rightarrow> nat \<Rightarrow> PhysicalCoordinates \<Rightarrow> ImageIndexType \<Rightarrow> ImageIndexType \<Rightarrow> Match \<Rightarrow> Match option" where
  "visitCandidate fixedImage movingImage blockRadius voxels originalLocation centerIndex windowIndex best =
     do {
       stats \<leftarrow> blockSums fixedImage movingImage blockRadius voxels windowIndex centerIndex;
       sim \<leftarrow> blockSimilarity voxels stats;
       Some (if sim \<ge> similarity best
             then \<lparr>similarity = sim,
                   displacement = Value (map2 (-) (TransformIndexToPhysicalPoint fixedImage windowIndex)
                                                originalLocation)\<rparr>
             else best)
     }"

text \<open>
  The window region: \<open>start = fixedIndex - m_SearchRadius\<close>, of size \<open>windowSize\<close>;
  \<open>windowIterator\<close> visits its indices over the fixed image.
\<close>

definition windowStart :: "ImageIndexType \<Rightarrow> ImageSizeType \<Rightarrow> ImageIndexType" where
  "windowStart fixedIndex searchRadius = map2 (\<lambda>i r. i - int r) fixedIndex searchRadius"

definition windowCandidates :: "Image \<Rightarrow> ImageSizeType \<Rightarrow> PhysicalCoordinates \<Rightarrow> ImageIndexType list" where
  "windowCandidates fixedImage searchRadius originalLocation =
     regionIndices (windowStart (TransformPhysicalPointToIndex fixedImage originalLocation) searchRadius)
                   (windowSize searchRadius)"

definition searchPoint ::
  "Image option \<Rightarrow> Image option \<Rightarrow> ImageSizeType \<Rightarrow> ImageSizeType \<Rightarrow> nat \<Rightarrow> PhysicalCoordinates \<Rightarrow> Match option" where
  "searchPoint fixedImagePointer movingImagePointer blockRadius searchRadius voxels originalLocation =
     do {
       fixedImage \<leftarrow> fixedImagePointer;
       movingImage \<leftarrow> movingImagePointer;
       let movingIndex = TransformPhysicalPointToIndex movingImage originalLocation;
       forEach (windowCandidates fixedImage searchRadius originalLocation)
         (visitCandidate fixedImage movingImage blockRadius voxels originalLocation movingIndex)
         \<lparr>similarity = 0, displacement = Indeterminate\<rparr>
     }"

subsection \<open>The loop over the feature points of a work unit (lines 302 to 368)\<close>

definition processPoint :: "nat \<Rightarrow> nat \<Rightarrow> BlockMatchingImageFilter \<Rightarrow> BlockMatchingImageFilter option" where
  "processPoint voxels idx s =
     do {
       featurePoints \<leftarrow> FeaturePoints s;
       originalLocation \<leftarrow> GetPoint featurePoints idx;
       best \<leftarrow> searchPoint (FixedImage s) (MovingImage s) (m_BlockRadius s) (m_SearchRadius s)
                 voxels originalLocation;
       displacements \<leftarrow> m_DisplacementsVectorsArray s;
       displacements \<leftarrow> store displacements idx (displacement best);
       similarities \<leftarrow> m_SimilaritiesValuesArray s;
       similarities \<leftarrow> store similarities idx (Value (similarity best));
       Some (s\<lparr>m_DisplacementsVectorsArray := Some displacements,
               m_SimilaritiesValuesArray := Some similarities\<rparr>)
     }"

definition ThreadedGenerateData :: "BlockMatchingImageFilter \<Rightarrow> nat \<Rightarrow> BlockMatchingImageFilter option" where
  "ThreadedGenerateData s threadId =
     do {
       (first, count) \<leftarrow> workRange (m_PointsCount s) (NumberOfWorkUnits s) threadId;
       forEach [first ..< first + count] (processPoint (numberOfVoxelInBlock (m_BlockRadius s))) s
     }"


section \<open>BeforeThreadedGenerateData (lines 176 to 190)\<close>

text \<open>
  A method that may throw returns either the exception together with the state of the
  filter object at the throw, or the state it leaves on normal return.
\<close>

definition BeforeThreadedGenerateData ::
  "BlockMatchingImageFilter \<Rightarrow> (error \<times> BlockMatchingImageFilter) + BlockMatchingImageFilter" where
  "BeforeThreadedGenerateData s =
     (let s = s\<lparr>m_PointsCount := 0\<rparr>;
          s = (case FeaturePoints s of
                 None \<Rightarrow> s
               | Some featurePoints \<Rightarrow> s\<lparr>m_PointsCount := length featurePoints\<rparr>)
      in if m_PointsCount s < 1
         then Inl (ConfigurationError (InvalidNumberOfFeaturePoints (m_PointsCount s)), s)
         else Inr (s\<lparr>m_DisplacementsVectorsArray := Some (replicate (m_PointsCount s) Indeterminate),
                     m_SimilaritiesValuesArray := Some (replicate (m_PointsCount s) Indeterminate)\<rparr>))"

section \<open>The parallel phase\<close>

text \<open>
  Modelled from the spec: \<open>SetSingleMethodAndExecute\<close> of the multi-threader (not part
  of the source files considered here) invokes \<open>ThreaderCallback\<close>, hence
  \<open>ThreadedGenerateData\<close>, once for every work unit and returns when all of them have finished. Work units do not
  communicate, so an execution is determined by the order in which the work units take
  effect: the \<open>schedule\<close>, an arrangement of the work unit identifiers \<open>0 .. W - 1\<close>.
\<close>

definition isSchedule :: "nat \<Rightarrow> nat list \<Rightarrow> bool" where
  "isSchedule workUnitCount schedule = (sort schedule = [0 ..< workUnitCount])"

definition SingleMethodExecute :: "nat list \<Rightarrow> BlockMatchingImageFilter \<Rightarrow> BlockMatchingImageFilter option" where
  "SingleMethodExecute schedule s = forEach schedule (\<lambda>threadId s. ThreadedGenerateData s threadId) s"

section \<open>AfterThreadedGenerateData (lines 198 to 244)\<close>

text \<open>
  The four containers under construction: points and point data of the displacements,
  points and point data of the similarities.
\<close>

record Containers =
  displacementsPoints :: "nat \<rightharpoonup> PhysicalCoordinates"
  displacementsData :: "nat \<rightharpoonup> DisplacementsVector cell"
  similaritiesPoints :: "nat \<rightharpoonup> PhysicalCoordinates"
  similaritiesData :: "nat \<rightharpoonup> SimilaritiesValue cell"

definition emptyContainers :: Containers where
  "emptyContainers = \<lparr>displacementsPoints = Map.empty, displacementsData = Map.empty,
                       similaritiesPoints = Map.empty, similaritiesData = Map.empty\<rparr>"

text \<open>The body of the loop of lines 227 to 233.\<close>

definition insertElements ::
  "BlockMatchingImageFilter \<Rightarrow> PhysicalCoordinates list \<Rightarrow> nat \<Rightarrow> Containers \<Rightarrow> Containers option" where
  "insertElements s points i c =
     do {
       point \<leftarrow> load points i;
       displacements \<leftarrow> m_DisplacementsVectorsArray s;
       d \<leftarrow> load displacements i;
       similarities \<leftarrow> m_SimilaritiesValuesArray s;
       v \<leftarrow> load similarities i;
       Some (c\<lparr>displacementsPoints := (displacementsPoints c)(i \<mapsto> point),
               similaritiesPoints := (similaritiesPoints c)(i \<mapsto> point),
               displacementsData := (displacementsData c)(i \<mapsto> d),
               similaritiesData := (similaritiesData c)(i \<mapsto> v)\<rparr>)
     }"

definition AfterThreadedGenerateData :: "BlockMatchingImageFilter \<Rightarrow> BlockMatchingImageFilter option" where
  "AfterThreadedGenerateData s =
     do {
       s \<leftarrow> (case FeaturePoints s of
               None \<Rightarrow> Some s
             | Some points \<Rightarrow>
                 do {
                   c \<leftarrow> forEach [0 ..< m_PointsCount s] (insertElements s points) emptyContainers;
                   Some (s\<lparr>Displacements := \<lparr>Points = displacementsPoints c,
                                              PointData = displacementsData c\<rparr>,
                           Similarities := \<lparr>Points = similaritiesPoints c,
                                             PointData = similaritiesData c\<rparr>\<rparr>)
                 });
       Some (s\<lparr>m_DisplacementsVectorsArray := None, m_SimilaritiesValuesArray := None\<rparr>)
     }"

section \<open>GenerateData (lines 121 to 138)\<close>

definition GenerateData ::
  "nat list \<Rightarrow> BlockMatchingImageFilter \<Rightarrow> (error \<times> BlockMatchingImageFilter) + BlockMatchingImageFilter" where
  "GenerateData schedule s =
     (case BeforeThreadedGenerateData s of
        Inl failure \<Rightarrow> Inl failure
      | Inr s1 \<Rightarrow>
          (case SingleMethodExecute schedule s1 of
             None \<Rightarrow> Inl (UndefinedBehaviour, s1)
           | Some s2 \<Rightarrow>
               (case AfterThreadedGenerateData s2 of
                  None \<Rightarrow> Inl (UndefinedBehaviour, s2)
                | Some s3 \<Rightarrow> Inr s3)))"

section \<open>The execution requested by the pipeline\<close>

text \<open>
  Modelled from the spec: the pipeline machinery that decides when the filter runs
  (itk::ProcessObject, not part of the source files considered here) fails an execution
  before \<open>GenerateData\<close> is entered when a required input is absent. The constructor (lines 45
  to 48) names the required inputs: FeaturePoints, FixedImage and MovingImage.
\<close>

definition VerifyPreconditions ::
  "BlockMatchingImageFilter \<Rightarrow> (error \<times> BlockMatchingImageFilter) + BlockMatchingImageFilter" where
  "VerifyPreconditions s =
     (case FeaturePoints s of
        None \<Rightarrow> Inl (ConfigurationError (RequiredInputNotSet ''FeaturePoints''), s)
      | Some featurePoints \<Rightarrow>
          (case FixedImage s of
             None \<Rightarrow> Inl (ConfigurationError (RequiredInputNotSet ''FixedImage''), s)
           | Some fixedImage \<Rightarrow>
               (case MovingImage s of
                  None \<Rightarrow> Inl (ConfigurationError (RequiredInputNotSet ''MovingImage''), s)
                | Some movingImage \<Rightarrow> Inr s)))"

definition UpdateOutputData ::
  "nat list \<Rightarrow> BlockMatchingImageFilter \<Rightarrow> (error \<times> BlockMatchingImageFilter) + BlockMatchingImageFilter" where
  "UpdateOutputData schedule s =
     (case VerifyPreconditions s of
        Inl failure \<Rightarrow> Inl failure
      | Inr s \<Rightarrow> GenerateData schedule s)"

section \<open>Notions of the specification\<close>

text \<open>
  The voxel values of the block of a given radius anchored at an index of an image, in
  raster order.
\<close>

definition blockValues :: "Image \<Rightarrow> ImageSizeType \<Rightarrow> ImageIndexType \<Rightarrow> SimilaritiesValue list" where
  "blockValues img radius anchor =
     map (\<lambda>offset. GetPixelAt img (map2 (+) anchor offset)) (NeighborhoodOffsets radius)"

text \<open>
  The statistics of a pair of blocks in the words of the specification:
  \<open>mean = sum/count\<close>, \<open>var = sumSq - count*mean\<^sup>2\<close>,
  \<open>cov = cross - count*meanA*meanB\<close>, and
  \<open>similarity = cov\<^sup>2 / (varA*varB)\<close> if \<open>varA*varB \<noteq> 0\<close>, else \<open>0\<close>.
\<close>

definition blockMean :: "real list \<Rightarrow> real" where
  "blockMean A = sum_list A / real (length A)"

definition blockVariance :: "real list \<Rightarrow> real" where
  "blockVariance A = sum_list (map (\<lambda>a. a * a) A) - real (length A) * (blockMean A)\<^sup>2"

definition blockCovariance :: "real list \<Rightarrow> real list \<Rightarrow> real" where
  "blockCovariance A B = sum_list (map2 (*) A B) - real (length A) * blockMean A * blockMean B"

definition blockNCC :: "real list \<Rightarrow> real list \<Rightarrow> real" where
  "blockNCC A B =
     (if blockVariance A * blockVariance B \<noteq> 0
      then (blockCovariance A B)\<^sup>2 / (blockVariance A * blockVariance B)
      else 0)"

text \<open>A block of constant intensity: all its voxels have the same value.\<close>

definition constantBlock :: "real list \<Rightarrow> bool" where
  "constantBlock A = list_all (\<lambda>a. a = hd A) A"

text \<open>
  The state of the filter between \<open>BeforeThreadedGenerateData\<close> and
  \<open>AfterThreadedGenerateData\<close>: the inputs are present, and the point count and the
  lengths of the two allocated arrays are the number of feature points.
\<close>

definition prepared :: "BlockMatchingImageFilter \<Rightarrow> bool" where
  "prepared s =
     (case (FeaturePoints s, FixedImage s, MovingImage s,
            m_DisplacementsVectorsArray s, m_SimilaritiesValuesArray s) of
        (Some points, Some fixedImage, Some movingImage, Some displacements, Some similarities) \<Rightarrow>
          m_PointsCount s = length points \<and> length displacements = length points
          \<and> length similarities = length points
      | _ \<Rightarrow> False)"

text \<open>
  The similarity that the search computes for a candidate of a feature point, and the
  match it records when the candidate is retained (lines 360 to 363).
\<close>

definition candidateSimilarity ::
  "Image \<Rightarrow> Image \<Rightarrow> ImageSizeType \<Rightarrow> PhysicalCoordinates \<Rightarrow> ImageIndexType \<Rightarrow> SimilaritiesValue" where
  "candidateSimilarity fixedImage movingImage blockRadius originalLocation candidate =
     blockNCC (blockValues fixedImage blockRadius candidate)
              (blockValues movingImage blockRadius
                 (TransformPhysicalPointToIndex movingImage originalLocation))"

definition candidateMatch ::
  "Image \<Rightarrow> Image \<Rightarrow> ImageSizeType \<Rightarrow> PhysicalCoordinates \<Rightarrow> ImageIndexType \<Rightarrow> Match" where
  "candidateMatch fixedImage movingImage blockRadius originalLocation candidate =
     \<lparr>similarity = candidateSimilarity fixedImage movingImage blockRadius originalLocation candidate,
      displacement = Value (map2 (-) (TransformIndexToPhysicalPoint fixedImage candidate)
                                   originalLocation)\<rparr>"

text \<open>
  The search for one feature point as a function without failure: the same loop over the
  window, with the similarity of each candidate given by \<open>candidateSimilarity\<close>.
\<close>

definition bestMatch ::
  "Image \<Rightarrow> Image \<Rightarrow> ImageSizeType \<Rightarrow> ImageSizeType \<Rightarrow> PhysicalCoordinates \<Rightarrow> Match" where
  "bestMatch fixedImage movingImage blockRadius searchRadius originalLocation =
     fold (\<lambda>candidate best.
             if candidateSimilarity fixedImage movingImage blockRadius originalLocation candidate
                  \<ge> similarity best
             then candidateMatch fixedImage movingImage blockRadius originalLocation candidate
             else best)
          (windowCandidates fixedImage searchRadius originalLocation)
          \<lparr>similarity = 0, displacement = Indeterminate\<rparr>"

text \<open>The five running sums after the first \<open>n\<close> voxels of a pair of blocks.\<close>

definition sumsUpTo :: "(nat \<Rightarrow> real) \<Rightarrow> (nat \<Rightarrow> real) \<Rightarrow> nat \<Rightarrow> BlockSums" where
  "sumsUpTo F M n =
     \<lparr>fixedSum = (\<Sum>i<n. F i), fixedSumOfSquares = (\<Sum>i<n. F i * F i),
      movingSum = (\<Sum>i<n. M i), movingSumOfSquares = (\<Sum>i<n. M i * M i),
      covariance = (\<Sum>i<n. F i * M i)\<rparr>"

section \<open>Example inputs\<close>

text \<open>
  Concrete images of any dimension, used to evaluate the definitions: an image whose
  intensity is a linear ramp (the sum of the coordinates of the index), an image of constant
  intensity, and a ramp image whose grid is shifted by five voxels against physical space.
  Physical points are mapped to the voxel that contains them.
\<close>

definition rampImage :: Image where
  "rampImage = \<lparr>GetPixelAt = (\<lambda>index. of_int (sum_list index)),
                TransformPhysicalPointToIndex = map floor,
                TransformIndexToPhysicalPoint = map of_int\<rparr>"

definition flatImage :: Image where
  "flatImage = \<lparr>GetPixelAt = (\<lambda>index. 7),
                TransformPhysicalPointToIndex = map floor,
                TransformIndexToPhysicalPoint = map of_int\<rparr>"

definition shiftedImage :: Image where
  "shiftedImage = \<lparr>GetPixelAt = (\<lambda>index. of_int (sum_list index)),
                   TransformPhysicalPointToIndex = map (\<lambda>x. floor x + 5),
                   TransformIndexToPhysicalPoint = map (\<lambda>i. of_int (i - 5))\<rparr>"

text \<open>
  A filter with three feature points on a one-dimensional ramp image and two work units,
  before its execution, and a state of that filter in which the two arrays are allocated
  and hold three entries each (the entries are arbitrary values).
\<close>

definition exampleFilter :: BlockMatchingImageFilter where
  "exampleFilter =
     \<lparr>m_BlockRadius = [1], m_SearchRadius = [1], m_PointsCount = 0,
      m_DisplacementsVectorsArray = None, m_SimilaritiesValuesArray = None,
      NumberOfWorkUnits = 2,
      FeaturePoints = Some [[0], [4], [9]],
      FixedImage = Some rampImage, MovingImage = Some rampImage,
      Displacements = \<lparr>Points = Map.empty, PointData = Map.empty\<rparr>,
      Similarities = \<lparr>Points = Map.empty, PointData = Map.empty\<rparr>\<rparr>"

definition exampleJoined :: BlockMatchingImageFilter where
  "exampleJoined =
     exampleFilter\<lparr>m_PointsCount := 3,
                   m_DisplacementsVectorsArray := Some [Value [1], Value [-1], Value [0]],
                   m_SimilaritiesValuesArray := Some [Value 1, Value 1, Value 0]\<rparr>"

section \<open>The search in binary64 arithmetic\<close>

text \<open>
  With the default template arguments \<open>SimilaritiesValue\<close> and the coordinates of a
  physical point are \<open>double\<close>. This part embeds lines 304 to 368 a second time, with every
  addition, subtraction, multiplication, division and comparison of the code as the IEEE 754
  binary64 operation (round to nearest, ties to even), and with the content of the local
  \<open>displacement\<close>, which line 312 declares without an initialiser, as a parameter. The names
  of this part carry the suffix \<open>64\<close>.
\<close>

subsection \<open>Binary64 numbers and rounding\<close>

text \<open>
  A binary64 datum is a finite number, an infinity or a NaN. A finite number is carried by
  the real it denotes; the two zeros are not distinguished (the code compares and adds
  them, which does not tell them apart, and never divides by one: see \<open>checkedDivide64\<close>).
\<close>

datatype double = Finite real | PlusInfinity | MinusInfinity | NaN

text \<open>The integer nearest to \<open>y\<close>, the even one of the two when \<open>y\<close> lies half way.\<close>

definition roundHalfEven :: "real \<Rightarrow> int" where
  "roundHalfEven y =
     (let f = \<lfloor>y\<rfloor>; d = y - of_int f
      in if d < 1 / 2 then f else if 1 / 2 < d then f + 1 else if even f then f else f + 1)"

text \<open>
  The exponent \<open>e\<close> of the unit in the last place of the binade of \<open>x\<close>: the binary64
  numbers of that binade are the multiples \<open>m * 2\<^sup>e\<close> with \<open>\<bar>m\<bar> < 2\<^sup>5\<^sup>3\<close>. The least
  exponent, \<open>-1074\<close>, is that of the subnormal numbers; there is none for
  \<open>2\<^sup>1\<^sup>0\<^sup>2\<^sup>4 \<le> \<bar>x\<bar>\<close>.
\<close>

definition ulpExponent :: "real \<Rightarrow> int option" where
  "ulpExponent x = find (\<lambda>e. \<bar>x\<bar> < 2 powi (e + 53)) [-1074 .. 971]"

definition overflow :: "real \<Rightarrow> double" where
  "overflow x = (if 0 < x then PlusInfinity else MinusInfinity)"

text \<open>The binary64 datum to which the real \<open>x\<close> is rounded.\<close>

definition rnd :: "real \<Rightarrow> double" where
  "rnd x =
     (case ulpExponent x of
        None \<Rightarrow> overflow x
      | Some e \<Rightarrow>
          (let y = of_int (roundHalfEven (x / 2 powi e)) * 2 powi e
           in if 2 ^ 1024 \<le> \<bar>y\<bar> then overflow x else Finite y))"

subsection \<open>The operations of the code\<close>

fun dneg :: "double \<Rightarrow> double" where
  "dneg (Finite x) = Finite (- x)"
| "dneg PlusInfinity = MinusInfinity"
| "dneg MinusInfinity = PlusInfinity"
| "dneg NaN = NaN"

text \<open>\<open>a + b\<close> and \<open>a - b\<close>.\<close>

fun dadd :: "double \<Rightarrow> double \<Rightarrow> double" where
  "dadd NaN b = NaN"
| "dadd a NaN = NaN"
| "dadd PlusInfinity MinusInfinity = NaN"
| "dadd MinusInfinity PlusInfinity = NaN"
| "dadd PlusInfinity b = PlusInfinity"
| "dadd a PlusInfinity = PlusInfinity"
| "dadd MinusInfinity b = MinusInfinity"
| "dadd a MinusInfinity = MinusInfinity"
| "dadd (Finite x) (Finite y) = rnd (x + y)"

definition dsub :: "double \<Rightarrow> double \<Rightarrow> double" where
  "dsub a b = dadd a (dneg b)"

text \<open>The sign of a datum that is not a NaN: \<open>1\<close>, \<open>0\<close> or \<open>-1\<close>.\<close>

fun dsgn :: "double \<Rightarrow> real" where
  "dsgn (Finite x) = sgn x"
| "dsgn PlusInfinity = 1"
| "dsgn MinusInfinity = - 1"
| "dsgn NaN = 0"

text \<open>The infinity of sign \<open>s\<close>; the invalid operations (\<open>0 * \<infinity>\<close>, \<open>0 / 0\<close>) give a NaN.\<close>

definition infinity :: "real \<Rightarrow> double" where
  "infinity s = (if s = 0 then NaN else if 0 < s then PlusInfinity else MinusInfinity)"

text \<open>\<open>a * b\<close>.\<close>

fun dmul :: "double \<Rightarrow> double \<Rightarrow> double" where
  "dmul NaN b = NaN"
| "dmul a NaN = NaN"
| "dmul (Finite x) (Finite y) = rnd (x * y)"
| "dmul a b = infinity (dsgn a * dsgn b)"

text \<open>\<open>a / b\<close>.\<close>

fun ddiv :: "double \<Rightarrow> double \<Rightarrow> double" where
  "ddiv NaN b = NaN"
| "ddiv a NaN = NaN"
| "ddiv (Finite x) (Finite y) = (if y = 0 then infinity (sgn x) else rnd (x / y))"
| "ddiv (Finite x) b = Finite 0"
| "ddiv a (Finite y) = infinity (dsgn a * (if y < 0 then - 1 else 1))"
| "ddiv a b = NaN"

text \<open>\<open>a >= b\<close>: false when either operand is a NaN.\<close>

fun dge :: "double \<Rightarrow> double \<Rightarrow> bool" where
  "dge NaN b = False"
| "dge a NaN = False"
| "dge PlusInfinity b = True"
| "dge a MinusInfinity = True"
| "dge (Finite x) (Finite y) = (y \<le> x)"
| "dge a b = False"

text \<open>The conversion of the unsigned \<open>numberOfVoxelInBlock\<close> to \<open>double\<close> in lines 346 to 350.\<close>

definition ofCount :: "nat \<Rightarrow> double" where
  "ofCount n = rnd (real n)"

subsection \<open>The statistics of one candidate (lines 329 to 356)\<close>

record Image64 =
  GetPixelAt64 :: "ImageIndexType \<Rightarrow> double"
  TransformPhysicalPointToIndex64 :: "double list \<Rightarrow> ImageIndexType"
  TransformIndexToPhysicalPoint64 :: "ImageIndexType \<Rightarrow> double list"

definition GetPixel64 :: "Image64 \<Rightarrow> ImageSizeType \<Rightarrow> ImageIndexType \<Rightarrow> nat \<Rightarrow> double option" where
  "GetPixel64 img radius position i =
     (let offsets = NeighborhoodOffsets radius
      in if i < length offsets
         then Some (GetPixelAt64 img (map2 (+) position (offsets ! i)))
         else None)"

record BlockSums64 =
  fixedSum64 :: double
  fixedSumOfSquares64 :: double
  movingSum64 :: double
  movingSumOfSquares64 :: double
  covariance64 :: double

definition zeroSums64 :: BlockSums64 where
  "zeroSums64 = \<lparr>fixedSum64 = Finite 0, fixedSumOfSquares64 = Finite 0, movingSum64 = Finite 0,
                 movingSumOfSquares64 = Finite 0, covariance64 = Finite 0\<rparr>"

text \<open>The body of the loop over the voxels of the block, lines 338 to 344.\<close>

definition accumulateVoxel64 ::
  "Image64 \<Rightarrow> Image64 \<Rightarrow> ImageSizeType \<Rightarrow> ImageIndexType \<Rightarrow> ImageIndexType \<Rightarrow> nat \<Rightarrow> BlockSums64 \<Rightarrow> BlockSums64 option" where
  "accumulateVoxel64 fixedImage movingImage blockRadius windowIndex centerIndex i acc =
     do {
       fixedValue \<leftarrow> GetPixel64 fixedImage blockRadius windowIndex i;
       movingValue \<leftarrow> GetPixel64 movingImage blockRadius centerIndex i;
       Some (acc\<lparr>movingSum64 := dadd (movingSum64 acc) movingValue,
                 fixedSum64 := dadd (fixedSum64 acc) fixedValue,
                 movingSumOfSquares64 := dadd (movingSumOfSquares64 acc) (dmul movingValue movingValue),
                 fixedSumOfSquares64 := dadd (fixedSumOfSquares64 acc) (dmul fixedValue fixedValue),
                 covariance64 := dadd (covariance64 acc) (dmul fixedValue movingValue)\<rparr>)
     }"

definition blockSums64 ::
  "Image64 \<Rightarrow> Image64 \<Rightarrow> ImageSizeType \<Rightarrow> nat \<Rightarrow> ImageIndexType \<Rightarrow> ImageIndexType \<Rightarrow> BlockSums64 option" where
  "blockSums64 fixedImage movingImage blockRadius voxels windowIndex centerIndex =
     forEach [0 ..< voxels]
       (accumulateVoxel64 fixedImage movingImage blockRadius windowIndex centerIndex) zeroSums64"

text \<open>A division whose divisor compares equal to zero surfaces as \<open>None\<close>.\<close>

definition checkedDivide64 :: "double \<Rightarrow> double \<Rightarrow> double option" where
  "checkedDivide64 a b = (if b = Finite 0 then None else Some (ddiv a b))"

text \<open>
  Lines 346 to 356. \<open>numberOfVoxelInBlock * fixedMean * fixedMean\<close> associates to the
  left; a product of variances that is a NaN compares unequal to \<open>0.0\<close>.
\<close>

definition blockSimilarity64 :: "nat \<Rightarrow> BlockSums64 \<Rightarrow> double option" where
  "blockSimilarity64 voxels stats =
     do {
       fixedMean \<leftarrow> checkedDivide64 (fixedSum64 stats) (ofCount voxels);
       movingMean \<leftarrow> checkedDivide64 (movingSum64 stats) (ofCount voxels);
       let fixedVariance =
             dsub (fixedSumOfSquares64 stats) (dmul (dmul (ofCount voxels) fixedMean) fixedMean);
       let movingVariance =
             dsub (movingSumOfSquares64 stats) (dmul (dmul (ofCount voxels) movingMean) movingMean);
       let cov = dsub (covariance64 stats) (dmul (dmul (ofCount voxels) fixedMean) movingMean);
       (if dmul fixedVariance movingVariance \<noteq> Finite 0
        then checkedDivide64 (dmul cov cov) (dmul fixedVariance movingVariance)
        else Some (Finite 0))
     }"

subsection \<open>The search for one feature point (lines 304 to 365)\<close>

text \<open>
  The two locals of lines 309 and 312. \<open>displacement64\<close> is the content of the local
  \<open>displacement\<close>, assigned or not.
\<close>

record Match64 =
  similarity64 :: double
  displacement64 :: "double list"

text \<open>The body of the loop over the window, lines 327 to 365.\<close>

definition visitCandidate64 ::
  "Image64 \<Rightarrow> Image64 \<Rightarrow> ImageSizeType \<Rightarrow> nat \<Rightarrow> double list \<Rightarrow> ImageIndexType \<Rightarrow> ImageIndexType \<Rightarrow> Match64 \<Rightarrow> Match64 option" where
  "visitCandidate64 fixedImage movingImage blockRadius voxels originalLocation centerIndex windowIndex best =
     do {
       stats \<leftarrow> blockSums64 fixedImage movingImage blockRadius voxels windowIndex centerIndex;
       sim \<leftarrow> blockSimilarity64 voxels stats;
       Some (if dge sim (similarity64 best)
             then \<lparr>similarity64 = sim,
                   displacement64 = map2 dsub (TransformIndexToPhysicalPoint64 fixedImage windowIndex)
                                              originalLocation\<rparr>
             else best)
     }"

definition windowCandidates64 :: "Image64 \<Rightarrow> ImageSizeType \<Rightarrow> double list \<Rightarrow> ImageIndexType list" where
  "windowCandidates64 fixedImage searchRadius originalLocation =
     regionIndices (windowStart (TransformPhysicalPointToIndex64 fixedImage originalLocation) searchRadius)
                   (windowSize searchRadius)"

text \<open>
  Lines 304 to 365 for one feature point. \<open>similarity{}\<close> of line 309 is zero;
  \<open>DisplacementsVector displacement;\<close> of line 312 has no initialiser (the default
  constructor of \<open>itk::Vector\<close> leaves the components as they are), so the local starts with
  the content \<open>uninitialised\<close> of the storage it occupies.
\<close>

definition searchPoint64 ::
  "double list \<Rightarrow> Image64 option \<Rightarrow> Image64 option \<Rightarrow> ImageSizeType \<Rightarrow> ImageSizeType \<Rightarrow> nat \<Rightarrow> double list \<Rightarrow> Match64 option" where
  "searchPoint64 uninitialised fixedImagePointer movingImagePointer blockRadius searchRadius voxels originalLocation =
     do {
       fixedImage \<leftarrow> fixedImagePointer;
       movingImage \<leftarrow> movingImagePointer;
       let movingIndex = TransformPhysicalPointToIndex64 movingImage originalLocation;
       forEach (windowCandidates64 fixedImage searchRadius originalLocation)
         (visitCandidate64 fixedImage movingImage blockRadius voxels originalLocation movingIndex)
         \<lparr>similarity64 = Finite 0, displacement64 = uninitialised\<rparr>
     }"

subsection \<open>The loop over the feature points of a work unit (lines 302 to 368)\<close>






subsection \<open>Notions of the specification in binary64 arithmetic\<close>

text \<open>The intensities of the block of radius \<open>radius\<close> anchored at \<open>anchor\<close>, in iterator order.\<close>

definition blockValues64 :: "Image64 \<Rightarrow> ImageSizeType \<Rightarrow> ImageIndexType \<Rightarrow> double list" where
  "blockValues64 img radius anchor =
     map (\<lambda>offset. GetPixelAt64 img (map2 (+) anchor offset)) (NeighborhoodOffsets radius)"

text \<open>
  The five sums of a pair of blocks \<open>A\<close> (of the fixed image) and \<open>B\<close> (of the moving
  image), each accumulated from zero in the order of the voxels.
\<close>

definition accumulate64 :: "double list \<Rightarrow> double" where
  "accumulate64 xs = foldl dadd (Finite 0) xs"

definition sums64 :: "double list \<Rightarrow> double list \<Rightarrow> BlockSums64" where
  "sums64 A B =
     \<lparr>fixedSum64 = accumulate64 A,
      fixedSumOfSquares64 = accumulate64 (map (\<lambda>a. dmul a a) A),
      movingSum64 = accumulate64 B,
      movingSumOfSquares64 = accumulate64 (map (\<lambda>b. dmul b b) B),
      covariance64 = accumulate64 (map2 dmul A B)\<rparr>"

text \<open>
  The variance and the covariance as the code computes them from the sums of \<open>n\<close> voxels:
  \<open>sumSq - n * mean * mean\<close> and \<open>cross - n * meanA * meanB\<close>.
\<close>

definition mean64 :: "nat \<Rightarrow> double \<Rightarrow> double" where
  "mean64 n s = ddiv s (ofCount n)"

definition variance64 :: "nat \<Rightarrow> double \<Rightarrow> double \<Rightarrow> double" where
  "variance64 n s q = dsub q (dmul (dmul (ofCount n) (mean64 n s)) (mean64 n s))"

definition centredCovariance64 :: "nat \<Rightarrow> double \<Rightarrow> double \<Rightarrow> double \<Rightarrow> double" where
  "centredCovariance64 n sa sb c = dsub c (dmul (dmul (ofCount n) (mean64 n sa)) (mean64 n sb))"

definition fixedVariance64 :: "nat \<Rightarrow> BlockSums64 \<Rightarrow> double" where
  "fixedVariance64 n stats = variance64 n (fixedSum64 stats) (fixedSumOfSquares64 stats)"

definition movingVariance64 :: "nat \<Rightarrow> BlockSums64 \<Rightarrow> double" where
  "movingVariance64 n stats = variance64 n (movingSum64 stats) (movingSumOfSquares64 stats)"

definition covarianceOf64 :: "nat \<Rightarrow> BlockSums64 \<Rightarrow> double" where
  "covarianceOf64 n stats =
     centredCovariance64 n (fixedSum64 stats) (movingSum64 stats) (covariance64 stats)"

text \<open>The similarity of a pair of blocks with the sums \<open>stats\<close> over \<open>n\<close> voxels.\<close>

definition similarityOf64 :: "nat \<Rightarrow> BlockSums64 \<Rightarrow> double" where
  "similarityOf64 n stats =
     (if dmul (fixedVariance64 n stats) (movingVariance64 n stats) \<noteq> Finite 0
      then ddiv (dmul (covarianceOf64 n stats) (covarianceOf64 n stats))
                (dmul (fixedVariance64 n stats) (movingVariance64 n stats))
      else Finite 0)"

text \<open>
  The similarity and the match of a candidate of the window of the feature point at
  \<open>originalLocation\<close>: the block of the fixed image anchored at the candidate against the
  block of the moving image anchored at the index of the point in the moving image.
\<close>

definition candidateSimilarity64 ::
  "Image64 \<Rightarrow> Image64 \<Rightarrow> ImageSizeType \<Rightarrow> double list \<Rightarrow> ImageIndexType \<Rightarrow> double" where
  "candidateSimilarity64 fixedImage movingImage blockRadius originalLocation candidate =
     similarityOf64 (numberOfVoxelInBlock blockRadius)
       (sums64 (blockValues64 fixedImage blockRadius candidate)
               (blockValues64 movingImage blockRadius
                  (TransformPhysicalPointToIndex64 movingImage originalLocation)))"

definition candidateMatch64 ::
  "Image64 \<Rightarrow> Image64 \<Rightarrow> ImageSizeType \<Rightarrow> double list \<Rightarrow> ImageIndexType \<Rightarrow> Match64" where
  "candidateMatch64 fixedImage movingImage blockRadius originalLocation candidate =
     \<lparr>similarity64 = candidateSimilarity64 fixedImage movingImage blockRadius originalLocation candidate,
      displacement64 = map2 dsub (TransformIndexToPhysicalPoint64 fixedImage candidate) originalLocation\<rparr>"

subsection \<open>Example inputs in binary64\<close>

text \<open>
  Images whose grid coincides with physical space (a physical point is mapped to the voxel
  that contains it): an image of constant intensity, an image whose intensity is the sum of
  the coordinates of the index, and an image that repeats a finite sequence of intensities
  along the sum of the coordinates.
\<close>

fun voxelOf :: "double \<Rightarrow> int" where
  "voxelOf (Finite x) = \<lfloor>x\<rfloor>"
| "voxelOf a = 0"

definition constantImage64 :: "double \<Rightarrow> Image64" where
  "constantImage64 v = \<lparr>GetPixelAt64 = (\<lambda>index. v),
                        TransformPhysicalPointToIndex64 = map voxelOf,
                        TransformIndexToPhysicalPoint64 = map (\<lambda>i. Finite (of_int i))\<rparr>"

definition rampImage64 :: Image64 where
  "rampImage64 = \<lparr>GetPixelAt64 = (\<lambda>index. Finite (of_int (sum_list index))),
                  TransformPhysicalPointToIndex64 = map voxelOf,
                  TransformIndexToPhysicalPoint64 = map (\<lambda>i. Finite (of_int i))\<rparr>"

definition periodicImage64 :: "real list \<Rightarrow> Image64" where
  "periodicImage64 intensities =
     \<lparr>GetPixelAt64 = (\<lambda>index. Finite (intensities ! nat (sum_list index mod int (length intensities)))),
      TransformPhysicalPointToIndex64 = map voxelOf,
      TransformIndexToPhysicalPoint64 = map (\<lambda>i. Finite (of_int i))\<rparr>"

text \<open>The binary64 number nearest to one tenth, \<open>0.1\<close> in the source text of a program.\<close>

definition tenth :: double where
  "tenth = rnd (1 / 10)"



section \<open>The partition of the feature points into work units\<close>

lemma workRange_eq:
  "0 < W \<Longrightarrow> workRange N W w =
     Some (w * (N div W), if w + 1 = W then N div W + N mod W else N div W)"
  by (simp add: workRange_def Let_def)

lemma workIndices_inner:
  "w + 1 < W \<Longrightarrow> workIndices N W w = [w * (N div W) ..< w * (N div W) + N div W]"
  by (simp add: workIndices_def workRange_eq)

lemma last_range_end: "k * (N div Suc k) + (N div Suc k + N mod Suc k) = N"
  using div_mult_mod_eq [of N "Suc k"] by (simp add: algebra_simps)

lemma workIndices_last:
  "workIndices N (Suc k) k = [k * (N div Suc k) ..< N]"
  by (simp add: workIndices_def workRange_eq last_range_end)

lemma concat_blocks: "concat (map (\<lambda>w. [w * b ..< w * b + b]) [0..<k]) = [0 ..< k * b]"
proof (induction k)
  case 0
  then show ?case by simp
next
  case (Suc k)
  have "[0 ..< k * b] @ [k * b ..< k * b + b] = [0 ..< k * b + b]"
    using upt_add_eq_append [of 0 "k * b" b] by simp
  with Suc show ?case by (simp add: add.commute)
qed

lemma concat_workIndices:
  assumes "0 < W"
  shows "concat (map (workIndices N W) [0..<W]) = [0..<N]"
proof -
  obtain k where W: "W = Suc k" using assms by (cases W) auto
  let ?b = "N div Suc k"
  have inner: "map (workIndices N (Suc k)) [0..<k] = map (\<lambda>w. [w * ?b ..< w * ?b + ?b]) [0..<k]"
    by (rule map_cong [OF refl]) (simp add: workIndices_inner)
  have le: "k * ?b \<le> N"
    using last_range_end [of k N] by linarith
  then obtain r where r: "N = k * ?b + r"
    using le_Suc_ex by blast
  have "concat (map (workIndices N (Suc k)) [0..<Suc k]) = [0 ..< k * ?b] @ [k * ?b ..< N]"
    by (simp add: inner concat_blocks workIndices_last)
  also have "\<dots> = [0 ..< N]"
    using upt_add_eq_append [of 0 "k * ?b" r] r by simp
  finally show ?thesis by (simp add: W)
qed

lemma workIndices_lower:
  "0 < W \<Longrightarrow> i \<in> set (workIndices N W w) \<Longrightarrow> w * (N div W) \<le> i"
  by (simp add: workIndices_def workRange_eq)

lemma workIndices_upper:
  "w + 1 < W \<Longrightarrow> i \<in> set (workIndices N W w) \<Longrightarrow> i < (w + 1) * (N div W)"
  by (simp add: workIndices_inner)

lemma workIndices_disjoint_less:
  assumes "v < w" and "w < W"
  shows "set (workIndices N W v) \<inter> set (workIndices N W w) = {}"
proof -
  have "False" if iv: "i \<in> set (workIndices N W v)" and iw: "i \<in> set (workIndices N W w)" for i
  proof -
    have "i < (v + 1) * (N div W)"
      using assms iv by (intro workIndices_upper) auto
    moreover have "(v + 1) * (N div W) \<le> w * (N div W)"
      using assms by (intro mult_le_mono1) auto
    moreover have "w * (N div W) \<le> i"
      using assms iw by (intro workIndices_lower) auto
    ultimately show False by linarith
  qed
  then show ?thesis by blast
qed

lemma workIndices_disjoint:
  assumes "v < W" and "w < W" and "v \<noteq> w"
  shows "set (workIndices N W v) \<inter> set (workIndices N W w) = {}"
proof (cases "v < w")
  case True
  then show ?thesis using assms by (simp add: workIndices_disjoint_less)
next
  case False
  then have "w < v" using assms by simp
  then have "set (workIndices N W w) \<inter> set (workIndices N W v) = {}"
    using assms by (simp add: workIndices_disjoint_less)
  then show ?thesis by blast
qed

lemma workIndices_union:
  assumes "0 < W"
  shows "(\<Union>w<W. set (workIndices N W w)) = {0..<N}"
proof -
  have "set (concat (map (workIndices N W) [0..<W])) = set [0..<N]"
    using assms by (simp only: concat_workIndices)
  moreover have "{0..<W} = {..<W}" by auto
  ultimately show ?thesis by simp
qed

lemma workRange_no_overflow:
  assumes "w < W" and "workRange N W w = Some (first, count)"
  shows "w + 1 \<le> W \<and> w * (N div W) \<le> N \<and> count \<le> N \<and> first + count \<le> N"
proof -
  have W: "0 < W" using assms by simp
  have sub: "set (workIndices N W w) \<subseteq> {0..<N}"
    using workIndices_union [OF W, of N] assms(1) by blast
  have idx: "workIndices N W w = [first ..< first + count]"
    using assms by (simp add: workIndices_def)
  have fc: "first + count \<le> N"
  proof (cases "count = 0")
    case True
    have "w * (N div W) \<le> W * (N div W)" using assms by (intro mult_le_mono1) simp
    also have "\<dots> \<le> N" by simp
    finally show ?thesis using assms True W by (simp add: workRange_eq)
  next
    case False
    then have "first + count - 1 \<in> set (workIndices N W w)" by (simp add: idx)
    then have "first + count - 1 < N" using sub by auto
    then show ?thesis using False by simp
  qed
  moreover have "first = w * (N div W)" using assms W by (simp add: workRange_eq)
  ultimately show ?thesis using assms by simp
qed

text \<open>
  Claim C3. For every point count \<open>N \<ge> 1\<close> and work unit count \<open>W \<ge> 1\<close>: work unit
  \<open>w\<close> gets the range that starts at \<open>w * (N div W)\<close> and counts \<open>N div W\<close> points if
  \<open>w < W - 1\<close>, and \<open>N div W + N mod W\<close> points if it is the last one; the ranges taken
  in the order of the work units and laid end to end are exactly \<open>0, 1, ..., N - 1\<close>
  (they are contiguous and cover every index once), they are pairwise disjoint, and their
  union is \<open>[0, N)\<close>.
\<close>

theorem partition_ranges:
  assumes "1 \<le> N" and "1 \<le> W"
  shows "(\<forall>w<W. workRange N W w =
            Some (w * (N div W), if w < W - 1 then N div W else N div W + N mod W))
       \<and> concat (map (workIndices N W) [0..<W]) = [0..<N]
       \<and> (\<forall>v<W. \<forall>w<W. v \<noteq> w \<longrightarrow> set (workIndices N W v) \<inter> set (workIndices N W w) = {})
       \<and> (\<Union>w<W. set (workIndices N W w)) = {0..<N}"
proof -
  have W: "0 < W" using assms by simp
  have "workRange N W w = Some (w * (N div W), if w < W - 1 then N div W else N div W + N mod W)"
    if "w < W" for w
  proof -
    have "w + 1 = W \<longleftrightarrow> \<not> w < W - 1" using that by auto
    then show ?thesis by (simp add: workRange_eq [OF W])
  qed
  then have ranges: "\<forall>w<W. workRange N W w =
      Some (w * (N div W), if w < W - 1 then N div W else N div W + N mod W)"
    by simp
  have disjoint: "\<forall>v<W. \<forall>w<W. v \<noteq> w \<longrightarrow>
      set (workIndices N W v) \<inter> set (workIndices N W w) = {}"
    by (simp add: workIndices_disjoint)
  show ?thesis
    using ranges concat_workIndices [OF W, of N] disjoint workIndices_union [OF W, of N]
    by (intro conjI)
qed

theorem partition_ranges_witness:
  "map (workRange 7 3) [0, 1, 2] = [Some (0, 2), Some (2, 2), Some (4, 3)]
   \<and> concat (map (workIndices 7 3) [0..<3]) = [0..<7]
   \<and> (\<Union>w<3. set (workIndices 7 3 w)) = {0..<7}"
proof -
  have N: "(1::nat) \<le> 7" and W: "(1::nat) \<le> 3" by simp_all
  have ranges: "map (workRange 7 3) [0, 1, 2] = [Some (0, 2), Some (2, 2), Some (4, 3)]"
    by (simp add: workRange_def)
  show ?thesis using partition_ranges [OF N W] ranges by (intro conjI) (elim conjE, assumption)+
qed

section \<open>Loops, regions and blocks\<close>

lemma forEach_append:
  "forEach (xs @ ys) body s =
     (case forEach xs body s of None \<Rightarrow> None | Some s' \<Rightarrow> forEach ys body s')"
  by (induction xs arbitrary: s) (auto split: option.splits)

lemma length_regionIndices:
  "length ss = length ns \<Longrightarrow> length (regionIndices ss ns) = prod_list ns"
proof (induction ss ns rule: list_induct2)
  case Nil
  then show ?case by simp
next
  case (Cons s ss n ns)
  have "sum_list (map (\<lambda>rest. n) (regionIndices ss ns)) = n * length (regionIndices ss ns)"
    by (simp add: sum_list_triv)
  with Cons show ?case by (simp add: length_concat comp_def)
qed

lemma fold_times: "fold (\<lambda>r n. n * g r) rs (a::nat) = a * prod_list (map g rs)"
  by (induction rs arbitrary: a) (simp_all add: mult.assoc)

lemma numberOfVoxelInBlock_prod:
  "numberOfVoxelInBlock radius = prod_list (map (\<lambda>r. r + 1 + r) radius)"
  unfolding numberOfVoxelInBlock_def by (simp only: fold_times [of "\<lambda>r. r + 1 + r"] mult_1)

lemma length_NeighborhoodOffsets:
  "length (NeighborhoodOffsets radius) = numberOfVoxelInBlock radius"
  by (simp add: NeighborhoodOffsets_def length_regionIndices numberOfVoxelInBlock_prod)

lemma numberOfVoxelInBlock_pos: "0 < numberOfVoxelInBlock radius"
proof -
  have "0 < prod_list (map (\<lambda>r. r + 1 + r) rs)" for rs :: "nat list"
    by (induction rs) simp_all
  then show ?thesis by (simp only: numberOfVoxelInBlock_prod)
qed

lemma length_blockValues:
  "length (blockValues img radius anchor) = numberOfVoxelInBlock radius"
  by (simp add: blockValues_def length_NeighborhoodOffsets)

lemma GetPixel_blockValues:
  "i < numberOfVoxelInBlock radius \<Longrightarrow>
     GetPixel img radius position i = Some (blockValues img radius position ! i)"
  by (simp add: GetPixel_def blockValues_def length_NeighborhoodOffsets)

lemma blockSums_upto:
  "n \<le> numberOfVoxelInBlock radius \<Longrightarrow>
     forEach [0 ..< n] (accumulateVoxel fixedImage movingImage radius windowIndex centerIndex) zeroSums =
       Some (sumsUpTo (\<lambda>i. blockValues fixedImage radius windowIndex ! i)
                      (\<lambda>i. blockValues movingImage radius centerIndex ! i) n)"
proof (induction n)
  case 0
  then show ?case by (simp add: sumsUpTo_def zeroSums_def)
next
  case (Suc n)
  then show ?case
    by (simp add: forEach_append accumulateVoxel_def GetPixel_blockValues sumsUpTo_def)
qed

lemma sum_nth_eq_sum_list: "(\<Sum>i<length xs. f (xs ! i)) = sum_list (map f xs)"
proof -
  have "sum_list (map f xs) = (\<Sum>i = 0..<length xs. map f xs ! i)"
    using sum_list_sum_nth [of "map f xs"] by simp
  also have "\<dots> = (\<Sum>i = 0..<length xs. f (xs ! i))"
    by (rule sum.cong) simp_all
  finally show ?thesis by (simp add: atLeast0LessThan)
qed

section \<open>Variance, covariance and the Cauchy-Schwarz inequality\<close>

lemma Cauchy_Schwarz_sum:
  fixes x y :: "nat \<Rightarrow> real"
  shows "(\<Sum>i<n. x i * y i)\<^sup>2 \<le> (\<Sum>i<n. x i * x i) * (\<Sum>i<n. y i * y i)"
proof -
  let ?A = "\<Sum>i<n. x i * x i" and ?B = "\<Sum>i<n. y i * y i" and ?C = "\<Sum>i<n. x i * y i"
  have quad: "0 \<le> ?A * t\<^sup>2 - 2 * ?C * t + ?B" for t
  proof -
    have "0 \<le> (\<Sum>i<n. (x i * t - y i)\<^sup>2)" by (simp add: sum_nonneg)
    also have "(\<Sum>i<n. (x i * t - y i)\<^sup>2)
        = (\<Sum>i<n. (x i * x i) * t\<^sup>2 - (x i * y i) * (2 * t) + y i * y i)"
      by (rule sum.cong) (simp_all add: power2_eq_square algebra_simps)
    also have "\<dots> = ?A * t\<^sup>2 - ?C * (2 * t) + ?B"
      by (simp only: sum.distrib sum_subtractf sum_distrib_right)
    finally show ?thesis by (simp add: algebra_simps)
  qed
  have A0: "0 \<le> ?A" by (simp add: sum_nonneg)
  show ?thesis
  proof (cases "?A = 0")
    case True
    have "x i * x i = 0" if "i < n" for i
      using True that sum_nonneg_eq_0_iff [of "{..<n}" "\<lambda>i. x i * x i"] by simp
    then have "x i * y i = 0" if "i < n" for i using that by fastforce
    then have "?C = 0" by (intro sum.neutral) simp
    with True show ?thesis by simp
  next
    case False
    then have pos: "0 < ?A" using A0 by simp
    have "0 \<le> ?A * (?C / ?A)\<^sup>2 - 2 * ?C * (?C / ?A) + ?B" by (rule quad)
    also have "?A * (?C / ?A)\<^sup>2 - 2 * ?C * (?C / ?A) + ?B = ?B - ?C\<^sup>2 / ?A"
      using pos by (simp add: power2_eq_square field_simps)
    finally have "?C\<^sup>2 / ?A \<le> ?B" by simp
    then show ?thesis using pos by (simp add: field_simps)
  qed
qed

lemma variance_centered:
  fixes a :: "nat \<Rightarrow> real"
  assumes "0 < n"
  shows "(\<Sum>i<n. a i * a i) - real n * ((\<Sum>i<n. a i) / real n)\<^sup>2
         = (\<Sum>i<n. (a i - (\<Sum>i<n. a i) / real n) * (a i - (\<Sum>i<n. a i) / real n))"
proof -
  define m where "m = (\<Sum>i<n. a i) / real n"
  have S: "(\<Sum>i<n. a i) = real n * m" using assms by (simp add: m_def)
  have "(\<Sum>i<n. (a i - m) * (a i - m)) = (\<Sum>i<n. a i * a i - a i * (2 * m) + m * m)"
    by (rule sum.cong) (simp_all add: algebra_simps)
  also have "\<dots> = (\<Sum>i<n. a i * a i) - (\<Sum>i<n. a i) * (2 * m) + real n * (m * m)"
    by (simp only: sum.distrib sum_subtractf sum_distrib_right sum_constant card_lessThan
        of_nat_id)
  also have "\<dots> = (\<Sum>i<n. a i * a i) - real n * m\<^sup>2"
    by (simp add: S power2_eq_square algebra_simps)
  finally show ?thesis by (simp add: m_def)
qed

lemma covariance_centered:
  fixes a b :: "nat \<Rightarrow> real"
  assumes "0 < n"
  shows "(\<Sum>i<n. a i * b i) - real n * ((\<Sum>i<n. a i) / real n) * ((\<Sum>i<n. b i) / real n)
         = (\<Sum>i<n. (a i - (\<Sum>i<n. a i) / real n) * (b i - (\<Sum>i<n. b i) / real n))"
proof -
  define ma where "ma = (\<Sum>i<n. a i) / real n"
  define mb where "mb = (\<Sum>i<n. b i) / real n"
  have Sa: "(\<Sum>i<n. a i) = real n * ma" using assms by (simp add: ma_def)
  have Sb: "(\<Sum>i<n. b i) = real n * mb" using assms by (simp add: mb_def)
  have "(\<Sum>i<n. (a i - ma) * (b i - mb)) = (\<Sum>i<n. a i * b i - a i * mb - b i * ma + ma * mb)"
    by (rule sum.cong) (simp_all add: algebra_simps)
  also have "\<dots> = (\<Sum>i<n. a i * b i) - (\<Sum>i<n. a i) * mb - (\<Sum>i<n. b i) * ma + real n * (ma * mb)"
    by (simp only: sum.distrib sum_subtractf sum_distrib_right sum_constant card_lessThan
        of_nat_id)
  also have "\<dots> = (\<Sum>i<n. a i * b i) - real n * ma * mb"
    by (simp add: Sa Sb algebra_simps)
  finally show ?thesis by (simp add: ma_def mb_def)
qed

lemma sum_list_nth_sum: "sum_list (xs::real list) = (\<Sum>i<length xs. xs ! i)"
  using sum_nth_eq_sum_list [of "\<lambda>x. x" xs] by simp

lemma sum_list_squares_sum: "sum_list (map (\<lambda>a. a * a) (xs::real list)) = (\<Sum>i<length xs. xs ! i * xs ! i)"
  using sum_nth_eq_sum_list [of "\<lambda>a. a * a" xs] by simp

lemma sum_list_products_sum:
  assumes "length A = length B"
  shows "sum_list (map2 (*) A (B::real list)) = (\<Sum>i<length A. A ! i * B ! i)"
proof -
  have "sum_list (map2 (*) A B) = (\<Sum>i = 0..<length A. map2 (*) A B ! i)"
    using sum_list_sum_nth [of "map2 (*) A B"] assms by simp
  also have "\<dots> = (\<Sum>i = 0..<length A. A ! i * B ! i)"
    using assms by (intro sum.cong) simp_all
  finally show ?thesis by (simp add: atLeast0LessThan)
qed

lemma blockVariance_centered:
  assumes "A \<noteq> []"
  shows "blockVariance A = (\<Sum>i<length A. (A ! i - blockMean A) * (A ! i - blockMean A))"
  using variance_centered [of "length A" "\<lambda>i. A ! i"] assms
  by (simp add: blockVariance_def blockMean_def sum_list_nth_sum [of A] sum_list_squares_sum)

lemma blockCovariance_centered:
  assumes "A \<noteq> []" and "length A = length B"
  shows "blockCovariance A B = (\<Sum>i<length A. (A ! i - blockMean A) * (B ! i - blockMean B))"
  using covariance_centered [of "length A" "\<lambda>i. A ! i" "\<lambda>i. B ! i"] assms
  by (simp add: blockCovariance_def blockMean_def sum_list_nth_sum [of A] sum_list_nth_sum [of B]
      sum_list_products_sum)

lemma blockVariance_nonneg: "0 \<le> blockVariance A"
proof (cases "A = []")
  case True
  then show ?thesis by (simp add: blockVariance_def)
next
  case False
  then show ?thesis by (simp add: blockVariance_centered sum_nonneg)
qed

lemma blockCovariance_bound:
  assumes "length A = length B"
  shows "(blockCovariance A B)\<^sup>2 \<le> blockVariance A * blockVariance B"
proof (cases "A = []")
  case True
  then show ?thesis using assms by (simp add: blockVariance_def blockCovariance_def)
next
  case False
  then have B: "B \<noteq> []" using assms by auto
  show ?thesis
    using Cauchy_Schwarz_sum [of "\<lambda>i. A ! i - blockMean A" "\<lambda>i. B ! i - blockMean B" "length A"]
    by (simp add: blockVariance_centered [OF False] blockVariance_centered [OF B]
        blockCovariance_centered [OF False assms] assms [symmetric])
qed

lemma blockNCC_bounds:
  assumes "length A = length B"
  shows "0 \<le> blockNCC A B" and "blockNCC A B \<le> 1"
proof -
  have nn: "0 \<le> blockVariance A * blockVariance B"
    by (simp add: blockVariance_nonneg)
  show "0 \<le> blockNCC A B"
    using nn by (simp add: blockNCC_def)
  show "blockNCC A B \<le> 1"
  proof (cases "blockVariance A * blockVariance B = 0")
    case True
    then show ?thesis by (simp add: blockNCC_def)
  next
    case False
    with nn have "0 < blockVariance A * blockVariance B" by argo
    then show ?thesis
      using blockCovariance_bound [OF assms] False by (simp add: blockNCC_def)
  qed
qed

lemma blockVariance_zero_iff:
  "blockVariance A = 0 \<longleftrightarrow> constantBlock A"
proof (cases "A = []")
  case True
  then show ?thesis by (simp add: blockVariance_def constantBlock_def)
next
  case False
  have "blockVariance A = 0 \<longleftrightarrow> (\<forall>i<length A. A ! i = blockMean A)"
    using sum_nonneg_eq_0_iff [of "{..<length A}" "\<lambda>i. (A ! i - blockMean A) * (A ! i - blockMean A)"]
    by (simp add: blockVariance_centered [OF False] Ball_def)
  also have "\<dots> \<longleftrightarrow> constantBlock A"
  proof
    assume all: "\<forall>i<length A. A ! i = blockMean A"
    then have "hd A = blockMean A" using False by (simp add: hd_conv_nth)
    with all show "constantBlock A"
      by (simp add: constantBlock_def list_all_length)
  next
    assume c: "constantBlock A"
    then have eq: "\<forall>i<length A. A ! i = hd A" by (simp add: constantBlock_def list_all_length)
    then have "map (\<lambda>x. hd A) A = A" by (simp add: list_eq_iff_nth_eq)
    then have "sum_list A = real (length A) * hd A"
      by (metis sum_list_triv)
    then have "blockMean A = hd A" using False by (simp add: blockMean_def)
    with eq show "\<forall>i<length A. A ! i = blockMean A" by simp
  qed
  finally show ?thesis .
qed

section \<open>The statistics computed for a candidate\<close>

lemma blockSums_eq:
  "blockSums fixedImage movingImage radius (numberOfVoxelInBlock radius) windowIndex centerIndex =
     Some \<lparr>fixedSum = sum_list (blockValues fixedImage radius windowIndex),
           fixedSumOfSquares = sum_list (map (\<lambda>a. a * a) (blockValues fixedImage radius windowIndex)),
           movingSum = sum_list (blockValues movingImage radius centerIndex),
           movingSumOfSquares = sum_list (map (\<lambda>a. a * a) (blockValues movingImage radius centerIndex)),
           covariance = sum_list (map2 (*) (blockValues fixedImage radius windowIndex)
                                           (blockValues movingImage radius centerIndex))\<rparr>"
proof -
  let ?A = "blockValues fixedImage radius windowIndex"
  let ?B = "blockValues movingImage radius centerIndex"
  have len: "length ?A = numberOfVoxelInBlock radius" "length ?B = numberOfVoxelInBlock radius"
    by (simp_all add: length_blockValues)
  have "blockSums fixedImage movingImage radius (length ?A) windowIndex centerIndex =
          Some (sumsUpTo (\<lambda>i. ?A ! i) (\<lambda>i. ?B ! i) (length ?A))"
    unfolding blockSums_def by (rule blockSums_upto) (simp add: len)
  moreover have "sumsUpTo (\<lambda>i. ?A ! i) (\<lambda>i. ?B ! i) (length ?A) =
      \<lparr>fixedSum = sum_list ?A, fixedSumOfSquares = sum_list (map (\<lambda>a. a * a) ?A),
       movingSum = sum_list ?B, movingSumOfSquares = sum_list (map (\<lambda>a. a * a) ?B),
       covariance = sum_list (map2 (*) ?A ?B)\<rparr>"
    using sum_list_nth_sum [of ?B] sum_list_squares_sum [of ?B]
    by (simp add: sumsUpTo_def sum_list_nth_sum [of ?A] sum_list_squares_sum [of ?A]
        sum_list_products_sum [of ?A ?B] len)
  ultimately show ?thesis by (simp add: len)
qed

lemma blockSimilarity_plain:
  assumes "0 < n"
  shows "blockSimilarity n stats =
     Some (let fixedMean = fixedSum stats / real n;
               movingMean = movingSum stats / real n;
               fixedVariance = fixedSumOfSquares stats - real n * fixedMean * fixedMean;
               movingVariance = movingSumOfSquares stats - real n * movingMean * movingMean;
               cov = covariance stats - real n * fixedMean * movingMean
           in if fixedVariance * movingVariance \<noteq> 0
              then (cov * cov) / (fixedVariance * movingVariance) else 0)"
  using assms by (simp add: blockSimilarity_def checkedDivide_def Let_def)

lemma blockSimilarity_NCC:
  assumes "length A = n" and "length B = n" and "0 < n"
  shows "blockSimilarity n
           \<lparr>fixedSum = sum_list A, fixedSumOfSquares = sum_list (map (\<lambda>a. a * a) A),
            movingSum = sum_list B, movingSumOfSquares = sum_list (map (\<lambda>a. a * a) B),
            covariance = sum_list (map2 (*) A B)\<rparr> = Some (blockNCC A B)"
  using assms
  by (simp add: blockSimilarity_plain Let_def blockNCC_def blockVariance_def blockCovariance_def
      blockMean_def power2_eq_square mult.assoc)

lemma candidate_similarity:
  "\<exists>stats. blockSums fixedImage movingImage radius (numberOfVoxelInBlock radius) windowIndex centerIndex
              = Some stats
     \<and> blockSimilarity (numberOfVoxelInBlock radius) stats =
         Some (blockNCC (blockValues fixedImage radius windowIndex)
                        (blockValues movingImage radius centerIndex))"
  by (simp add: blockSums_eq blockSimilarity_NCC length_blockValues numberOfVoxelInBlock_pos)

lemma visitCandidate_eq:
  "visitCandidate fixedImage movingImage radius (numberOfVoxelInBlock radius) originalLocation
       (TransformPhysicalPointToIndex movingImage originalLocation) candidate best =
     Some (if candidateSimilarity fixedImage movingImage radius originalLocation candidate
                \<ge> similarity best
           then candidateMatch fixedImage movingImage radius originalLocation candidate
           else best)"
  by (simp add: visitCandidate_def blockSums_eq blockSimilarity_NCC length_blockValues
      numberOfVoxelInBlock_pos candidateSimilarity_def candidateMatch_def)

lemma candidateSimilarity_bounds:
  "0 \<le> candidateSimilarity fixedImage movingImage radius originalLocation candidate"
  "candidateSimilarity fixedImage movingImage radius originalLocation candidate \<le> 1"
  by (simp_all add: candidateSimilarity_def blockNCC_bounds length_blockValues)

section \<open>The selection of the best candidate\<close>

lemma regionIndices_nonempty:
  "list_all (\<lambda>n. 0 < n) ns \<Longrightarrow> regionIndices ss ns \<noteq> []"
proof (induction ss ns rule: regionIndices.induct)
  case (1 s ss n ns)
  then obtain rest rs where "regionIndices ss ns = rest # rs"
    by (cases "regionIndices ss ns") auto
  moreover have "[0..<n] \<noteq> []" using 1 by simp
  ultimately show ?case by simp
qed simp_all

lemma windowCandidates_nonempty: "windowCandidates fixedImage searchRadius originalLocation \<noteq> []"
  by (simp add: windowCandidates_def windowSize_def regionIndices_nonempty list_all_length)

lemma search_selects:
  fixes fixedImage movingImage :: Image
  defines "init \<equiv> \<lparr>similarity = 0, displacement = Indeterminate\<rparr>"
  assumes "cs \<noteq> []"
  shows "\<exists>j<length cs.
           forEach cs (visitCandidate fixedImage movingImage radius (numberOfVoxelInBlock radius) p
                         (TransformPhysicalPointToIndex movingImage p)) init
             = Some (candidateMatch fixedImage movingImage radius p (cs ! j))
         \<and> (\<forall>k<length cs. candidateSimilarity fixedImage movingImage radius p (cs ! k)
                            \<le> candidateSimilarity fixedImage movingImage radius p (cs ! j))
         \<and> (\<forall>k<length cs. j < k \<longrightarrow>
                candidateSimilarity fixedImage movingImage radius p (cs ! k)
                  < candidateSimilarity fixedImage movingImage radius p (cs ! j))"
  using assms(2)
proof (induction cs rule: rev_nonempty_induct)
  case (single c)
  have "0 \<le> candidateSimilarity fixedImage movingImage radius p c"
    by (rule candidateSimilarity_bounds)
  then show ?case by (simp add: visitCandidate_eq init_def)
next
  case (snoc c cs)
  let ?sim = "candidateSimilarity fixedImage movingImage radius p"
  let ?visit = "visitCandidate fixedImage movingImage radius (numberOfVoxelInBlock radius) p
                  (TransformPhysicalPointToIndex movingImage p)"
  from snoc.IH obtain j where j: "j < length cs"
    and run: "forEach cs ?visit init = Some (candidateMatch fixedImage movingImage radius p (cs ! j))"
    and le: "\<forall>k<length cs. ?sim (cs ! k) \<le> ?sim (cs ! j)"
    and lt: "\<forall>k<length cs. j < k \<longrightarrow> ?sim (cs ! k) < ?sim (cs ! j)"
    by blast
  have sim_j: "similarity (candidateMatch fixedImage movingImage radius p (cs ! j)) = ?sim (cs ! j)"
    by (simp add: candidateMatch_def)
  show ?case
  proof (cases "?sim c \<ge> ?sim (cs ! j)")
    case True
    have "forEach (cs @ [c]) ?visit init = Some (candidateMatch fixedImage movingImage radius p c)"
      using True by (simp add: forEach_append run visitCandidate_eq sim_j)
    moreover have "\<forall>k<length (cs @ [c]). ?sim ((cs @ [c]) ! k) \<le> ?sim c"
    proof (intro allI impI)
      fix k assume "k < length (cs @ [c])"
      then show "?sim ((cs @ [c]) ! k) \<le> ?sim c"
        using le True by (cases "k < length cs") (auto simp: nth_append intro: order_trans)
    qed
    ultimately show ?thesis
      by (intro exI [of _ "length cs"]) simp
  next
    case False
    have "forEach (cs @ [c]) ?visit init = Some (candidateMatch fixedImage movingImage radius p (cs ! j))"
      using False by (simp add: forEach_append run visitCandidate_eq sim_j)
    moreover have "\<forall>k<length (cs @ [c]). ?sim ((cs @ [c]) ! k) \<le> ?sim (cs ! j)"
    proof (intro allI impI)
      fix k assume "k < length (cs @ [c])"
      then show "?sim ((cs @ [c]) ! k) \<le> ?sim (cs ! j)"
        using le False by (cases "k < length cs") (auto simp: nth_append)
    qed
    moreover have "\<forall>k<length (cs @ [c]). j < k \<longrightarrow> ?sim ((cs @ [c]) ! k) < ?sim (cs ! j)"
    proof (intro allI impI)
      fix k assume "k < length (cs @ [c])" and "j < k"
      then show "?sim ((cs @ [c]) ! k) < ?sim (cs ! j)"
        using lt False by (cases "k < length cs") (auto simp: nth_append)
    qed
    ultimately show ?thesis
      using j by (intro exI [of _ j]) (simp add: nth_append)
  qed
qed

section \<open>Evaluation of the example inputs\<close>

lemma upt_3: "[0..<3] = [0, 1, 2]"
  by (simp add: upt_rec)

lemma NeighborhoodOffsets_1: "NeighborhoodOffsets [1] = [[-1], [0], [1]]"
  by (simp add: NeighborhoodOffsets_def upt_3)

lemma blockValues_ramp: "blockValues rampImage [1] [c] = [of_int c - 1, of_int c, of_int c + 1]"
  unfolding blockValues_def NeighborhoodOffsets_1 rampImage_def by simp

lemma blockValues_flat: "blockValues flatImage [1] c = [7, 7, 7]"
  unfolding blockValues_def NeighborhoodOffsets_1 flatImage_def by simp

lemma windowCandidates_ramp: "windowCandidates rampImage [1] [0] = [[-1], [0], [1]]"
  by (simp add: windowCandidates_def windowStart_def windowSize_def rampImage_def upt_3)

lemma blockNCC_ramp: "blockNCC [of_int c - 1, of_int c, of_int c + 1] [-1, 0, 1] = 1"
  by (simp add: blockNCC_def blockVariance_def blockCovariance_def blockMean_def power2_eq_square
      algebra_simps)

lemma candidateSimilarity_ramp: "candidateSimilarity rampImage rampImage [1] [0] [c] = 1"
proof -
  have idx: "TransformPhysicalPointToIndex rampImage [0] = [0]" by (simp add: rampImage_def)
  show ?thesis
    unfolding candidateSimilarity_def idx blockValues_ramp using blockNCC_ramp [of c] by simp
qed

section \<open>Claims about the search\<close>

text \<open>
  Claim C6. For every pair of candidate blocks the statistics are computed and the
  similarity is \<open>cov\<^sup>2 / (varA * varB)\<close> when \<open>varA * varB\<close> is not zero and \<open>0\<close>
  otherwise; whatever the five sums are, no division of \<open>blockSimilarity\<close> meets a zero
  divisor (a zero divisor would make the result \<open>None\<close>).
\<close>

theorem similarity_division_guarded:
  "(\<exists>stats. blockSums fixedImage movingImage radius (numberOfVoxelInBlock radius) windowIndex centerIndex
              = Some stats
      \<and> blockSimilarity (numberOfVoxelInBlock radius) stats =
          Some (if blockVariance (blockValues fixedImage radius windowIndex)
                     * blockVariance (blockValues movingImage radius centerIndex) \<noteq> 0
                then (blockCovariance (blockValues fixedImage radius windowIndex)
                                      (blockValues movingImage radius centerIndex))\<^sup>2
                     / (blockVariance (blockValues fixedImage radius windowIndex)
                        * blockVariance (blockValues movingImage radius centerIndex))
                else 0))
   \<and> blockSimilarity (numberOfVoxelInBlock radius) anyStats \<noteq> None"
proof -
  have "blockSimilarity (numberOfVoxelInBlock radius) anyStats \<noteq> None"
    by (simp add: blockSimilarity_plain numberOfVoxelInBlock_pos)
  then show ?thesis
    using candidate_similarity [of fixedImage movingImage radius windowIndex centerIndex]
    by (simp add: blockNCC_def)
qed

theorem similarity_division_guarded_witness:
  "Option.bind (blockSums flatImage flatImage [1] (numberOfVoxelInBlock [1]) [0] [0])
               (blockSimilarity (numberOfVoxelInBlock [1])) = Some 0"
proof -
  have "blockVariance (blockValues flatImage [1] [0]) = 0"
    unfolding blockValues_flat by (simp add: blockVariance_def blockMean_def)
  then show ?thesis
    using similarity_division_guarded [of flatImage flatImage "[1]" "[0]" "[0]" zeroSums]
    by (elim conjE exE) simp
qed

section \<open>The window of candidates and the blocks of a candidate\<close>

lemma in_regionIndices:
  "length ss = length ns \<Longrightarrow>
     c \<in> set (regionIndices ss ns) \<longleftrightarrow>
       length c = length ss \<and> (\<forall>i<length ss. ss ! i \<le> c ! i \<and> c ! i < ss ! i + int (ns ! i))"
proof (induction ss ns arbitrary: c rule: list_induct2)
  case Nil
  then show ?case by auto
next
  case (Cons s ss n ns)
  have step: "c \<in> set (regionIndices (s # ss) (n # ns)) \<longleftrightarrow>
      (\<exists>x rest. c = x # rest \<and> s \<le> x \<and> x < s + int n \<and> rest \<in> set (regionIndices ss ns))"
  proof
    assume "c \<in> set (regionIndices (s # ss) (n # ns))"
    then obtain rest k where "rest \<in> set (regionIndices ss ns)" "k < n" "c = (s + int k) # rest"
      by auto
    then show "\<exists>x rest. c = x # rest \<and> s \<le> x \<and> x < s + int n \<and> rest \<in> set (regionIndices ss ns)"
      by auto
  next
    assume "\<exists>x rest. c = x # rest \<and> s \<le> x \<and> x < s + int n \<and> rest \<in> set (regionIndices ss ns)"
    then obtain x rest where c: "c = x # rest" and x: "s \<le> x" "x < s + int n"
      and rest: "rest \<in> set (regionIndices ss ns)" by blast
    have "nat (x - s) \<in> {0..<n}" "x = s + int (nat (x - s))" using x by auto
    then have "x \<in> (\<lambda>k. s + int k) ` {0..<n}" by (rule rev_image_eqI)
    then show "c \<in> set (regionIndices (s # ss) (n # ns))"
      using rest c by auto
  qed
  show ?case
  proof (cases c)
    case Nil
    then show ?thesis using step by auto
  next
    case (Cons x rest)
    have split: "(\<forall>i<Suc (length ss). P i) \<longleftrightarrow> P 0 \<and> (\<forall>i<length ss. P (Suc i))" for P
      by (auto simp: less_Suc_eq_0_disj)
    show ?thesis
      unfolding step by (simp add: Cons Cons.IH split) (auto)
  qed
qed

lemma windowCandidates_member:
  assumes "length (TransformPhysicalPointToIndex fixedImage p) = length searchRadius"
  shows "c \<in> set (windowCandidates fixedImage searchRadius p) \<longleftrightarrow>
           length c = length searchRadius
           \<and> (\<forall>i<length searchRadius.
                 \<bar>c ! i - TransformPhysicalPointToIndex fixedImage p ! i\<bar> \<le> int (searchRadius ! i))"
proof -
  let ?idx = "TransformPhysicalPointToIndex fixedImage p"
  have len: "length (windowStart ?idx searchRadius) = length (windowSize searchRadius)"
    using assms by (simp add: windowStart_def windowSize_def)
  have "(windowStart ?idx searchRadius ! i \<le> c ! i
          \<and> c ! i < windowStart ?idx searchRadius ! i + int (windowSize searchRadius ! i))
        \<longleftrightarrow> \<bar>c ! i - ?idx ! i\<bar> \<le> int (searchRadius ! i)" if "i < length searchRadius" for i
    using that assms by (auto simp: windowStart_def windowSize_def)
  then show ?thesis
    unfolding windowCandidates_def in_regionIndices [OF len]
    using assms by (auto simp: windowStart_def)
qed

lemma length_windowCandidates:
  assumes "length (TransformPhysicalPointToIndex fixedImage p) = length searchRadius"
  shows "length (windowCandidates fixedImage searchRadius p) = prod_list (map (\<lambda>r. 1 + 2 * r) searchRadius)"
proof -
  have "(\<lambda>r::nat. 1 + r + r) = (\<lambda>r. 1 + 2 * r)" by auto
  then show ?thesis
    using assms by (simp add: windowCandidates_def windowStart_def windowSize_def length_regionIndices)
qed


lemma index_ramp: "TransformPhysicalPointToIndex rampImage [0] = [0]"
  by (simp add: rampImage_def)

lemma index_shifted: "TransformPhysicalPointToIndex shiftedImage [0] = [5]"
  by (simp add: shiftedImage_def)

lemma numberOfVoxelInBlock_zero:
  "list_all (\<lambda>r. r = 0) radius \<Longrightarrow> numberOfVoxelInBlock radius = 1"
  unfolding numberOfVoxelInBlock_prod by (induction radius) simp_all

lemma blockVariance_single: "length A = 1 \<Longrightarrow> blockVariance A = 0"
proof -
  assume "length A = 1"
  then obtain a where "A = [a]" by (cases A) auto
  then have "constantBlock A" by (simp add: constantBlock_def)
  then show ?thesis by (simp add: blockVariance_zero_iff)
qed

text \<open>
  Claim C2, amended. For every feature point whose index in the fixed image has one
  coordinate per axis, the window of candidate centres is the box of size
  \<open>1 + 2 * SearchRadius\<close> per axis whose corner is the point's mapped index in the first
  (fixed) image minus the search radius: a candidate belongs to the window exactly when it
  differs from that index by at most the search radius on every axis. The window is centred
  on the mapped index in the fixed image, not in the moving image.
\<close>

theorem window_centred_on_fixed_index:
  assumes "length (TransformPhysicalPointToIndex fixedImage p) = length searchRadius"
  shows "windowCandidates fixedImage searchRadius p =
           regionIndices (map2 (\<lambda>i r. i - int r) (TransformPhysicalPointToIndex fixedImage p) searchRadius)
                         (map (\<lambda>r. 1 + 2 * r) searchRadius)
       \<and> (\<forall>c. c \<in> set (windowCandidates fixedImage searchRadius p) \<longleftrightarrow>
               length c = length searchRadius
               \<and> (\<forall>i<length searchRadius.
                     \<bar>c ! i - TransformPhysicalPointToIndex fixedImage p ! i\<bar> \<le> int (searchRadius ! i)))
       \<and> length (windowCandidates fixedImage searchRadius p) = prod_list (map (\<lambda>r. 1 + 2 * r) searchRadius)"
proof -
  have "(\<lambda>r::nat. 1 + r + r) = (\<lambda>r. 1 + 2 * r)" by auto
  then have "windowCandidates fixedImage searchRadius p =
           regionIndices (map2 (\<lambda>i r. i - int r) (TransformPhysicalPointToIndex fixedImage p) searchRadius)
                         (map (\<lambda>r. 1 + 2 * r) searchRadius)"
    by (simp add: windowCandidates_def windowStart_def windowSize_def)
  then show ?thesis
    using windowCandidates_member [OF assms] length_windowCandidates [OF assms] by blast
qed

theorem window_centred_on_fixed_index_witness:
  "[0] \<in> set (windowCandidates rampImage [1] [0])
   \<and> [5] \<notin> set (windowCandidates rampImage [1] [0])
   \<and> length (windowCandidates rampImage [1] [0]) = 3"
proof -
  have len: "length (TransformPhysicalPointToIndex rampImage [0]) = length [1::nat]"
    by (simp add: index_ramp)
  have mem: "c \<in> set (windowCandidates rampImage [1] [0]) \<longleftrightarrow>
               length c = length [1::nat]
               \<and> (\<forall>i<length [1::nat].
                     \<bar>c ! i - TransformPhysicalPointToIndex rampImage [0] ! i\<bar> \<le> int ([1] ! i))" for c
    using window_centred_on_fixed_index [OF len] by blast
  have size: "length (windowCandidates rampImage [1] [0]) = prod_list (map (\<lambda>r. 1 + 2 * r) [1])"
    using window_centred_on_fixed_index [OF len] by blast
  show ?thesis
    using mem [of "[0]"] mem [of "[5]"] size by (simp add: index_ramp)
qed

text \<open>
  Claim C2 as stated fails: for a fixed image that maps the point to index \<open>[0]\<close> and a
  moving image that maps it to \<open>[5]\<close>, the window of radius \<open>1\<close> is
  \<open>[-1], [0], [1]\<close>; it does not contain the mapped index in the moving image and is
  not the box centred there.
\<close>

theorem window_centred_on_moving_index_counterexample:
  "TransformPhysicalPointToIndex shiftedImage [0] \<notin> set (windowCandidates rampImage [1] [0])
   \<and> windowCandidates rampImage [1] [0]
       \<noteq> regionIndices (windowStart (TransformPhysicalPointToIndex shiftedImage [0]) [1]) (windowSize [1])"
  unfolding windowCandidates_ramp index_shifted
  by (simp add: windowStart_def windowSize_def upt_3)

section \<open>The parallel phase, the assembly and the whole execution\<close>

lemma forEach_total:
  assumes "\<And>x s. body x s = Some (step x s)"
  shows "forEach xs body s = Some (fold step xs s)"
  by (induction xs arbitrary: s) (simp_all add: assms)

lemma searchPoint_bestMatch:
  "searchPoint (Some fixedImage) (Some movingImage) blockRadius searchRadius
       (numberOfVoxelInBlock blockRadius) p
     = Some (bestMatch fixedImage movingImage blockRadius searchRadius p)"
  unfolding searchPoint_def bestMatch_def
  by (simp add: forEach_total [OF visitCandidate_eq])

lemma fold_update_nth:
  "\<forall>i\<in>set idxs. i < length A \<Longrightarrow>
     fold (\<lambda>i A. A[i := g i]) idxs A = map (\<lambda>i. if i \<in> set idxs then g i else A ! i) [0..<length A]"
proof (induction idxs arbitrary: A)
  case Nil
  then show ?case by (simp add: map_nth)
next
  case (Cons x xs)
  then have "fold (\<lambda>i A. A[i := g i]) xs (A[x := g x])
      = map (\<lambda>i. if i \<in> set xs then g i else A[x := g x] ! i) [0..<length (A[x := g x])]"
    by (intro Cons.IH) simp
  also have "\<dots> = map (\<lambda>i. if i \<in> set (x # xs) then g i else A ! i) [0..<length A]"
    by (auto simp: nth_list_update)
  finally show ?case by simp
qed

lemma processPoint_written:
  assumes "FeaturePoints s = Some points" and "FixedImage s = Some fixedImage"
    and "MovingImage s = Some movingImage"
    and "m_DisplacementsVectorsArray s = Some D" and "m_SimilaritiesValuesArray s = Some S"
    and "idx < length points" and "idx < length D" and "idx < length S"
  shows "processPoint (numberOfVoxelInBlock (m_BlockRadius s)) idx s =
     Some (s\<lparr>m_DisplacementsVectorsArray :=
                Some (D[idx := displacement (bestMatch fixedImage movingImage (m_BlockRadius s)
                                               (m_SearchRadius s) (points ! idx))]),
             m_SimilaritiesValuesArray :=
                Some (S[idx := Value (similarity (bestMatch fixedImage movingImage (m_BlockRadius s)
                                                     (m_SearchRadius s) (points ! idx)))])\<rparr>)"
  using assms
  by (simp add: processPoint_def GetPoint_def store_def searchPoint_bestMatch)

lemma forEach_processPoint:
  assumes "FeaturePoints s = Some points" and "FixedImage s = Some fixedImage"
    and "MovingImage s = Some movingImage"
    and "m_DisplacementsVectorsArray s = Some D" and "m_SimilaritiesValuesArray s = Some S"
    and "length D = length points" and "length S = length points"
    and "\<forall>i\<in>set idxs. i < length points"
    and "blockRadius = m_BlockRadius s"
  shows "forEach idxs (processPoint (numberOfVoxelInBlock blockRadius)) s =
     Some (s\<lparr>m_DisplacementsVectorsArray :=
                Some (fold (\<lambda>i A. A[i := displacement (bestMatch fixedImage movingImage (m_BlockRadius s)
                                               (m_SearchRadius s) (points ! i))]) idxs D),
             m_SimilaritiesValuesArray :=
                Some (fold (\<lambda>i A. A[i := Value (similarity (bestMatch fixedImage movingImage (m_BlockRadius s)
                                                     (m_SearchRadius s) (points ! i)))]) idxs S)\<rparr>)"
  using assms
proof (induction idxs arbitrary: s D S)
  case Nil
  then show ?case by simp
next
  case (Cons i idxs)
  let ?D = "D[i := displacement (bestMatch fixedImage movingImage (m_BlockRadius s)
                                               (m_SearchRadius s) (points ! i))]"
  let ?S = "S[i := Value (similarity (bestMatch fixedImage movingImage (m_BlockRadius s)
                                                     (m_SearchRadius s) (points ! i)))]"
  let ?s = "s\<lparr>m_DisplacementsVectorsArray := Some ?D, m_SimilaritiesValuesArray := Some ?S\<rparr>"
  have i: "i < length points" using Cons.prems by simp
  have step: "processPoint (numberOfVoxelInBlock blockRadius) i s = Some ?s"
    using Cons.prems i by (simp add: processPoint_written)
  have "forEach idxs (processPoint (numberOfVoxelInBlock blockRadius)) ?s =
     Some (?s\<lparr>m_DisplacementsVectorsArray :=
                Some (fold (\<lambda>i A. A[i := displacement (bestMatch fixedImage movingImage (m_BlockRadius ?s)
                                               (m_SearchRadius ?s) (points ! i))]) idxs ?D),
             m_SimilaritiesValuesArray :=
                Some (fold (\<lambda>i A. A[i := Value (similarity (bestMatch fixedImage movingImage (m_BlockRadius ?s)
                                                     (m_SearchRadius ?s) (points ! i)))]) idxs ?S)\<rparr>)"
    using Cons.prems by (intro Cons.IH) simp_all
  then show ?case by (simp add: step)
qed


lemma length_fold_update: "length (fold (\<lambda>i A. A[i := g i]) idxs A) = length A"
  by (induction idxs arbitrary: A) simp_all

lemma workIndices_bounded:
  assumes "threadId < W" and "i \<in> set (workIndices N W threadId)"
  shows "i < N"
proof -
  have "0 < W" using assms by simp
  then have "(\<Union>w<W. set (workIndices N W w)) = {0..<N}" by (rule workIndices_union)
  then show ?thesis using assms by auto
qed

lemma ThreadedGenerateData_written:
  assumes "FeaturePoints s = Some points" and "FixedImage s = Some fixedImage"
    and "MovingImage s = Some movingImage"
    and "m_DisplacementsVectorsArray s = Some D" and "m_SimilaritiesValuesArray s = Some S"
    and "length D = length points" and "length S = length points"
    and "m_PointsCount s = length points" and "threadId < NumberOfWorkUnits s"
  shows "ThreadedGenerateData s threadId =
     Some (s\<lparr>m_DisplacementsVectorsArray :=
                Some (fold (\<lambda>i A. A[i := displacement (bestMatch fixedImage movingImage (m_BlockRadius s)
                                               (m_SearchRadius s) (points ! i))])
                        (workIndices (length points) (NumberOfWorkUnits s) threadId) D),
             m_SimilaritiesValuesArray :=
                Some (fold (\<lambda>i A. A[i := Value (similarity (bestMatch fixedImage movingImage (m_BlockRadius s)
                                                     (m_SearchRadius s) (points ! i)))])
                        (workIndices (length points) (NumberOfWorkUnits s) threadId) S)\<rparr>)"
proof -
  let ?W = "NumberOfWorkUnits s"
  have W: "0 < ?W" using assms by simp
  obtain first count where range: "workRange (length points) ?W threadId = Some (first, count)"
    by (simp add: workRange_eq [OF W])
  then have idxs: "workIndices (length points) ?W threadId = [first ..< first + count]"
    by (simp add: workIndices_def)
  have bounded: "\<forall>i\<in>set [first ..< first + count]. i < length points"
    using workIndices_bounded [OF assms(9), of _ "length points"] unfolding idxs by blast
  have "ThreadedGenerateData s threadId =
          forEach [first ..< first + count] (processPoint (numberOfVoxelInBlock (m_BlockRadius s))) s"
    using range assms(8) by (simp add: ThreadedGenerateData_def)
  then show ?thesis
    unfolding idxs
    using forEach_processPoint [OF assms(1-7) bounded refl] by simp
qed

lemma SingleMethodExecute_written:
  assumes "FeaturePoints s = Some points" and "FixedImage s = Some fixedImage"
    and "MovingImage s = Some movingImage"
    and "m_DisplacementsVectorsArray s = Some D" and "m_SimilaritiesValuesArray s = Some S"
    and "length D = length points" and "length S = length points"
    and "m_PointsCount s = length points" and "\<forall>w\<in>set schedule. w < NumberOfWorkUnits s"
  shows "SingleMethodExecute schedule s =
     Some (s\<lparr>m_DisplacementsVectorsArray :=
                Some (fold (\<lambda>i A. A[i := displacement (bestMatch fixedImage movingImage (m_BlockRadius s)
                                               (m_SearchRadius s) (points ! i))])
                        (concat (map (workIndices (length points) (NumberOfWorkUnits s)) schedule)) D),
             m_SimilaritiesValuesArray :=
                Some (fold (\<lambda>i A. A[i := Value (similarity (bestMatch fixedImage movingImage (m_BlockRadius s)
                                                     (m_SearchRadius s) (points ! i)))])
                        (concat (map (workIndices (length points) (NumberOfWorkUnits s)) schedule)) S)\<rparr>)"
  using assms
proof (induction schedule arbitrary: s D S)
  case Nil
  then show ?case by (simp add: SingleMethodExecute_def)
next
  case (Cons w schedule)
  let ?d = "\<lambda>i. displacement (bestMatch fixedImage movingImage (m_BlockRadius s)
                                               (m_SearchRadius s) (points ! i))"
  let ?v = "\<lambda>i. Value (similarity (bestMatch fixedImage movingImage (m_BlockRadius s)
                                                     (m_SearchRadius s) (points ! i)))"
  let ?idxs = "workIndices (length points) (NumberOfWorkUnits s) w"
  let ?D = "fold (\<lambda>i A. A[i := ?d i]) ?idxs D"
  let ?S = "fold (\<lambda>i A. A[i := ?v i]) ?idxs S"
  let ?s = "s\<lparr>m_DisplacementsVectorsArray := Some ?D, m_SimilaritiesValuesArray := Some ?S\<rparr>"
  have w: "w < NumberOfWorkUnits s" using Cons.prems by simp
  have step: "ThreadedGenerateData s w = Some ?s"
    using ThreadedGenerateData_written [OF Cons.prems(1-8) w] .
  have rest: "SingleMethodExecute schedule ?s =
     Some (?s\<lparr>m_DisplacementsVectorsArray :=
                Some (fold (\<lambda>i A. A[i := displacement (bestMatch fixedImage movingImage (m_BlockRadius ?s)
                                               (m_SearchRadius ?s) (points ! i))])
                        (concat (map (workIndices (length points) (NumberOfWorkUnits ?s)) schedule)) ?D),
             m_SimilaritiesValuesArray :=
                Some (fold (\<lambda>i A. A[i := Value (similarity (bestMatch fixedImage movingImage (m_BlockRadius ?s)
                                                     (m_SearchRadius ?s) (points ! i)))])
                        (concat (map (workIndices (length points) (NumberOfWorkUnits ?s)) schedule)) ?S)\<rparr>)"
    using Cons.prems by (intro Cons.IH) (simp_all add: length_fold_update)
  have "SingleMethodExecute (w # schedule) s = SingleMethodExecute schedule ?s"
    by (simp add: SingleMethodExecute_def step)
  then show ?case by (simp add: rest)
qed

lemma isSchedule_set: "isSchedule W schedule \<Longrightarrow> set schedule = {0..<W}"
  by (metis isSchedule_def set_sort set_upt)

lemma SingleMethodExecute_result:
  assumes "FeaturePoints s = Some points" and "FixedImage s = Some fixedImage"
    and "MovingImage s = Some movingImage"
    and "m_DisplacementsVectorsArray s = Some D" and "m_SimilaritiesValuesArray s = Some S"
    and "length D = length points" and "length S = length points"
    and "m_PointsCount s = length points"
    and "0 < NumberOfWorkUnits s" and "isSchedule (NumberOfWorkUnits s) schedule"
  shows "SingleMethodExecute schedule s =
     Some (s\<lparr>m_DisplacementsVectorsArray :=
                Some (map (\<lambda>p. displacement (bestMatch fixedImage movingImage (m_BlockRadius s)
                                               (m_SearchRadius s) p)) points),
             m_SimilaritiesValuesArray :=
                Some (map (\<lambda>p. Value (similarity (bestMatch fixedImage movingImage (m_BlockRadius s)
                                                     (m_SearchRadius s) p))) points)\<rparr>)"
proof -
  let ?W = "NumberOfWorkUnits s" and ?N = "length points"
  let ?idxs = "concat (map (workIndices ?N ?W) schedule)"
  have sched: "set schedule = {0..<?W}" using assms(10) by (rule isSchedule_set)
  then have below: "\<forall>w\<in>set schedule. w < ?W" by simp
  have "set ?idxs = (\<Union>w<?W. set (workIndices ?N ?W w))"
    using sched by (auto simp: atLeast0LessThan)
  then have all: "set ?idxs = {0..<?N}"
    using workIndices_union [OF assms(9)] by simp
  have written: "fold (\<lambda>i A. A[i := g (points ! i)]) ?idxs A = map g points"
    if "length A = ?N" for g :: "PhysicalCoordinates \<Rightarrow> 'x" and A
  proof -
    have "fold (\<lambda>i A. A[i := g (points ! i)]) ?idxs A
        = map (\<lambda>i. if i \<in> set ?idxs then g (points ! i) else A ! i) [0..<length A]"
      using all that by (intro fold_update_nth) simp
    also have "\<dots> = map (\<lambda>i. g (points ! i)) [0..<?N]"
      using all that by simp
    also have "\<dots> = map g points"
      by (rule nth_equalityI) simp_all
    finally show ?thesis .
  qed
  have D: "fold (\<lambda>i A. A[i := displacement (bestMatch fixedImage movingImage (m_BlockRadius s)
                                               (m_SearchRadius s) (points ! i))]) ?idxs D
      = map (\<lambda>p. displacement (bestMatch fixedImage movingImage (m_BlockRadius s)
                                               (m_SearchRadius s) p)) points"
    using assms(6) by (rule written)
  have S: "fold (\<lambda>i A. A[i := Value (similarity (bestMatch fixedImage movingImage (m_BlockRadius s)
                                                     (m_SearchRadius s) (points ! i)))]) ?idxs S
      = map (\<lambda>p. Value (similarity (bestMatch fixedImage movingImage (m_BlockRadius s)
                                                     (m_SearchRadius s) p))) points"
    using assms(7) by (rule written)
  show ?thesis
    using SingleMethodExecute_written [OF assms(1-8) below]
    by (simp only: D S)
qed


lemma forEach_insertElements:
  assumes "m_DisplacementsVectorsArray s = Some D" and "m_SimilaritiesValuesArray s = Some S"
    and "n \<le> length points" and "n \<le> length D" and "n \<le> length S"
  shows "forEach [0 ..< n] (insertElements s points) emptyContainers =
     Some \<lparr>displacementsPoints = (\<lambda>i. if i < n then Some (points ! i) else None),
           displacementsData = (\<lambda>i. if i < n then Some (D ! i) else None),
           similaritiesPoints = (\<lambda>i. if i < n then Some (points ! i) else None),
           similaritiesData = (\<lambda>i. if i < n then Some (S ! i) else None)\<rparr>"
  using assms(3-5)
proof (induction n)
  case 0
  then show ?case by (simp add: emptyContainers_def)
next
  case (Suc n)
  have ext: "(\<lambda>i. if i < n then Some (f i) else None)(n \<mapsto> f n)
             = (\<lambda>i. if i < Suc n then Some (f i) else None)" for f :: "nat \<Rightarrow> 'x"
    by (auto simp: fun_eq_iff)
  from Suc show ?case
    by (simp add: forEach_append insertElements_def load_def assms(1,2) ext)
qed

lemma BeforeThreadedGenerateData_allocates:
  assumes "FeaturePoints s = Some points" and "points \<noteq> []"
  shows "BeforeThreadedGenerateData s =
     Inr (s\<lparr>m_PointsCount := length points,
            m_DisplacementsVectorsArray := Some (replicate (length points) Indeterminate),
            m_SimilaritiesValuesArray := Some (replicate (length points) Indeterminate)\<rparr>)"
  using assms by (simp add: BeforeThreadedGenerateData_def Let_def)

lemma AfterThreadedGenerateData_emits:
  assumes "FeaturePoints s = Some points" and "m_PointsCount s = length points"
    and "m_DisplacementsVectorsArray s = Some D" and "m_SimilaritiesValuesArray s = Some S"
    and "length D = length points" and "length S = length points"
  shows "AfterThreadedGenerateData s =
     Some (s\<lparr>Displacements :=
               \<lparr>Points = (\<lambda>i. if i < length points then Some (points ! i) else None),
                PointData = (\<lambda>i. if i < length points then Some (D ! i) else None)\<rparr>,
             Similarities :=
               \<lparr>Points = (\<lambda>i. if i < length points then Some (points ! i) else None),
                PointData = (\<lambda>i. if i < length points then Some (S ! i) else None)\<rparr>,
             m_DisplacementsVectorsArray := None,
             m_SimilaritiesValuesArray := None\<rparr>)"
proof -
  have "forEach [0 ..< length points] (insertElements s points) emptyContainers =
     Some \<lparr>displacementsPoints = (\<lambda>i. if i < length points then Some (points ! i) else None),
           displacementsData = (\<lambda>i. if i < length points then Some (D ! i) else None),
           similaritiesPoints = (\<lambda>i. if i < length points then Some (points ! i) else None),
           similaritiesData = (\<lambda>i. if i < length points then Some (S ! i) else None)\<rparr>"
    using assms by (intro forEach_insertElements) simp_all
  then show ?thesis
    using assms(1,2) by (simp add: AfterThreadedGenerateData_def)
qed

lemma GenerateData_result:
  assumes "FeaturePoints s = Some points" and "points \<noteq> []"
    and "FixedImage s = Some fixedImage" and "MovingImage s = Some movingImage"
    and "0 < NumberOfWorkUnits s" and "isSchedule (NumberOfWorkUnits s) schedule"
  shows "GenerateData schedule s =
     Inr (s\<lparr>m_PointsCount := length points,
            Displacements :=
               \<lparr>Points = (\<lambda>i. if i < length points then Some (points ! i) else None),
                PointData = (\<lambda>i. if i < length points
                   then Some (displacement (bestMatch fixedImage movingImage (m_BlockRadius s)
                                              (m_SearchRadius s) (points ! i)))
                   else None)\<rparr>,
            Similarities :=
               \<lparr>Points = (\<lambda>i. if i < length points then Some (points ! i) else None),
                PointData = (\<lambda>i. if i < length points
                   then Some (Value (similarity (bestMatch fixedImage movingImage (m_BlockRadius s)
                                              (m_SearchRadius s) (points ! i))))
                   else None)\<rparr>,
            m_DisplacementsVectorsArray := None,
            m_SimilaritiesValuesArray := None\<rparr>)"
proof -
  let ?N = "length points"
  let ?D = "map (\<lambda>p. displacement (bestMatch fixedImage movingImage (m_BlockRadius s)
                                               (m_SearchRadius s) p)) points"
  let ?S = "map (\<lambda>p. Value (similarity (bestMatch fixedImage movingImage (m_BlockRadius s)
                                                     (m_SearchRadius s) p))) points"
  let ?s1 = "s\<lparr>m_PointsCount := ?N,
            m_DisplacementsVectorsArray := Some (replicate ?N Indeterminate),
            m_SimilaritiesValuesArray := Some (replicate ?N Indeterminate)\<rparr>"
  let ?s2 = "s\<lparr>m_PointsCount := ?N, m_DisplacementsVectorsArray := Some ?D,
               m_SimilaritiesValuesArray := Some ?S\<rparr>"
  have before: "BeforeThreadedGenerateData s = Inr ?s1"
    using assms(1,2) by (rule BeforeThreadedGenerateData_allocates)
  have run: "SingleMethodExecute schedule ?s1 = Some ?s2"
    using SingleMethodExecute_result [of ?s1 points fixedImage movingImage
        "replicate ?N Indeterminate" "replicate ?N Indeterminate" schedule] assms
    by simp
  have after: "AfterThreadedGenerateData ?s2 =
     Some (?s2\<lparr>Displacements :=
               \<lparr>Points = (\<lambda>i. if i < ?N then Some (points ! i) else None),
                PointData = (\<lambda>i. if i < ?N then Some (?D ! i) else None)\<rparr>,
             Similarities :=
               \<lparr>Points = (\<lambda>i. if i < ?N then Some (points ! i) else None),
                PointData = (\<lambda>i. if i < ?N then Some (?S ! i) else None)\<rparr>,
             m_DisplacementsVectorsArray := None,
             m_SimilaritiesValuesArray := None\<rparr>)"
    using assms(1) by (intro AfterThreadedGenerateData_emits) simp_all
  have D: "(\<lambda>i. if i < ?N then Some (?D ! i) else None)
      = (\<lambda>i. if i < ?N then Some (displacement (bestMatch fixedImage movingImage (m_BlockRadius s)
                                              (m_SearchRadius s) (points ! i))) else None)"
    by (auto simp: fun_eq_iff)
  have S: "(\<lambda>i. if i < ?N then Some (?S ! i) else None)
      = (\<lambda>i. if i < ?N then Some (Value (similarity (bestMatch fixedImage movingImage (m_BlockRadius s)
                                              (m_SearchRadius s) (points ! i)))) else None)"
    by (auto simp: fun_eq_iff)
  show ?thesis
    by (simp add: GenerateData_def before run after D S)
qed

subsection \<open>An execution of the example filter\<close>

lemma windowCandidates_ramp_at:
  "windowCandidates rampImage [1] [of_int x] = [[x - 1], [x], [x + 1]]"
  by (simp add: windowCandidates_def windowStart_def windowSize_def rampImage_def upt_3)

lemma candidateSimilarity_ramp_at:
  "candidateSimilarity rampImage rampImage [1] [of_int x] [c] = 1"
proof -
  have idx: "TransformPhysicalPointToIndex rampImage [of_int x] = [x]" by (simp add: rampImage_def)
  have "blockNCC [of_int c - 1, of_int c, of_int c + 1] [of_int x - 1, of_int x, of_int x + 1] = (1::real)"
    by (simp add: blockNCC_def blockVariance_def blockCovariance_def blockMean_def power2_eq_square
        algebra_simps)
  then show ?thesis
    unfolding candidateSimilarity_def idx blockValues_ramp by simp
qed

lemma bestMatch_ramp_at:
  "bestMatch rampImage rampImage [1] [1] [of_int x] = \<lparr>similarity = 1, displacement = Value [1]\<rparr>"
  unfolding bestMatch_def windowCandidates_ramp_at
  by (simp add: candidateSimilarity_ramp_at [simplified] candidateMatch_def)
     (simp add: rampImage_def)


lemma GenerateData_example:
  "GenerateData [0] (exampleJoined\<lparr>NumberOfWorkUnits := 1\<rparr>) = Inr g1 \<Longrightarrow>
     PointData (Displacements g1) 0 = Some (Value [1])
     \<and> PointData (Displacements g1) 2 = Some (Value [1])
     \<and> PointData (Similarities g1) 1 = Some (Value 1)"
proof -
  let ?s = "exampleJoined\<lparr>NumberOfWorkUnits := 1\<rparr>"
  have best: "bestMatch rampImage rampImage [1] [1] [0] = \<lparr>similarity = 1, displacement = Value [1]\<rparr>"
    "bestMatch rampImage rampImage [1] [1] [4] = \<lparr>similarity = 1, displacement = Value [1]\<rparr>"
    "bestMatch rampImage rampImage [1] [1] [9] = \<lparr>similarity = 1, displacement = Value [1]\<rparr>"
    using bestMatch_ramp_at [of 0] bestMatch_ramp_at [of 4] bestMatch_ramp_at [of 9] by simp_all
  have inputs: "FeaturePoints ?s = Some [[0], [4], [9]]" "[[0], [4], [9]] \<noteq> ([]::PhysicalCoordinates list)"
    "FixedImage ?s = Some rampImage" "MovingImage ?s = Some rampImage"
    "0 < NumberOfWorkUnits ?s" "isSchedule (NumberOfWorkUnits ?s) [0]"
    by (simp_all add: exampleJoined_def exampleFilter_def isSchedule_def)
  have radii: "m_BlockRadius ?s = [1]" "m_SearchRadius ?s = [1]"
    by (simp_all add: exampleJoined_def exampleFilter_def)
  assume "GenerateData [0] ?s = Inr g1"
  then show ?thesis
    unfolding GenerateData_result [OF inputs] radii
    using best by auto
qed

section \<open>Claims about the execution\<close>

lemma upt_2: "[0..<2] = [0, 1]"
  by (simp add: upt_rec)

text \<open>
  Claim C8. If the feature point set is absent or holds no point, \<open>GenerateData\<close> throws
  the exception of \<open>BeforeThreadedGenerateData\<close> whatever the schedule of the work units
  would have been, and the state of the filter at the throw differs from the initial one in
  the point count only. If any required input is absent or there is no feature point, the
  execution requested by the pipeline fails with a \<open>ConfigurationError\<close> and leaves the
  two arrays and the two output point sets as they were: no array has been allocated, no
  work unit has written a result and no output point set has been produced or touched.
\<close>

theorem no_feature_points:
  assumes "FeaturePoints s = None \<or> FeaturePoints s = Some []
           \<or> FixedImage s = None \<or> MovingImage s = None"
  shows "(\<exists>why s'. UpdateOutputData schedule s = Inl (ConfigurationError why, s')
            \<and> m_DisplacementsVectorsArray s' = m_DisplacementsVectorsArray s
            \<and> m_SimilaritiesValuesArray s' = m_SimilaritiesValuesArray s
            \<and> Displacements s' = Displacements s
            \<and> Similarities s' = Similarities s)
       \<and> (FeaturePoints s = None \<or> FeaturePoints s = Some [] \<longrightarrow>
            BeforeThreadedGenerateData s
              = Inl (ConfigurationError (InvalidNumberOfFeaturePoints 0), s\<lparr>m_PointsCount := 0\<rparr>)
            \<and> GenerateData schedule s
              = Inl (ConfigurationError (InvalidNumberOfFeaturePoints 0), s\<lparr>m_PointsCount := 0\<rparr>))"
proof -
  have before: "BeforeThreadedGenerateData s
      = Inl (ConfigurationError (InvalidNumberOfFeaturePoints 0), s\<lparr>m_PointsCount := 0\<rparr>)"
    if "FeaturePoints s = None \<or> FeaturePoints s = Some []"
    using that by (auto simp: BeforeThreadedGenerateData_def Let_def)
  have whole: "GenerateData schedule s
      = Inl (ConfigurationError (InvalidNumberOfFeaturePoints 0), s\<lparr>m_PointsCount := 0\<rparr>)"
    if "FeaturePoints s = None \<or> FeaturePoints s = Some []"
    using before [OF that] by (simp add: GenerateData_def)
  have "\<exists>why s'. UpdateOutputData schedule s = Inl (ConfigurationError why, s')
            \<and> m_DisplacementsVectorsArray s' = m_DisplacementsVectorsArray s
            \<and> m_SimilaritiesValuesArray s' = m_SimilaritiesValuesArray s
            \<and> Displacements s' = Displacements s
            \<and> Similarities s' = Similarities s"
  proof (cases "FeaturePoints s = None \<or> FixedImage s = None \<or> MovingImage s = None")
    case True
    then show ?thesis
      by (auto simp: UpdateOutputData_def VerifyPreconditions_def split: option.splits)
  next
    case False
    then have "VerifyPreconditions s = Inr s"
      by (auto simp: VerifyPreconditions_def split: option.splits)
    moreover have "FeaturePoints s = Some []" using False assms by auto
    ultimately show ?thesis
      using whole by (simp add: UpdateOutputData_def)
  qed
  then show ?thesis using before whole by blast
qed

theorem no_feature_points_witness:
  "UpdateOutputData [0, 1] (exampleFilter\<lparr>FeaturePoints := Some []\<rparr>)
     = Inl (ConfigurationError (InvalidNumberOfFeaturePoints 0),
            exampleFilter\<lparr>FeaturePoints := Some [], m_PointsCount := 0\<rparr>)
   \<and> m_DisplacementsVectorsArray (exampleFilter\<lparr>FeaturePoints := Some [], m_PointsCount := 0\<rparr>) = None"
proof -
  have empty: "FeaturePoints (exampleFilter\<lparr>FeaturePoints := Some []\<rparr>) = None
               \<or> FeaturePoints (exampleFilter\<lparr>FeaturePoints := Some []\<rparr>) = Some []
               \<or> FixedImage (exampleFilter\<lparr>FeaturePoints := Some []\<rparr>) = None
               \<or> MovingImage (exampleFilter\<lparr>FeaturePoints := Some []\<rparr>) = None"
    by simp
  have verified: "VerifyPreconditions (exampleFilter\<lparr>FeaturePoints := Some []\<rparr>)
                    = Inr (exampleFilter\<lparr>FeaturePoints := Some []\<rparr>)"
    by (simp add: VerifyPreconditions_def exampleFilter_def)
  show ?thesis
    using no_feature_points [OF empty, of "[0, 1]"]
    by (simp add: UpdateOutputData_def verified) (simp add: exampleFilter_def)
qed

text \<open>
  Claim C10. After the parallel phase, with \<open>N\<close> feature points and two arrays of length
  \<open>N\<close>, \<open>AfterThreadedGenerateData\<close> succeeds and gives both output point sets
  exactly the identifiers \<open>0 .. N - 1\<close>: point \<open>i\<close> of either output is feature point
  \<open>i\<close>, the point data are entry \<open>i\<close> of the displacement array and of the
  similarity array respectively, and both arrays are released.
\<close>

theorem assembler_emits:
  assumes "FeaturePoints s = Some points" and "m_PointsCount s = length points"
    and "m_DisplacementsVectorsArray s = Some D" and "m_SimilaritiesValuesArray s = Some S"
    and "length D = length points" and "length S = length points"
  shows "\<exists>s'. AfterThreadedGenerateData s = Some s'
       \<and> (\<forall>i. Points (Displacements s') i = (if i < length points then Some (points ! i) else None))
       \<and> (\<forall>i. PointData (Displacements s') i = (if i < length points then Some (D ! i) else None))
       \<and> (\<forall>i. Points (Similarities s') i = (if i < length points then Some (points ! i) else None))
       \<and> (\<forall>i. PointData (Similarities s') i = (if i < length points then Some (S ! i) else None))
       \<and> m_DisplacementsVectorsArray s' = None
       \<and> m_SimilaritiesValuesArray s' = None"
  unfolding AfterThreadedGenerateData_emits [OF assms] by simp

theorem assembler_emits_witness:
  "map_option (\<lambda>s'. (Points (Displacements s') 1, PointData (Displacements s') 1,
                      Points (Similarities s') 2, PointData (Similarities s') 2,
                      PointData (Similarities s') 3,
                      m_DisplacementsVectorsArray s', m_SimilaritiesValuesArray s'))
     (AfterThreadedGenerateData exampleJoined)
   = Some (Some [4], Some (Value [-1]), Some [9], Some (Value 0), None, None, None)"
proof -
  have a: "FeaturePoints exampleJoined = Some [[0], [4], [9]]"
    and b: "m_PointsCount exampleJoined = length [[0::real], [4], [9]]"
    and c: "m_DisplacementsVectorsArray exampleJoined = Some [Value [1], Value [-1], Value [0]]"
    and d: "m_SimilaritiesValuesArray exampleJoined = Some [Value 1, Value 1, Value 0]"
    and e: "length [Value [1::real], Value [-1], Value [0]] = length [[0::real], [4], [9]]"
    and f: "length [Value (1::real), Value 1, Value 0] = length [[0::real], [4], [9]]"
    by (simp_all add: exampleJoined_def exampleFilter_def)
  show ?thesis
    using assembler_emits [OF a b c d e f] by (elim conjE exE) simp
qed

text \<open>
  Claim C9. With a block radius of zero on every axis the block is a single voxel, the
  variance of every block is \<open>0\<close>, the similarity of every candidate is \<open>0\<close>, the
  search of every feature point, whatever the images, returns the similarity \<open>0\<close>, and
  an execution of the filter emits the similarity \<open>0\<close> for every feature point.
\<close>

theorem degenerate_block:
  assumes "list_all (\<lambda>r. r = 0) blockRadius"
  shows "(\<exists>d. searchPoint (Some fixedImage) (Some movingImage) blockRadius searchRadius
                 (numberOfVoxelInBlock blockRadius) p = Some \<lparr>similarity = 0, displacement = d\<rparr>)
       \<and> blockVariance (blockValues fixedImage blockRadius candidate) = 0
       \<and> blockVariance (blockValues movingImage blockRadius candidate) = 0
       \<and> candidateSimilarity fixedImage movingImage blockRadius p candidate = 0
       \<and> (FeaturePoints s = Some points \<and> points \<noteq> [] \<and> FixedImage s = Some fixedImage
            \<and> MovingImage s = Some movingImage \<and> m_BlockRadius s = blockRadius
            \<and> 0 < NumberOfWorkUnits s \<and> isSchedule (NumberOfWorkUnits s) schedule \<longrightarrow>
          (\<exists>s'. GenerateData schedule s = Inr s'
             \<and> (\<forall>i<length points. PointData (Similarities s') i = Some (Value 0))))"
proof -
  have var: "blockVariance (blockValues img blockRadius c) = 0" for img c
    by (rule blockVariance_single) (simp add: length_blockValues numberOfVoxelInBlock_zero [OF assms])
  have sim: "candidateSimilarity fixedImage movingImage blockRadius q c = 0" for c q
    by (simp add: candidateSimilarity_def blockNCC_def var)
  have best: "similarity (bestMatch fixedImage movingImage blockRadius radius q) = 0" for radius q
  proof -
    obtain j where
      "searchPoint (Some fixedImage) (Some movingImage) blockRadius radius
         (numberOfVoxelInBlock blockRadius) q
       = Some (candidateMatch fixedImage movingImage blockRadius q
                 (windowCandidates fixedImage radius q ! j))"
      using search_selects [where cs = "windowCandidates fixedImage radius q"
          and fixedImage = fixedImage and movingImage = movingImage and radius = blockRadius and p = q,
          OF windowCandidates_nonempty]
      by (auto simp: searchPoint_def)
    then show ?thesis
      by (simp add: searchPoint_bestMatch candidateMatch_def sim)
  qed
  have search: "\<exists>d. searchPoint (Some fixedImage) (Some movingImage) blockRadius searchRadius
                 (numberOfVoxelInBlock blockRadius) p = Some \<lparr>similarity = 0, displacement = d\<rparr>"
  proof -
    have "bestMatch fixedImage movingImage blockRadius searchRadius p
        = \<lparr>similarity = 0,
           displacement = displacement (bestMatch fixedImage movingImage blockRadius searchRadius p)\<rparr>"
      using best [of searchRadius p] by (cases "bestMatch fixedImage movingImage blockRadius searchRadius p") simp
    then show ?thesis by (metis searchPoint_bestMatch)
  qed
  have whole: "\<exists>s'. GenerateData schedule s = Inr s'
             \<and> (\<forall>i<length points. PointData (Similarities s') i = Some (Value 0))"
    if "FeaturePoints s = Some points" "points \<noteq> []" "FixedImage s = Some fixedImage"
       "MovingImage s = Some movingImage" "m_BlockRadius s = blockRadius"
       "0 < NumberOfWorkUnits s" "isSchedule (NumberOfWorkUnits s) schedule"
    unfolding GenerateData_result [OF that(1-4) that(6,7)] by (simp add: that(5) best)
  have "FeaturePoints s = Some points \<and> points \<noteq> [] \<and> FixedImage s = Some fixedImage
            \<and> MovingImage s = Some movingImage \<and> m_BlockRadius s = blockRadius
            \<and> 0 < NumberOfWorkUnits s \<and> isSchedule (NumberOfWorkUnits s) schedule \<longrightarrow>
          (\<exists>s'. GenerateData schedule s = Inr s'
             \<and> (\<forall>i<length points. PointData (Similarities s') i = Some (Value 0)))"
    using whole by (intro impI) (elim conjE)
  then show ?thesis
    using search var [of fixedImage candidate] var [of movingImage candidate] sim [of p candidate]
    by (intro conjI)
qed

theorem degenerate_block_witness:
  "map_option similarity
     (searchPoint (Some rampImage) (Some rampImage) [0] [1] (numberOfVoxelInBlock [0]) [0]) = Some 0
   \<and> map_sum fst (\<lambda>s'. PointData (Similarities s') 1)
        (GenerateData [1, 0] (exampleFilter\<lparr>m_BlockRadius := [0]\<rparr>)) = Inr (Some (Value 0))"
proof -
  have zero: "list_all (\<lambda>r. r = 0) [0::nat]" by simp
  have sched: "isSchedule 2 [1, 0]"
    by (simp add: isSchedule_def upt_2)
  have inputs: "FeaturePoints (exampleFilter\<lparr>m_BlockRadius := [0]\<rparr>) = Some [[0], [4], [9]]
      \<and> [[0], [4], [9]] \<noteq> ([]::PhysicalCoordinates list)
      \<and> FixedImage (exampleFilter\<lparr>m_BlockRadius := [0]\<rparr>) = Some rampImage
      \<and> MovingImage (exampleFilter\<lparr>m_BlockRadius := [0]\<rparr>) = Some rampImage
      \<and> m_BlockRadius (exampleFilter\<lparr>m_BlockRadius := [0]\<rparr>) = [0]
      \<and> 0 < NumberOfWorkUnits (exampleFilter\<lparr>m_BlockRadius := [0]\<rparr>)
      \<and> isSchedule (NumberOfWorkUnits (exampleFilter\<lparr>m_BlockRadius := [0]\<rparr>)) [1, 0]"
    using sched by (simp add: exampleFilter_def)
  have search: "\<exists>d. searchPoint (Some rampImage) (Some rampImage) [0] [1]
                 (numberOfVoxelInBlock [0]) [0] = Some \<lparr>similarity = 0, displacement = d\<rparr>"
    and whole: "\<exists>s'. GenerateData [1, 0] (exampleFilter\<lparr>m_BlockRadius := [0]\<rparr>) = Inr s'
             \<and> (\<forall>i<length [[0::real], [4], [9]]. PointData (Similarities s') i = Some (Value 0))"
    using degenerate_block [OF zero, where fixedImage = rampImage and movingImage = rampImage
        and searchRadius = "[1]" and p = "[0]" and candidate = "[0]"
        and s = "exampleFilter\<lparr>m_BlockRadius := [0]\<rparr>" and points = "[[0], [4], [9]]"
        and schedule = "[1, 0]"] inputs
    by blast+
  show ?thesis using search whole by auto
qed

section \<open>Rounding to binary64\<close>

lemma find_upto_Some:
  assumes "find P [a .. b] = Some e"
  shows "a \<le> e" "e \<le> b" "P e" "\<And>e'. a \<le> e' \<Longrightarrow> e' < e \<Longrightarrow> \<not> P e'"
proof -
  from assms obtain i where i: "i < length [a .. b]" "P ([a .. b] ! i)" "e = [a .. b] ! i"
    "\<forall>j<i. \<not> P ([a .. b] ! j)"
    unfolding find_Some_iff by blast
  have len: "length [a .. b] = nat (b - a + 1)" by simp
  have nth: "[a .. b] ! j = a + int j" if "j < length [a .. b]" for j
    using that by (intro nth_upto) (simp add: len)
  have e: "e = a + int i" using i nth by simp
  show "a \<le> e" using e by simp
  show "e \<le> b" using e i(1) len by linarith
  show "P e" using i by simp
  fix e' assume "a \<le> e'" "e' < e"
  then have "nat (e' - a) < i" "e' = a + int (nat (e' - a))" using e by auto
  then show "\<not> P e'" using i(4) nth [of "nat (e' - a)"] i(1) by (metis less_trans)
qed

lemma find_upto_first:
  assumes "a \<le> e" "e \<le> b" "P e" "\<And>e'. a \<le> e' \<Longrightarrow> e' < e \<Longrightarrow> \<not> P e'"
  shows "find P [a .. b] = Some e"
proof -
  have len: "length [a .. b] = nat (b - a + 1)" by simp
  have nth: "[a .. b] ! j = a + int j" if "j < length [a .. b]" for j
    using that by (intro nth_upto) (simp add: len)
  let ?i = "nat (e - a)"
  have i: "?i < length [a .. b]" using assms(1,2) by (simp add: len)
  have "P ([a .. b] ! ?i)" "e = [a .. b] ! ?i" using nth [OF i] assms(1,3) by simp_all
  moreover have "\<forall>j<?i. \<not> P ([a .. b] ! j)"
  proof (intro allI impI)
    fix j assume j: "j < ?i"
    then have "j < length [a .. b]" using i by linarith
    then have "[a .. b] ! j = a + int j" by (rule nth)
    moreover have "a \<le> a + int j" "a + int j < e" using j by auto
    ultimately show "\<not> P ([a .. b] ! j)" using assms(4) by simp
  qed
  ultimately show ?thesis unfolding find_Some_iff using i by blast
qed

lemma find_upto_None: "(\<And>e. a \<le> e \<Longrightarrow> e \<le> b \<Longrightarrow> \<not> P e) \<Longrightarrow> find P [a .. b] = None"
  by (simp add: find_None_iff)

lemma find_upto_NoneD: "find P [a .. b] = None \<Longrightarrow> a \<le> e \<Longrightarrow> e \<le> b \<Longrightarrow> \<not> P e"
  by (simp add: find_None_iff)


lemma ulpExponent_eq:
  assumes "-1074 \<le> e" and "e \<le> 971" and "\<bar>x\<bar> < 2 powi (e + 53)"
    and "e = -1074 \<or> 2 powi (e + 52) \<le> \<bar>x\<bar>"
  shows "ulpExponent x = Some e"
  unfolding ulpExponent_def
proof (rule find_upto_first [where P = "\<lambda>e. \<bar>x\<bar> < 2 powi (e + 53)", OF assms(1,2,3)])
  fix e' :: int
  assume e': "-1074 \<le> e'" "e' < e"
  then have "2 powi (e + 52) \<le> \<bar>x\<bar>" using assms(1,4) by auto
  moreover have "(2::real) powi (e' + 53) \<le> 2 powi (e + 52)"
    using e' by (intro power_int_increasing) auto
  ultimately show "\<not> \<bar>x\<bar> < 2 powi (e' + 53)" by linarith
qed

lemma ulpExponent_None:
  assumes "2 ^ 1024 \<le> \<bar>x\<bar>"
  shows "ulpExponent x = None"
  unfolding ulpExponent_def
proof (rule find_upto_None)
  fix e :: int
  assume "e \<le> 971"
  then have "(2::real) powi (e + 53) \<le> 2 powi 1024"
    by (intro power_int_increasing) auto
  then show "\<not> \<bar>x\<bar> < 2 powi (e + 53)" using assms by simp
qed

lemma ulpExponent_Some:
  assumes "ulpExponent x = Some e"
  shows "-1074 \<le> e" and "e \<le> 971" and "\<bar>x\<bar> < 2 powi (e + 53)"
    and "e = -1074 \<or> 2 powi (e + 52) \<le> \<bar>x\<bar>"
proof -
  note f = find_upto_Some [OF assms [unfolded ulpExponent_def]]
  show "-1074 \<le> e" "e \<le> 971" "\<bar>x\<bar> < 2 powi (e + 53)" using f(1-3) by simp_all
  show "e = -1074 \<or> 2 powi (e + 52) \<le> \<bar>x\<bar>"
  proof (cases "e = -1074")
    case False
    then have "\<not> \<bar>x\<bar> < 2 powi (e - 1 + 53)"
      using f(1) by (intro f(4)) auto
    moreover have "e - 1 + 53 = e + 52" by simp
    ultimately show ?thesis by (simp add: not_less)
  qed simp
qed

lemma roundHalfEven_of_int [simp]: "roundHalfEven (of_int k) = k"
  by (simp add: roundHalfEven_def)

lemma roundHalfEven_ge_floor: "\<lfloor>y\<rfloor> \<le> roundHalfEven y"
  by (simp add: roundHalfEven_def Let_def)

text \<open>Representable values are rounded to themselves.\<close>

lemma rnd_exact:
  assumes "\<bar>m\<bar> < 2 ^ 53" and "-1074 \<le> k" and "k \<le> 971"
  shows "rnd (of_int m * 2 powi k) = Finite (of_int m * 2 powi k)"
proof -
  let ?x = "of_int m * (2::real) powi k"
  have abs: "\<bar>?x\<bar> = of_int \<bar>m\<bar> * 2 powi k" by (simp add: abs_mult)
  have "of_int \<bar>m\<bar> < (2::real) ^ 53" using assms(1) by (metis of_int_less_numeral_power_cancel_iff)
  then have lt: "\<bar>?x\<bar> < 2 powi (k + 53)"
    unfolding abs by (simp add: power_int_add mult.commute)
  have "\<exists>e. ulpExponent ?x = Some e"
  proof (cases "ulpExponent ?x")
    case None
    then have "\<not> \<bar>?x\<bar> < 2 powi (k + 53)"
      unfolding ulpExponent_def using assms(2,3) by (rule find_upto_NoneD)
    then show ?thesis using lt by simp
  qed simp
  then obtain e where e: "ulpExponent ?x = Some e" by blast
  have ek: "e \<le> k"
  proof (rule ccontr)
    assume "\<not> e \<le> k"
    then have "k < e" by simp
    moreover have "\<not> \<bar>?x\<bar> < 2 powi (k + 53)"
      using find_upto_Some(4) [OF e [unfolded ulpExponent_def], of k] assms(2) \<open>k < e\<close> by simp
    ultimately show False using lt by simp
  qed
  have "?x / 2 powi e = of_int m * 2 powi (k - e)"
    by (simp add: power_int_diff)
  also have "(2::real) powi (k - e) = of_int (2 ^ nat (k - e))"
    using ek by (simp add: power_int_def)
  finally have "?x / 2 powi e = of_int (m * 2 ^ nat (k - e))" by simp
  then have "of_int (roundHalfEven (?x / 2 powi e)) * 2 powi e = ?x / 2 powi e * 2 powi e"
    by (simp only: roundHalfEven_of_int)
  also have "\<dots> = ?x" by simp
  finally have y: "of_int (roundHalfEven (?x / 2 powi e)) * 2 powi e = ?x" .
  have "(2::real) powi (k + 53) \<le> 2 powi 1024"
    using assms(3) by (intro power_int_increasing) auto
  then have "\<bar>?x\<bar> < 2 ^ 1024" using lt by simp
  then show ?thesis
    unfolding rnd_def e option.case Let_def y by simp
qed

lemma rnd_of_int: "\<bar>m\<bar> < 2 ^ 53 \<Longrightarrow> rnd (of_int m) = Finite (of_int m)"
  using rnd_exact [of m 0] by simp

lemma rnd_overflow: "2 ^ 1024 \<le> \<bar>x\<bar> \<Longrightarrow> rnd x = overflow x"
  by (simp add: rnd_def ulpExponent_None)

text \<open>Rounding a value whose binade is known.\<close>

lemma rnd_eval:
  assumes "-1074 \<le> e" and "e \<le> 971" and "\<bar>x\<bar> < 2 powi (e + 53)"
    and "e = -1074 \<or> 2 powi (e + 52) \<le> \<bar>x\<bar>"
  shows "rnd x =
     (let y = of_int (roundHalfEven (x / 2 powi e)) * 2 powi e
      in if 2 ^ 1024 \<le> \<bar>y\<bar> then overflow x else Finite y)"
  by (simp add: rnd_def ulpExponent_eq [OF assms])

lemma rnd_nonzero:
  assumes "1 \<le> x"
  shows "rnd x \<noteq> Finite 0"
proof (cases "ulpExponent x")
  case None
  then show ?thesis by (simp add: rnd_def overflow_def)
next
  case (Some e)
  note b = ulpExponent_Some [OF Some]
  have pos: "(0::real) < 2 powi e" by simp
  have "2 powi e \<le> x"
  proof (cases "e = -1074")
    case True
    have "(2::real) powi e \<le> 2 powi 0"
      unfolding True by (intro power_int_increasing) auto
    then show ?thesis using assms by simp
  next
    case False
    then have le: "2 powi (e + 52) \<le> x" using b(4) assms by simp
    have "(2::real) powi e \<le> 2 powi (e + 52)"
      by (intro power_int_increasing) auto
    then show ?thesis using le by linarith
  qed
  then have "1 \<le> x / 2 powi e"
    using pos by (simp add: pos_le_divide_eq)
  then have "1 \<le> \<lfloor>x / 2 powi e\<rfloor>" by simp
  then have "1 \<le> roundHalfEven (x / 2 powi e)"
    using roundHalfEven_ge_floor [of "x / 2 powi e"] by linarith
  then have "0 < of_int (roundHalfEven (x / 2 powi e)) * (2::real) powi e"
    by (simp add: zero_less_mult_iff)
  then show ?thesis
    by (auto simp: rnd_def Some Let_def overflow_def)
qed

section \<open>The comparison and the conversion of the voxel count\<close>

lemma dge_refl: "a \<noteq> NaN \<Longrightarrow> dge a a"
  by (cases a) simp_all

lemma dge_NaN [simp]: "\<not> dge a NaN" "\<not> dge NaN a"
  by (cases a; simp)+

lemma dge_trans: "dge a b \<Longrightarrow> dge b c \<Longrightarrow> dge a c"
  by (cases a; cases b; cases c) simp_all

lemma dge_total: "a \<noteq> NaN \<Longrightarrow> b \<noteq> NaN \<Longrightarrow> dge a b \<or> dge b a"
  by (cases a; cases b) auto

lemma dge_not_NaN: "dge a b \<Longrightarrow> a \<noteq> NaN \<and> b \<noteq> NaN"
  by (cases a; cases b) simp_all

lemma ofCount_nonzero: "0 < n \<Longrightarrow> ofCount n \<noteq> Finite 0"
  unfolding ofCount_def by (rule rnd_nonzero) simp

section \<open>The statistics computed for a candidate in binary64 arithmetic\<close>

lemma length_blockValues64:
  "length (blockValues64 img radius anchor) = numberOfVoxelInBlock radius"
  by (simp add: blockValues64_def length_NeighborhoodOffsets)

lemma GetPixel64_blockValues:
  "i < numberOfVoxelInBlock radius \<Longrightarrow>
     GetPixel64 img radius position i = Some (blockValues64 img radius position ! i)"
  by (simp add: GetPixel64_def blockValues64_def length_NeighborhoodOffsets)

lemma blockSums64_upto:
  assumes "n \<le> length A" and "length A = numberOfVoxelInBlock radius"
    and "A = blockValues64 fixedImage radius windowIndex"
    and "B = blockValues64 movingImage radius centerIndex"
  shows "forEach [0 ..< n] (accumulateVoxel64 fixedImage movingImage radius windowIndex centerIndex)
           zeroSums64 = Some (sums64 (take n A) (take n B))"
  using assms(1)
proof (induction n)
  case 0
  then show ?case by (simp add: sums64_def zeroSums64_def accumulate64_def)
next
  case (Suc n)
  have lenB: "length B = length A" by (simp add: assms(2,3,4) length_blockValues64)
  have n: "n < length A" "n < length B" using Suc.prems lenB by simp_all
  have nv: "n < numberOfVoxelInBlock radius" using n assms(2) by simp
  have takeA: "take (Suc n) A = take n A @ [A ! n]" and takeB: "take (Suc n) B = take n B @ [B ! n]"
    using n by (simp_all add: take_Suc_conv_app_nth)
  have zip: "map2 dmul (take n A @ [A ! n]) (take n B @ [B ! n])
           = map2 dmul (take n A) (take n B) @ [dmul (A ! n) (B ! n)]"
    using n by (simp add: zip_append)
  from Suc show ?case
    unfolding takeA takeB
    by (simp add: forEach_append accumulateVoxel64_def
        GetPixel64_blockValues [OF nv] assms(3,4) [symmetric] sums64_def accumulate64_def zip)
qed

lemma blockSums64_eq:
  "blockSums64 fixedImage movingImage radius (numberOfVoxelInBlock radius) windowIndex centerIndex =
     Some (sums64 (blockValues64 fixedImage radius windowIndex)
                  (blockValues64 movingImage radius centerIndex))"
  using blockSums64_upto [of "numberOfVoxelInBlock radius"
      "blockValues64 fixedImage radius windowIndex" radius fixedImage windowIndex
      "blockValues64 movingImage radius centerIndex" movingImage centerIndex]
  by (simp add: blockSums64_def length_blockValues64)

lemma blockSimilarity64_total:
  "0 < n \<Longrightarrow> blockSimilarity64 n stats = Some (similarityOf64 n stats)"
  by (simp add: blockSimilarity64_def similarityOf64_def checkedDivide64_def ofCount_nonzero Let_def
      fixedVariance64_def movingVariance64_def covarianceOf64_def variance64_def
      centredCovariance64_def mean64_def)

lemma visitCandidate64_eq:
  "visitCandidate64 fixedImage movingImage radius (numberOfVoxelInBlock radius) originalLocation
       (TransformPhysicalPointToIndex64 movingImage originalLocation) candidate best =
     Some (if dge (candidateSimilarity64 fixedImage movingImage radius originalLocation candidate)
                  (similarity64 best)
           then candidateMatch64 fixedImage movingImage radius originalLocation candidate
           else best)"
  by (simp add: visitCandidate64_def blockSums64_eq blockSimilarity64_total numberOfVoxelInBlock_pos
      candidateSimilarity64_def candidateMatch64_def)

section \<open>The sign of a rounded result\<close>

lemma roundHalfEven_le_ceiling: "roundHalfEven y \<le> \<lceil>y\<rceil>"
proof -
  have "\<lfloor>y\<rfloor> + 1 \<le> \<lceil>y\<rceil>" if "y \<noteq> of_int \<lfloor>y\<rfloor>"
    using that by (metis ceiling_altdef order_refl)
  moreover have "y - of_int \<lfloor>y\<rfloor> = 0" if "y = of_int \<lfloor>y\<rfloor>" using that by simp
  ultimately show ?thesis
    unfolding roundHalfEven_def Let_def
    by (cases "y = of_int \<lfloor>y\<rfloor>") (auto simp: le_ceiling_iff intro: order_trans)
qed

lemma ulpExponent_None_large: "ulpExponent x = None \<Longrightarrow> 2 ^ 1024 \<le> \<bar>x\<bar>"
proof -
  assume "ulpExponent x = None"
  then have "\<not> \<bar>x\<bar> < 2 powi (971 + 53)"
    unfolding ulpExponent_def by (rule find_upto_NoneD) simp_all
  then show ?thesis by simp
qed

lemma rnd_nonneg:
  assumes "0 \<le> x"
  shows "dge (rnd x) (Finite 0)"
proof (cases "ulpExponent x")
  case None
  then have "0 < x" using ulpExponent_None_large [of x] assms by (cases "x = 0") simp_all
  then show ?thesis using None by (simp add: rnd_def overflow_def)
next
  case (Some e)
  let ?m = "roundHalfEven (x / 2 powi e)"
  have "0 \<le> x / 2 powi e" using assms by simp
  then have "0 \<le> \<lfloor>x / 2 powi e\<rfloor>" by simp
  then have m: "0 \<le> ?m" using roundHalfEven_ge_floor [of "x / 2 powi e"] by linarith
  then have y: "0 \<le> of_int ?m * (2::real) powi e" by simp
  show ?thesis
  proof (cases "x = 0")
    case True
    then show ?thesis using rnd_of_int [of 0] by simp
  next
    case False
    then have "0 < x" using assms by simp
    then show ?thesis using Some y by (simp add: rnd_def Let_def overflow_def)
  qed
qed

lemma rnd_nonpos:
  assumes "x \<le> 0"
  shows "dge (Finite 0) (rnd x)"
proof (cases "ulpExponent x")
  case None
  then have "x < 0" using ulpExponent_None_large [of x] assms by (cases "x = 0") simp_all
  then show ?thesis using None by (simp add: rnd_def overflow_def)
next
  case (Some e)
  let ?m = "roundHalfEven (x / 2 powi e)"
  have "x / 2 powi e \<le> 0" using assms by (simp add: divide_le_0_iff)
  then have "\<lceil>x / 2 powi e\<rceil> \<le> 0" by (simp add: ceiling_le_iff)
  then have m: "?m \<le> 0" using roundHalfEven_le_ceiling [of "x / 2 powi e"] by linarith
  then have y: "of_int ?m * (2::real) powi e \<le> 0" by (simp add: mult_le_0_iff)
  show ?thesis
  proof (cases "x = 0")
    case True
    then show ?thesis using rnd_of_int [of 0] by simp
  next
    case False
    then have "x < 0" using assms by simp
    then show ?thesis using Some y by (simp add: rnd_def Let_def overflow_def)
  qed
qed

lemma square_nonneg64: "dmul a a = NaN \<or> dge (dmul a a) (Finite 0)"
  by (cases a) (simp_all add: rnd_nonneg infinity_def)

lemma quotient_sign64:
  assumes "dge c (Finite 0)"
  shows "dge p (Finite 0) \<Longrightarrow> p \<noteq> Finite 0 \<Longrightarrow> ddiv c p = NaN \<or> dge (ddiv c p) (Finite 0)"
    and "dge (Finite 0) p \<Longrightarrow> p \<noteq> Finite 0 \<Longrightarrow> ddiv c p = NaN \<or> dge (Finite 0) (ddiv c p)"
proof -
  show "ddiv c p = NaN \<or> dge (ddiv c p) (Finite 0)" if "dge p (Finite 0)" "p \<noteq> Finite 0"
    using assms that
    by (cases c; cases p) (simp_all add: rnd_nonneg infinity_def)
  show "ddiv c p = NaN \<or> dge (Finite 0) (ddiv c p)" if "dge (Finite 0) p" "p \<noteq> Finite 0"
    using assms that
    by (cases c; cases p) (simp_all add: rnd_nonpos infinity_def divide_le_0_iff)
qed

lemma variance_product_zero64: "dmul (Finite 0) (Finite y) = Finite 0" "dmul (Finite x) (Finite 0) = Finite 0"
  using rnd_of_int [of 0] by simp_all

lemma similarityOf64_sign:
  shows "dge (dmul (fixedVariance64 n stats) (movingVariance64 n stats)) (Finite 0) \<Longrightarrow>
           similarityOf64 n stats = NaN \<or> dge (similarityOf64 n stats) (Finite 0)"
    and "dge (Finite 0) (dmul (fixedVariance64 n stats) (movingVariance64 n stats)) \<Longrightarrow>
           similarityOf64 n stats = NaN \<or> dge (Finite 0) (similarityOf64 n stats)"
proof -
  let ?p = "dmul (fixedVariance64 n stats) (movingVariance64 n stats)"
  let ?c = "covarianceOf64 n stats"
  show "similarityOf64 n stats = NaN \<or> dge (similarityOf64 n stats) (Finite 0)" if "dge ?p (Finite 0)"
  proof (cases "?p = Finite 0")
    case True
    then show ?thesis by (simp add: similarityOf64_def)
  next
    case False
    show ?thesis
    proof (cases "dmul ?c ?c = NaN")
      case True
      then show ?thesis using False by (simp add: similarityOf64_def)
    next
      case nn: False
      then have "dge (dmul ?c ?c) (Finite 0)" using square_nonneg64 [of ?c] by simp
      from quotient_sign64(1) [OF this that False] show ?thesis
        using False by (simp add: similarityOf64_def)
    qed
  qed
  show "similarityOf64 n stats = NaN \<or> dge (Finite 0) (similarityOf64 n stats)" if "dge (Finite 0) ?p"
  proof (cases "?p = Finite 0")
    case True
    then show ?thesis by (simp add: similarityOf64_def)
  next
    case False
    show ?thesis
    proof (cases "dmul ?c ?c = NaN")
      case True
      then show ?thesis using False by (simp add: similarityOf64_def)
    next
      case nn: False
      then have "dge (dmul ?c ?c) (Finite 0)" using square_nonneg64 [of ?c] by simp
      from quotient_sign64(2) [OF this that False] show ?thesis
        using False by (simp add: similarityOf64_def)
    qed
  qed
qed

section \<open>The selection of the best candidate in binary64 arithmetic\<close>

text \<open>
  After any prefix of the window either no candidate has been retained, and then no
  candidate of the prefix has a similarity that compares \<open>>= 0\<close>, or the retained candidate is
  the last one among those of greatest similarity.
\<close>

lemma search_selects64:
  fixes fixedImage movingImage :: Image64 and uninitialised p :: "double list"
    and radius :: ImageSizeType
  defines "init \<equiv> \<lparr>similarity64 = Finite 0, displacement64 = uninitialised\<rparr>"
  defines "sim \<equiv> candidateSimilarity64 fixedImage movingImage radius p"
  defines "visit \<equiv> visitCandidate64 fixedImage movingImage radius (numberOfVoxelInBlock radius) p
                       (TransformPhysicalPointToIndex64 movingImage p)"
  shows "(forEach cs visit init = Some init \<and> (\<forall>k<length cs. \<not> dge (sim (cs ! k)) (Finite 0)))
       \<or> (\<exists>j<length cs.
             forEach cs visit init = Some (candidateMatch64 fixedImage movingImage radius p (cs ! j))
           \<and> dge (sim (cs ! j)) (Finite 0)
           \<and> (\<forall>k<length cs. sim (cs ! k) \<noteq> NaN \<longrightarrow> dge (sim (cs ! j)) (sim (cs ! k)))
           \<and> (\<forall>k<length cs. j < k \<longrightarrow> \<not> dge (sim (cs ! k)) (sim (cs ! j))))"
proof (induction cs rule: rev_induct)
  case Nil
  show ?case by simp
next
  case (snoc c cs)
  let ?match = "candidateMatch64 fixedImage movingImage radius p"
  have visit: "visit c best = Some (if dge (sim c) (similarity64 best) then ?match c else best)" for c best
    unfolding visit_def sim_def by (rule visitCandidate64_eq)
  have sim_match: "similarity64 (?match c) = sim c" for c
    by (simp add: candidateMatch64_def sim_def)
  have sim_init: "similarity64 init = Finite 0"
    by (simp add: init_def)
  from snoc.IH show ?case
  proof (elim disjE conjE exE)
    assume run: "forEach cs visit init = Some init"
      and none: "\<forall>k<length cs. \<not> dge (sim (cs ! k)) (Finite 0)"
    show ?thesis
    proof (cases "dge (sim c) (Finite 0)")
      case True
      have "forEach (cs @ [c]) visit init = Some (?match c)"
        using True by (simp add: forEach_append run visit sim_init)
      moreover have "\<forall>k<length (cs @ [c]). sim ((cs @ [c]) ! k) \<noteq> NaN \<longrightarrow> dge (sim c) (sim ((cs @ [c]) ! k))"
      proof (intro allI impI)
        fix k assume k: "k < length (cs @ [c])" and nn: "sim ((cs @ [c]) ! k) \<noteq> NaN"
        show "dge (sim c) (sim ((cs @ [c]) ! k))"
        proof (cases "k < length cs")
          case True
          then have "\<not> dge (sim (cs ! k)) (Finite 0)" and "sim (cs ! k) \<noteq> NaN"
            using none nn by (simp_all add: nth_append)
          then have "dge (Finite 0) (sim (cs ! k))" using dge_total [of "sim (cs ! k)" "Finite 0"] by simp
          then show ?thesis using \<open>dge (sim c) (Finite 0)\<close> True
            by (auto simp: nth_append intro: dge_trans)
        next
          case False
          then have "k = length cs" using k by simp
          then show ?thesis using nn by (simp add: dge_refl)
        qed
      qed
      ultimately show ?thesis
        using True by (intro disjI2 exI [of _ "length cs"]) simp
    next
      case False
      have "forEach (cs @ [c]) visit init = Some init"
        using False by (simp add: forEach_append run visit sim_init)
      moreover have "\<forall>k<length (cs @ [c]). \<not> dge (sim ((cs @ [c]) ! k)) (Finite 0)"
      proof (intro allI impI)
        fix k assume "k < length (cs @ [c])"
        then show "\<not> dge (sim ((cs @ [c]) ! k)) (Finite 0)"
          using none False by (cases "k < length cs") (auto simp: nth_append)
      qed
      ultimately show ?thesis by (intro disjI1 conjI)
    qed
  next
    fix j
    assume j: "j < length cs"
      and run: "forEach cs visit init = Some (?match (cs ! j))"
      and pos: "dge (sim (cs ! j)) (Finite 0)"
      and ge: "\<forall>k<length cs. sim (cs ! k) \<noteq> NaN \<longrightarrow> dge (sim (cs ! j)) (sim (cs ! k))"
      and later: "\<forall>k<length cs. j < k \<longrightarrow> \<not> dge (sim (cs ! k)) (sim (cs ! j))"
    have jn: "sim (cs ! j) \<noteq> NaN" using pos dge_not_NaN by blast
    show ?thesis
    proof (cases "dge (sim c) (sim (cs ! j))")
      case True
      have "forEach (cs @ [c]) visit init = Some (?match c)"
        using True by (simp add: forEach_append run visit sim_match)
      moreover have "dge (sim c) (Finite 0)" using True pos by (rule dge_trans)
      moreover have "\<forall>k<length (cs @ [c]). sim ((cs @ [c]) ! k) \<noteq> NaN \<longrightarrow> dge (sim c) (sim ((cs @ [c]) ! k))"
      proof (intro allI impI)
        fix k assume k: "k < length (cs @ [c])" and nn: "sim ((cs @ [c]) ! k) \<noteq> NaN"
        show "dge (sim c) (sim ((cs @ [c]) ! k))"
        proof (cases "k < length cs")
          case kl: True
          then have "dge (sim (cs ! j)) (sim (cs ! k))" using ge nn by (simp add: nth_append)
          with True show ?thesis using kl by (auto simp: nth_append intro: dge_trans)
        next
          case False
          then have "k = length cs" using k by simp
          then show ?thesis using nn by (simp add: dge_refl)
        qed
      qed
      ultimately show ?thesis
        by (intro disjI2 exI [of _ "length cs"]) simp
    next
      case False
      have "forEach (cs @ [c]) visit init = Some (?match (cs ! j))"
        using False by (simp add: forEach_append run visit sim_match)
      moreover have "\<forall>k<length (cs @ [c]). sim ((cs @ [c]) ! k) \<noteq> NaN \<longrightarrow>
                        dge (sim (cs ! j)) (sim ((cs @ [c]) ! k))"
      proof (intro allI impI)
        fix k assume k: "k < length (cs @ [c])" and nn: "sim ((cs @ [c]) ! k) \<noteq> NaN"
        show "dge (sim (cs ! j)) (sim ((cs @ [c]) ! k))"
        proof (cases "k < length cs")
          case True
          then show ?thesis using ge nn by (simp add: nth_append)
        next
          case kl: False
          then have "k = length cs" using k by simp
          then have "sim c \<noteq> NaN" using nn by simp
          then have "dge (sim (cs ! j)) (sim c)" using dge_total [OF jn, of "sim c"] False by blast
          then show ?thesis using \<open>k = length cs\<close> by simp
        qed
      qed
      moreover have "\<forall>k<length (cs @ [c]). j < k \<longrightarrow> \<not> dge (sim ((cs @ [c]) ! k)) (sim (cs ! j))"
      proof (intro allI impI)
        fix k assume "k < length (cs @ [c])" and "j < k"
        then show "\<not> dge (sim ((cs @ [c]) ! k)) (sim (cs ! j))"
          using later False by (cases "k < length cs") (auto simp: nth_append)
      qed
      ultimately show ?thesis
        using j pos by (intro disjI2 exI [of _ j]) (simp add: nth_append)
    qed
  qed
qed

section \<open>Evaluation of the example inputs in binary64 arithmetic\<close>

lemma rnd_0 [simp]: "rnd 0 = Finite 0"
  using rnd_of_int [of 0] by simp

lemma rnd_1 [simp]: "rnd 1 = Finite 1"
  using rnd_of_int [of 1] by simp

lemma rnd_neg_1 [simp]: "rnd (- 1) = Finite (- 1)"
  using rnd_of_int [of "- 1"] by simp

lemma rnd_numeral [simp]: "(numeral k :: int) < 2 ^ 53 \<Longrightarrow> rnd (numeral k) = Finite (numeral k)"
  using rnd_of_int [of "numeral k"] by simp

lemma rnd_neg_numeral [simp]:
  "(numeral k :: int) < 2 ^ 53 \<Longrightarrow> rnd (- numeral k) = Finite (- numeral k)"
  using rnd_of_int [of "- numeral k"] by simp

text \<open>
  The roundings that occur when the statistics of the example blocks are computed. Each is
  justified by the binade of the exact value: \<open>e\<close> is the exponent of its unit in the last
  place.
\<close>

lemma tenth_eq: "tenth = Finite (3602879701896397 / 36028797018963968)"
  unfolding tenth_def
  by (subst rnd_eval [where e = "-56"]) (simp_all add: roundHalfEven_def Let_def power_int_minus)

lemma rnd_example_1: "rnd (3602879701896397 / 36028797018963968) = Finite (3602879701896397 / 36028797018963968)"
  by (subst rnd_eval [where e = "-56"]) (simp_all add: roundHalfEven_def Let_def power_int_minus)

lemma rnd_example_2: "rnd (12980742146337070512478121581609 / 1298074214633706907132624082305024) = Finite (1441151880758559 / 144115188075855872)"
  by (subst rnd_eval [where e = "-59"]) (simp_all add: roundHalfEven_def Let_def power_int_minus)

lemma rnd_example_3: "rnd (1441151880758559 / 144115188075855872) = Finite (1441151880758559 / 144115188075855872)"
  by (subst rnd_eval [where e = "-59"]) (simp_all add: roundHalfEven_def Let_def power_int_minus)

lemma rnd_example_4: "rnd (3602879701896397 / 18014398509481984) = Finite (3602879701896397 / 18014398509481984)"
  by (subst rnd_eval [where e = "-55"]) (simp_all add: roundHalfEven_def Let_def power_int_minus)

lemma rnd_example_5: "rnd (1441151880758559 / 72057594037927936) = Finite (1441151880758559 / 72057594037927936)"
  by (subst rnd_eval [where e = "-58"]) (simp_all add: roundHalfEven_def Let_def power_int_minus)

lemma rnd_example_6: "rnd (10808639105689191 / 36028797018963968) = Finite (1351079888211149 / 4503599627370496)"
  by (subst rnd_eval [where e = "-54"]) (simp_all add: roundHalfEven_def Let_def power_int_minus)

lemma rnd_example_7: "rnd (4323455642275677 / 144115188075855872) = Finite (4323455642275677 / 144115188075855872)"
  by (subst rnd_eval [where e = "-58"]) (simp_all add: roundHalfEven_def Let_def power_int_minus)

lemma rnd_example_8: "rnd (1351079888211149 / 13510798882111488) = Finite (7205759403792795 / 72057594037927936)"
  by (subst rnd_eval [where e = "-56"]) (simp_all add: roundHalfEven_def Let_def power_int_minus)

lemma rnd_example_9: "rnd (21617278211378385 / 72057594037927936) = Finite (1351079888211149 / 4503599627370496)"
  by (subst rnd_eval [where e = "-54"]) (simp_all add: roundHalfEven_def Let_def power_int_minus)

lemma rnd_example_10: "rnd (9735556609752805136158404871455 / 324518553658426726783156020576256) = Finite (8646911284551355 / 288230376151711744)"
  by (subst rnd_eval [where e = "-58"]) (simp_all add: roundHalfEven_def Let_def power_int_minus)

lemma rnd_example_11: "rnd (- (1 / 288230376151711744)) = Finite (- (1 / 288230376151711744))"
  by (subst rnd_eval [where e = "-110"]) (simp_all add: roundHalfEven_def Let_def power_int_minus)

lemma rnd_example_12: "rnd (1 / 83076749736557242056487941267521536) = Finite (1 / 83076749736557242056487941267521536)"
  by (subst rnd_eval [where e = "-168"]) (simp_all add: roundHalfEven_def Let_def power_int_minus)

lemma rnd_example_13: "rnd (1 / 3) = Finite (6004799503160661 / 18014398509481984)"
  by (subst rnd_eval [where e = "-54"]) (simp_all add: roundHalfEven_def Let_def power_int_minus)

lemma rnd_example_14: "rnd (5 / 3) = Finite (7505999378950827 / 4503599627370496)"
  by (subst rnd_eval [where e = "-52"]) (simp_all add: roundHalfEven_def Let_def power_int_minus)

lemma rnd_example_15: "rnd (18014398509481983 / 18014398509481984) = Finite 1"
  by (subst rnd_eval [where e = "-53"]) (simp_all add: roundHalfEven_def Let_def power_int_minus)

lemma rnd_example_16: "rnd (6004799503160661 / 18014398509481984) = Finite (6004799503160661 / 18014398509481984)"
  by (subst rnd_eval [where e = "-54"]) (simp_all add: roundHalfEven_def Let_def power_int_minus)

lemma rnd_example_17: "rnd (12009599006321323 / 18014398509481984) = Finite (3002399751580331 / 4503599627370496)"
  by (subst rnd_eval [where e = "-53"]) (simp_all add: roundHalfEven_def Let_def power_int_minus)

lemma rnd_example_18: "rnd (22517998136852481 / 4503599627370496) = Finite 5"
  by (subst rnd_eval [where e = "-50"]) (simp_all add: roundHalfEven_def Let_def power_int_minus)

lemma rnd_example_19: "rnd (37529996894754135 / 4503599627370496) = Finite (4691249611844267 / 562949953421312)"
  by (subst rnd_eval [where e = "-49"]) (simp_all add: roundHalfEven_def Let_def power_int_minus)

lemma rnd_example_20: "rnd (375299968947541 / 562949953421312) = Finite (375299968947541 / 562949953421312)"
  by (subst rnd_eval [where e = "-53"]) (simp_all add: roundHalfEven_def Let_def power_int_minus)

lemma rnd_example_21: "rnd (7505999378950827 / 4503599627370496) = Finite (7505999378950827 / 4503599627370496)"
  by (subst rnd_eval [where e = "-52"]) (simp_all add: roundHalfEven_def Let_def power_int_minus)

lemma rnd_example_22: "rnd (- (3002399751580331 / 4503599627370496)) = Finite (- (3002399751580331 / 4503599627370496))"
  by (subst rnd_eval [where e = "-53"]) (simp_all add: roundHalfEven_def Let_def power_int_minus)

lemma rnd_example_23: "rnd (1126800533536203036741586416071 / 2535301200456458802993406410752) = Finite (4003199668773771 / 9007199254740992)"
  by (subst rnd_eval [where e = "-54"]) (simp_all add: roundHalfEven_def Let_def power_int_minus)

lemma rnd_example_24: "rnd (9014404268289633301131946069561 / 20282409603651670423947251286016) = Finite (4003199668773775 / 9007199254740992)"
  by (subst rnd_eval [where e = "-54"]) (simp_all add: roundHalfEven_def Let_def power_int_minus)

lemma rnd_example_25: "rnd (4003199668773775 / 4003199668773771) = Finite (4503599627370501 / 4503599627370496)"
  by (subst rnd_eval [where e = "-52"]) (simp_all add: roundHalfEven_def Let_def power_int_minus)

lemma rnd_example_26: "rnd (9007199254740993 / 18014398509481984) = Finite (1 / 2)"
  by (subst rnd_eval [where e = "-53"]) (simp_all add: roundHalfEven_def Let_def power_int_minus)

lemma rnd_example_27: "rnd (21617278211378381 / 36028797018963968) = Finite (5404319552844595 / 9007199254740992)"
  by (subst rnd_eval [where e = "-53"]) (simp_all add: roundHalfEven_def Let_def power_int_minus)

lemma rnd_example_28: "rnd (1351079888211149 / 2251799813685248) = Finite (1351079888211149 / 2251799813685248)"
  by (subst rnd_eval [where e = "-53"]) (simp_all add: roundHalfEven_def Let_def power_int_minus)

lemma rnd_example_29: "rnd (- (1 / 9007199254740992)) = Finite (- (1 / 9007199254740992))"
  by (subst rnd_eval [where e = "-105"]) (simp_all add: roundHalfEven_def Let_def power_int_minus)

lemma rnd_example_30: "rnd (- (1 / 144115188075855872)) = Finite (- (1 / 144115188075855872))"
  by (subst rnd_eval [where e = "-109"]) (simp_all add: roundHalfEven_def Let_def power_int_minus)

lemma rnd_example_31: "rnd (1 / 81129638414606681695789005144064) = Finite (1 / 81129638414606681695789005144064)"
  by (subst rnd_eval [where e = "-158"]) (simp_all add: roundHalfEven_def Let_def power_int_minus)

lemma rnd_example_32: "rnd (- (1 / 562949953421312)) = Finite (- (1 / 562949953421312))"
  by (subst rnd_eval [where e = "-101"]) (simp_all add: roundHalfEven_def Let_def power_int_minus)

lemma rnd_example_33: "rnd (1 / 4) = Finite (1 / 4)"
  by (subst rnd_eval [where e = "-54"]) (simp_all add: roundHalfEven_def Let_def power_int_minus)

lemmas rnd_examples = rnd_example_1 rnd_example_2 rnd_example_3 rnd_example_4 rnd_example_5 rnd_example_6 rnd_example_7 rnd_example_8 rnd_example_9 rnd_example_10 rnd_example_11 rnd_example_12 rnd_example_13 rnd_example_14 rnd_example_15 rnd_example_16 rnd_example_17 rnd_example_18 rnd_example_19 rnd_example_20 rnd_example_21 rnd_example_22 rnd_example_23 rnd_example_24 rnd_example_25 rnd_example_26 rnd_example_27 rnd_example_28 rnd_example_29 rnd_example_30 rnd_example_31 rnd_example_32 rnd_example_33

text \<open>The similarities of the example blocks.\<close>

lemma numberOfVoxelInBlock_1: "numberOfVoxelInBlock [1] = 3"
  by (simp add: numberOfVoxelInBlock_def)

lemma ofCount_3: "ofCount 3 = Finite 3"
  by (simp add: ofCount_def)

lemmas similarity64_simps =
  similarityOf64_def sums64_def accumulate64_def fixedVariance64_def movingVariance64_def
  covarianceOf64_def variance64_def centredCovariance64_def mean64_def dsub_def ofCount_3

lemma similarity_constant_blocks:
  "similarityOf64 3 (sums64 [tenth, tenth, tenth] [tenth, tenth, tenth]) = Finite 1"
  by (simp add: similarity64_simps tenth_eq rnd_examples)

lemma variance_constant_block:
  "fixedVariance64 3 (sums64 [tenth, tenth, tenth] B) = Finite (- (1 / 288230376151711744))"
  by (simp add: similarity64_simps tenth_eq rnd_examples)

lemma similarity_above_one:
  "similarityOf64 3 (sums64 [Finite 0, Finite 0, Finite 1] [Finite 2, Finite 2, Finite 1])
     = Finite (4503599627370501 / 4503599627370496)"
  by (simp add: similarity64_simps rnd_examples)

lemma similarity_negative:
  "similarityOf64 3 (sums64 [tenth, tenth, tenth] [Finite 2, Finite 3, Finite 1])
     = Finite (- (1 / 562949953421312))"
  by (simp add: similarity64_simps tenth_eq rnd_examples)

lemma similarity_integer_blocks:
  "similarityOf64 3 (sums64 [Finite 0, Finite 1, Finite 2] [Finite 0, Finite 1, Finite 2]) = Finite 1"
  "similarityOf64 3 (sums64 [Finite 1, Finite 2, Finite 3] [Finite 0, Finite 1, Finite 2]) = Finite 1"
  "similarityOf64 3 (sums64 [Finite 2, Finite 3, Finite 1] [Finite 0, Finite 1, Finite 2]) = Finite (1 / 4)"
  by (simp_all add: similarity64_simps rnd_examples)

lemma variances_integer_blocks:
  "fixedVariance64 3 (sums64 [Finite 2, Finite 3, Finite 1] [Finite 0, Finite 1, Finite 2]) = Finite 2"
  "movingVariance64 3 (sums64 [Finite 2, Finite 3, Finite 1] [Finite 0, Finite 1, Finite 2]) = Finite 2"
  "covarianceOf64 3 (sums64 [Finite 2, Finite 3, Finite 1] [Finite 0, Finite 1, Finite 2]) = Finite (- 1)"
  by (simp_all add: similarity64_simps rnd_examples)

lemma blockValues64_constant: "blockValues64 (constantImage64 v) [1] c = [v, v, v]"
  unfolding blockValues64_def NeighborhoodOffsets_1 constantImage64_def by simp

lemma blockValues64_ramp: "blockValues64 rampImage64 [1] [1] = [Finite 0, Finite 1, Finite 2]"
  unfolding blockValues64_def NeighborhoodOffsets_1 rampImage64_def by simp

lemma blockValues64_periodic:
  "blockValues64 (periodicImage64 [0, 0, 1]) [1] [1] = [Finite 0, Finite 0, Finite 1]"
  "blockValues64 (periodicImage64 [2, 2, 1]) [1] [1] = [Finite 2, Finite 2, Finite 1]"
  "blockValues64 (periodicImage64 [2, 3, 1]) [1] [1] = [Finite 2, Finite 3, Finite 1]"
  "blockValues64 (periodicImage64 [2, 3, 1]) [1] [4] = [Finite 2, Finite 3, Finite 1]"
  "blockValues64 (periodicImage64 [1, 2, 3, 1, 0]) [1] [0] = [Finite 0, Finite 1, Finite 2]"
  "blockValues64 (periodicImage64 [1, 2, 3, 1, 0]) [1] [1] = [Finite 1, Finite 2, Finite 3]"
  "blockValues64 (periodicImage64 [1, 2, 3, 1, 0]) [1] [2] = [Finite 2, Finite 3, Finite 1]"
  unfolding blockValues64_def NeighborhoodOffsets_1 periodicImage64_def by simp_all

lemma windowCandidates64_examples:
  "windowCandidates64 (constantImage64 v) [1] [Finite 1] = [[0], [1], [2]]"
  "windowCandidates64 (constantImage64 v) [1] [Finite 4] = [[3], [4], [5]]"
  "windowCandidates64 (periodicImage64 xs) [1] [Finite 1] = [[0], [1], [2]]"
  by (simp_all add: windowCandidates64_def windowStart_def windowSize_def constantImage64_def
      periodicImage64_def upt_3)

lemma index64_examples:
  "TransformPhysicalPointToIndex64 (constantImage64 v) [Finite 1] = [1]"
  "TransformPhysicalPointToIndex64 (periodicImage64 xs) [Finite 1] = [1]"
  "TransformPhysicalPointToIndex64 (periodicImage64 xs) [Finite 4] = [4]"
  "TransformPhysicalPointToIndex64 rampImage64 [Finite 1] = [1]"
  by (simp_all add: constantImage64_def periodicImage64_def rampImage64_def)

lemma candidateSimilarity64_negative:
  "candidateSimilarity64 (constantImage64 tenth) (periodicImage64 [2, 3, 1]) [1] [Finite 1] c
     = Finite (- (1 / 562949953421312))"
  "candidateSimilarity64 (constantImage64 tenth) (periodicImage64 [2, 3, 1]) [1] [Finite 4] c
     = Finite (- (1 / 562949953421312))"
  unfolding candidateSimilarity64_def index64_examples blockValues64_constant
    blockValues64_periodic numberOfVoxelInBlock_1
  by (rule similarity_negative)+

lemma candidateSimilarity64_integer:
  "candidateSimilarity64 (periodicImage64 [1, 2, 3, 1, 0]) rampImage64 [1] [Finite 1] [0] = Finite 1"
  "candidateSimilarity64 (periodicImage64 [1, 2, 3, 1, 0]) rampImage64 [1] [Finite 1] [1] = Finite 1"
  "candidateSimilarity64 (periodicImage64 [1, 2, 3, 1, 0]) rampImage64 [1] [Finite 1] [2] = Finite (1 / 4)"
  unfolding candidateSimilarity64_def index64_examples blockValues64_ramp
    blockValues64_periodic numberOfVoxelInBlock_1
  by (rule similarity_integer_blocks)+

section \<open>The similarity in binary64 arithmetic\<close>

lemma blockSimilarity64_cases:
  fixes stats :: BlockSums64 and n :: nat
  defines "product \<equiv> dmul (fixedVariance64 n stats) (movingVariance64 n stats)"
  assumes "0 < n"
  shows "blockSimilarity64 n stats = Some (similarityOf64 n stats)"
    and "product = Finite 0 \<Longrightarrow> similarityOf64 n stats = Finite 0"
    and "product \<noteq> Finite 0 \<Longrightarrow>
           similarityOf64 n stats = ddiv (dmul (covarianceOf64 n stats) (covarianceOf64 n stats)) product"
    and "dge product (Finite 0) \<Longrightarrow> similarityOf64 n stats = NaN \<or> dge (similarityOf64 n stats) (Finite 0)"
    and "dge (Finite 0) product \<Longrightarrow> similarityOf64 n stats = NaN \<or> dge (Finite 0) (similarityOf64 n stats)"
  using similarityOf64_sign [of n stats] assms(2)
  by (simp_all add: blockSimilarity64_total product_def similarityOf64_def)

text \<open>
  Claim C7, amended. In the binary64 arithmetic of the code the similarity of a pair of
  blocks is always computed (no division meets a zero divisor), and it is exactly \<open>0\<close> when
  the computed product \<open>fixedVariance * movingVariance\<close> compares equal to zero, in
  particular when one computed variance is zero and the other is finite. Otherwise it is the
  rounded quotient of the rounded square of the covariance by that product: a NaN or a
  value \<open>\<ge> 0\<close> when the product is \<open>\<ge> 0\<close>, a NaN or a value \<open>\<le> 0\<close> when the product
  is \<open>\<le> 0\<close>. The computed variances are rounded values of \<open>sumSq - n * mean * mean\<close>; they
  need not vanish for a constant block and can be negative, and the quotient is not bounded
  by \<open>1\<close> (see the counterexample below). The bounds \<open>0 \<le> similarity \<le> 1\<close> for every pair
  of blocks, and the value \<open>0\<close> exactly when a block is constant, hold of the same formulas
  evaluated in exact real arithmetic.
\<close>

theorem similarity_computed:
  "(\<exists>stats sim.
      blockSums64 fixedImage' movingImage' radius (numberOfVoxelInBlock radius) windowIndex centerIndex
        = Some stats
    \<and> stats = sums64 (blockValues64 fixedImage' radius windowIndex)
                      (blockValues64 movingImage' radius centerIndex)
    \<and> blockSimilarity64 (numberOfVoxelInBlock radius) stats = Some sim
    \<and> (dmul (fixedVariance64 (numberOfVoxelInBlock radius) stats)
             (movingVariance64 (numberOfVoxelInBlock radius) stats) = Finite 0 \<longrightarrow> sim = Finite 0)
    \<and> ((fixedVariance64 (numberOfVoxelInBlock radius) stats = Finite 0
          \<and> (\<exists>y. movingVariance64 (numberOfVoxelInBlock radius) stats = Finite y))
        \<or> (movingVariance64 (numberOfVoxelInBlock radius) stats = Finite 0
          \<and> (\<exists>x. fixedVariance64 (numberOfVoxelInBlock radius) stats = Finite x))
        \<longrightarrow> sim = Finite 0)
    \<and> (dmul (fixedVariance64 (numberOfVoxelInBlock radius) stats)
             (movingVariance64 (numberOfVoxelInBlock radius) stats) \<noteq> Finite 0 \<longrightarrow>
         sim = ddiv (dmul (covarianceOf64 (numberOfVoxelInBlock radius) stats)
                          (covarianceOf64 (numberOfVoxelInBlock radius) stats))
                    (dmul (fixedVariance64 (numberOfVoxelInBlock radius) stats)
                          (movingVariance64 (numberOfVoxelInBlock radius) stats)))
    \<and> (dge (dmul (fixedVariance64 (numberOfVoxelInBlock radius) stats)
                  (movingVariance64 (numberOfVoxelInBlock radius) stats)) (Finite 0) \<longrightarrow>
         sim = NaN \<or> dge sim (Finite 0))
    \<and> (dge (Finite 0) (dmul (fixedVariance64 (numberOfVoxelInBlock radius) stats)
                             (movingVariance64 (numberOfVoxelInBlock radius) stats)) \<longrightarrow>
         sim = NaN \<or> dge (Finite 0) sim))
   \<and> (\<exists>stats sim.
      blockSums fixedImage movingImage radius (numberOfVoxelInBlock radius) windowIndex centerIndex
        = Some stats
    \<and> blockSimilarity (numberOfVoxelInBlock radius) stats = Some sim
    \<and> 0 \<le> sim \<and> sim \<le> 1
    \<and> (blockVariance (blockValues fixedImage radius windowIndex) = 0
         \<or> blockVariance (blockValues movingImage radius centerIndex) = 0 \<longrightarrow> sim = 0)
    \<and> (blockVariance (blockValues fixedImage radius windowIndex) = 0
         \<longleftrightarrow> constantBlock (blockValues fixedImage radius windowIndex))
    \<and> (blockVariance (blockValues movingImage radius centerIndex) = 0
         \<longleftrightarrow> constantBlock (blockValues movingImage radius centerIndex)))"
proof (rule conjI)
  let ?n = "numberOfVoxelInBlock radius"
  let ?stats = "sums64 (blockValues64 fixedImage' radius windowIndex)
                       (blockValues64 movingImage' radius centerIndex)"
  let ?product = "dmul (fixedVariance64 ?n ?stats) (movingVariance64 ?n ?stats)"
  have n: "0 < ?n" by (rule numberOfVoxelInBlock_pos)
  have zero: "?product = Finite 0"
    if "(fixedVariance64 ?n ?stats = Finite 0 \<and> (\<exists>y. movingVariance64 ?n ?stats = Finite y))
      \<or> (movingVariance64 ?n ?stats = Finite 0 \<and> (\<exists>x. fixedVariance64 ?n ?stats = Finite x))"
    using that variance_product_zero64 by auto
  show "\<exists>stats sim.
      blockSums64 fixedImage' movingImage' radius ?n windowIndex centerIndex = Some stats
    \<and> stats = ?stats
    \<and> blockSimilarity64 ?n stats = Some sim
    \<and> (dmul (fixedVariance64 ?n stats) (movingVariance64 ?n stats) = Finite 0 \<longrightarrow> sim = Finite 0)
    \<and> ((fixedVariance64 ?n stats = Finite 0 \<and> (\<exists>y. movingVariance64 ?n stats = Finite y))
        \<or> (movingVariance64 ?n stats = Finite 0 \<and> (\<exists>x. fixedVariance64 ?n stats = Finite x))
        \<longrightarrow> sim = Finite 0)
    \<and> (dmul (fixedVariance64 ?n stats) (movingVariance64 ?n stats) \<noteq> Finite 0 \<longrightarrow>
         sim = ddiv (dmul (covarianceOf64 ?n stats) (covarianceOf64 ?n stats))
                    (dmul (fixedVariance64 ?n stats) (movingVariance64 ?n stats)))
    \<and> (dge (dmul (fixedVariance64 ?n stats) (movingVariance64 ?n stats)) (Finite 0) \<longrightarrow>
         sim = NaN \<or> dge sim (Finite 0))
    \<and> (dge (Finite 0) (dmul (fixedVariance64 ?n stats) (movingVariance64 ?n stats)) \<longrightarrow>
         sim = NaN \<or> dge (Finite 0) sim)"
  proof (intro exI [of _ ?stats] exI [of _ "similarityOf64 ?n ?stats"] conjI impI)
    show "blockSums64 fixedImage' movingImage' radius ?n windowIndex centerIndex = Some ?stats"
      by (rule blockSums64_eq)
    show "blockSimilarity64 ?n ?stats = Some (similarityOf64 ?n ?stats)"
      by (rule blockSimilarity64_cases(1) [OF n])
    show "similarityOf64 ?n ?stats = Finite 0" if "?product = Finite 0"
      using that by (rule blockSimilarity64_cases(2) [OF n])
    show "similarityOf64 ?n ?stats = Finite 0"
      if "(fixedVariance64 ?n ?stats = Finite 0 \<and> (\<exists>y. movingVariance64 ?n ?stats = Finite y))
        \<or> (movingVariance64 ?n ?stats = Finite 0 \<and> (\<exists>x. fixedVariance64 ?n ?stats = Finite x))"
      using zero [OF that] by (rule blockSimilarity64_cases(2) [OF n])
    show "similarityOf64 ?n ?stats = ddiv (dmul (covarianceOf64 ?n ?stats) (covarianceOf64 ?n ?stats)) ?product"
      if "?product \<noteq> Finite 0"
      using that by (rule blockSimilarity64_cases(3) [OF n])
    show "similarityOf64 ?n ?stats = NaN \<or> dge (similarityOf64 ?n ?stats) (Finite 0)"
      if "dge ?product (Finite 0)"
      using that by (rule blockSimilarity64_cases(4) [OF n])
    show "similarityOf64 ?n ?stats = NaN \<or> dge (Finite 0) (similarityOf64 ?n ?stats)"
      if "dge (Finite 0) ?product"
      using that by (rule blockSimilarity64_cases(5) [OF n])
  qed simp
next
  let ?A = "blockValues fixedImage radius windowIndex"
  let ?B = "blockValues movingImage radius centerIndex"
  have len: "length ?A = length ?B" by (simp add: length_blockValues)
  obtain stats where stats:
    "blockSums fixedImage movingImage radius (numberOfVoxelInBlock radius) windowIndex centerIndex
       = Some stats"
    "blockSimilarity (numberOfVoxelInBlock radius) stats = Some (blockNCC ?A ?B)"
    using candidate_similarity by blast
  have zero: "blockVariance ?A = 0 \<or> blockVariance ?B = 0 \<longrightarrow> blockNCC ?A ?B = 0"
    by (auto simp: blockNCC_def)
  show "\<exists>stats sim.
      blockSums fixedImage movingImage radius (numberOfVoxelInBlock radius) windowIndex centerIndex
        = Some stats
    \<and> blockSimilarity (numberOfVoxelInBlock radius) stats = Some sim
    \<and> 0 \<le> sim \<and> sim \<le> 1
    \<and> (blockVariance ?A = 0 \<or> blockVariance ?B = 0 \<longrightarrow> sim = 0)
    \<and> (blockVariance ?A = 0 \<longleftrightarrow> constantBlock ?A)
    \<and> (blockVariance ?B = 0 \<longleftrightarrow> constantBlock ?B)"
    using stats blockNCC_bounds [OF len] zero blockVariance_zero_iff [of ?A]
      blockVariance_zero_iff [of ?B]
    by (intro exI [of _ stats] exI [of _ "blockNCC ?A ?B"] conjI)
qed

theorem similarity_computed_witness:
  "blockValues64 (periodicImage64 [1, 2, 3, 1, 0]) [1] [2] = [Finite 2, Finite 3, Finite 1]
   \<and> blockValues64 rampImage64 [1] [1] = [Finite 0, Finite 1, Finite 2]
   \<and> dmul (fixedVariance64 3 (sums64 [Finite 2, Finite 3, Finite 1] [Finite 0, Finite 1, Finite 2]))
          (movingVariance64 3 (sums64 [Finite 2, Finite 3, Finite 1] [Finite 0, Finite 1, Finite 2]))
       = Finite 4
   \<and> Option.bind (blockSums64 (periodicImage64 [1, 2, 3, 1, 0]) rampImage64 [1]
                    (numberOfVoxelInBlock [1]) [2] [1])
                 (blockSimilarity64 (numberOfVoxelInBlock [1])) = Some (Finite (1 / 4))
   \<and> \<not> constantBlock (blockValues rampImage [1] [1])
   \<and> \<not> constantBlock (blockValues rampImage [1] [0])
   \<and> Option.bind (blockSums rampImage rampImage [1] (numberOfVoxelInBlock [1]) [1] [0])
                 (blockSimilarity (numberOfVoxelInBlock [1])) = Some 1"
proof -
  let ?stats = "sums64 [Finite 2, Finite 3, Finite 1] [Finite 0, Finite 1, Finite 2]"
  have product: "dmul (fixedVariance64 3 ?stats) (movingVariance64 3 ?stats) = Finite 4"
    unfolding variances_integer_blocks by simp
  have quotient: "ddiv (dmul (covarianceOf64 3 ?stats) (covarianceOf64 3 ?stats)) (Finite 4) = Finite (1 / 4)"
    unfolding variances_integer_blocks by (simp add: rnd_examples)
  have A: "blockValues rampImage [1] [1] = [0, 1, 2]" and B: "blockValues rampImage [1] [0] = [-1, 0, 1]"
    using blockValues_ramp [of 1] blockValues_ramp [of 0] by simp_all
  have nonconstant: "\<not> constantBlock (blockValues rampImage [1] [1])"
    "\<not> constantBlock (blockValues rampImage [1] [0])"
    unfolding A B by (simp_all add: constantBlock_def)
  have exact: "Option.bind (blockSums rampImage rampImage [1] (numberOfVoxelInBlock [1]) [1] [0])
                 (blockSimilarity (numberOfVoxelInBlock [1])) = Some 1"
    using candidateSimilarity_ramp [of 1] candidate_similarity [of rampImage rampImage "[1]" "[1]" "[0]"]
    by (auto simp: candidateSimilarity_def index_ramp)
  from similarity_computed [of "periodicImage64 [1, 2, 3, 1, 0]" rampImage64 "[1]" "[2]" "[1]"
      rampImage rampImage]
  obtain stats sim where run:
      "blockSums64 (periodicImage64 [1, 2, 3, 1, 0]) rampImage64 [1] (numberOfVoxelInBlock [1]) [2] [1]
         = Some stats"
      "stats = sums64 (blockValues64 (periodicImage64 [1, 2, 3, 1, 0]) [1] [2])
                      (blockValues64 rampImage64 [1] [1])"
      "blockSimilarity64 (numberOfVoxelInBlock [1]) stats = Some sim"
    and nonzero:
      "dmul (fixedVariance64 (numberOfVoxelInBlock [1]) stats)
            (movingVariance64 (numberOfVoxelInBlock [1]) stats) \<noteq> Finite 0 \<longrightarrow>
         sim = ddiv (dmul (covarianceOf64 (numberOfVoxelInBlock [1]) stats)
                          (covarianceOf64 (numberOfVoxelInBlock [1]) stats))
                    (dmul (fixedVariance64 (numberOfVoxelInBlock [1]) stats)
                          (movingVariance64 (numberOfVoxelInBlock [1]) stats))"
    by blast
  have stats: "stats = ?stats"
    using run(2) unfolding blockValues64_periodic blockValues64_ramp .
  have "sim = Finite (1 / 4)"
    using nonzero unfolding stats numberOfVoxelInBlock_1 product quotient by simp
  then have "Option.bind (blockSums64 (periodicImage64 [1, 2, 3, 1, 0]) rampImage64 [1]
                    (numberOfVoxelInBlock [1]) [2] [1])
                 (blockSimilarity64 (numberOfVoxelInBlock [1])) = Some (Finite (1 / 4))"
    using run by simp
  then show ?thesis
    using product nonconstant exact blockValues64_periodic(7) blockValues64_ramp
    by (intro conjI)
qed

text \<open>
  Claim C7 as stated fails in the arithmetic of the code. Two blocks of the constant
  intensity \<open>0.1\<close> have zero variance, and their similarity is computed as \<open>1\<close>, not \<open>0\<close>:
  the computed variances are \<open>-2\<^sup>-\<^sup>5\<^sup>8\<close>. The nonconstant blocks \<open>(0, 0, 1)\<close> and
  \<open>(2, 2, 1)\<close> have a computed similarity of \<open>1 + 5 * 2\<^sup>-\<^sup>5\<^sup>2\<close>, which exceeds \<open>1\<close>.
\<close>

theorem similarity_bounds_counterexample:
  "blockValues64 (constantImage64 tenth) [1] [0] = [tenth, tenth, tenth]
   \<and> fixedVariance64 3 (sums64 [tenth, tenth, tenth] [tenth, tenth, tenth])
       = Finite (- (1 / 288230376151711744))
   \<and> Option.bind (blockSums64 (constantImage64 tenth) (constantImage64 tenth) [1]
                    (numberOfVoxelInBlock [1]) [0] [0])
                 (blockSimilarity64 (numberOfVoxelInBlock [1])) = Some (Finite 1)
   \<and> blockValues64 (periodicImage64 [0, 0, 1]) [1] [1] = [Finite 0, Finite 0, Finite 1]
   \<and> blockValues64 (periodicImage64 [2, 2, 1]) [1] [1] = [Finite 2, Finite 2, Finite 1]
   \<and> Option.bind (blockSums64 (periodicImage64 [0, 0, 1]) (periodicImage64 [2, 2, 1]) [1]
                    (numberOfVoxelInBlock [1]) [1] [1])
                 (blockSimilarity64 (numberOfVoxelInBlock [1]))
       = Some (Finite (4503599627370501 / 4503599627370496))
   \<and> \<not> dge (Finite 1) (Finite (4503599627370501 / 4503599627370496))"
proof -
  have "Option.bind (blockSums64 (constantImage64 tenth) (constantImage64 tenth) [1]
                    (numberOfVoxelInBlock [1]) [0] [0])
                 (blockSimilarity64 (numberOfVoxelInBlock [1])) = Some (Finite 1)"
    by (simp only: blockSums64_eq blockValues64_constant, simp only: numberOfVoxelInBlock_1,
        simp add: blockSimilarity64_total similarity_constant_blocks)
  moreover have "Option.bind (blockSums64 (periodicImage64 [0, 0, 1]) (periodicImage64 [2, 2, 1]) [1]
                    (numberOfVoxelInBlock [1]) [1] [1])
                 (blockSimilarity64 (numberOfVoxelInBlock [1]))
       = Some (Finite (4503599627370501 / 4503599627370496))"
    by (simp only: blockSums64_eq blockValues64_periodic, simp only: numberOfVoxelInBlock_1,
        simp add: blockSimilarity64_total similarity_above_one)
  moreover have "\<not> dge (Finite 1) (Finite (4503599627370501 / 4503599627370496))" by simp
  ultimately show ?thesis
    using blockValues64_constant [of tenth "[0]"] blockValues64_periodic(1,2)
      variance_constant_block [of "[tenth, tenth, tenth]"]
    by (intro conjI)
qed

section \<open>The selection in binary64 arithmetic\<close>

lemma searchPoint64_unassigned:
  assumes "\<forall>k<length (windowCandidates64 fixedImage searchRadius p).
             \<not> dge (candidateSimilarity64 fixedImage movingImage radius p
                       (windowCandidates64 fixedImage searchRadius p ! k)) (Finite 0)"
  shows "searchPoint64 uninitialised (Some fixedImage) (Some movingImage) radius searchRadius
           (numberOfVoxelInBlock radius) p
         = Some \<lparr>similarity64 = Finite 0, displacement64 = uninitialised\<rparr>"
  using search_selects64 [of "windowCandidates64 fixedImage searchRadius p" fixedImage movingImage
      radius p uninitialised] assms
  by (auto simp: searchPoint64_def)

text \<open>
  Claim C5, amended. The running best similarity starts at \<open>0\<close>, and a candidate is
  retained when its similarity compares \<open>>=\<close> to the running best. Provided that the
  similarity of at least one candidate of the window compares \<open>>= 0\<close>, the search returns
  the match of a candidate \<open>j\<close> such that no candidate whose similarity is not a NaN has a
  greater similarity, and no candidate visited after \<open>j\<close> in the raster order of the window
  has a similarity \<open>>=\<close> that of \<open>j\<close>: among the candidates that tie on the best score the
  last one visited is returned. A candidate whose similarity is negative or a NaN is never
  retained; when no candidate qualifies the returned similarity is the initial \<open>0\<close>.
\<close>

theorem selection_rule_binary64:
  fixes fixedImage movingImage :: Image64
  shows
  "((\<exists>k<length (windowCandidates64 fixedImage searchRadius p).
       dge (candidateSimilarity64 fixedImage movingImage radius p
              (windowCandidates64 fixedImage searchRadius p ! k)) (Finite 0)) \<longrightarrow>
    (\<exists>j<length (windowCandidates64 fixedImage searchRadius p).
       searchPoint64 uninitialised (Some fixedImage) (Some movingImage) radius searchRadius
           (numberOfVoxelInBlock radius) p
         = Some (candidateMatch64 fixedImage movingImage radius p
                   (windowCandidates64 fixedImage searchRadius p ! j))
     \<and> dge (candidateSimilarity64 fixedImage movingImage radius p
              (windowCandidates64 fixedImage searchRadius p ! j)) (Finite 0)
     \<and> (\<forall>k<length (windowCandidates64 fixedImage searchRadius p).
           candidateSimilarity64 fixedImage movingImage radius p
             (windowCandidates64 fixedImage searchRadius p ! k) \<noteq> NaN \<longrightarrow>
           dge (candidateSimilarity64 fixedImage movingImage radius p
                  (windowCandidates64 fixedImage searchRadius p ! j))
               (candidateSimilarity64 fixedImage movingImage radius p
                  (windowCandidates64 fixedImage searchRadius p ! k)))
     \<and> (\<forall>k<length (windowCandidates64 fixedImage searchRadius p). j < k \<longrightarrow>
           \<not> dge (candidateSimilarity64 fixedImage movingImage radius p
                    (windowCandidates64 fixedImage searchRadius p ! k))
                 (candidateSimilarity64 fixedImage movingImage radius p
                    (windowCandidates64 fixedImage searchRadius p ! j)))))
   \<and> (\<not> (\<exists>k<length (windowCandidates64 fixedImage searchRadius p).
            dge (candidateSimilarity64 fixedImage movingImage radius p
                   (windowCandidates64 fixedImage searchRadius p ! k)) (Finite 0)) \<longrightarrow>
        map_option similarity64
          (searchPoint64 uninitialised (Some fixedImage) (Some movingImage) radius searchRadius
             (numberOfVoxelInBlock radius) p) = Some (Finite 0))"
proof (intro conjI impI)
  let ?cs = "windowCandidates64 fixedImage searchRadius p"
  let ?sim = "candidateSimilarity64 fixedImage movingImage radius p"
  let ?run = "searchPoint64 uninitialised (Some fixedImage) (Some movingImage) radius searchRadius
                (numberOfVoxelInBlock radius) p"
  have run: "?run = forEach ?cs (visitCandidate64 fixedImage movingImage radius (numberOfVoxelInBlock radius) p
                       (TransformPhysicalPointToIndex64 movingImage p))
                     \<lparr>similarity64 = Finite 0, displacement64 = uninitialised\<rparr>"
    by (simp add: searchPoint64_def)
  note selects = search_selects64 [of ?cs fixedImage movingImage radius p uninitialised, folded run]
  {
    assume "\<exists>k<length ?cs. dge (?sim (?cs ! k)) (Finite 0)"
    with selects show "\<exists>j<length ?cs.
         ?run = Some (candidateMatch64 fixedImage movingImage radius p (?cs ! j))
       \<and> dge (?sim (?cs ! j)) (Finite 0)
       \<and> (\<forall>k<length ?cs. ?sim (?cs ! k) \<noteq> NaN \<longrightarrow> dge (?sim (?cs ! j)) (?sim (?cs ! k)))
       \<and> (\<forall>k<length ?cs. j < k \<longrightarrow> \<not> dge (?sim (?cs ! k)) (?sim (?cs ! j)))"
      by blast
  }
  {
    assume "\<not> (\<exists>k<length ?cs. dge (?sim (?cs ! k)) (Finite 0))"
    then have "\<forall>k<length ?cs. \<not> dge (?sim (?cs ! k)) (Finite 0)" by blast
    then show "map_option similarity64 ?run = Some (Finite 0)"
      by (simp add: searchPoint64_unassigned)
  }
qed

theorem selection_rule_binary64_witness:
  "windowCandidates64 (periodicImage64 [1, 2, 3, 1, 0]) [1] [Finite 1] = [[0], [1], [2]]
   \<and> candidateSimilarity64 (periodicImage64 [1, 2, 3, 1, 0]) rampImage64 [1] [Finite 1] [0] = Finite 1
   \<and> candidateSimilarity64 (periodicImage64 [1, 2, 3, 1, 0]) rampImage64 [1] [Finite 1] [1] = Finite 1
   \<and> candidateSimilarity64 (periodicImage64 [1, 2, 3, 1, 0]) rampImage64 [1] [Finite 1] [2] = Finite (1 / 4)
   \<and> searchPoint64 [Finite 42] (Some (periodicImage64 [1, 2, 3, 1, 0])) (Some rampImage64) [1] [1]
        (numberOfVoxelInBlock [1]) [Finite 1]
       = Some \<lparr>similarity64 = Finite 1, displacement64 = [Finite 0]\<rparr>"
proof -
  let ?f = "periodicImage64 [1, 2, 3, 1, 0]"
  let ?cs = "windowCandidates64 ?f [1] [Finite 1]"
  let ?sim = "candidateSimilarity64 ?f rampImage64 [1] [Finite 1]"
  have cs: "?cs = [[0], [1], [2]]" by (rule windowCandidates64_examples)
  have sims: "?sim [0] = Finite 1" "?sim [1] = Finite 1" "?sim [2] = Finite (1 / 4)"
    by (rule candidateSimilarity64_integer)+
  have len: "length ?cs = 3" unfolding cs by simp
  have nth: "?cs ! 0 = [0]" "?cs ! 1 = [1]" "?cs ! 2 = [2]" unfolding cs by simp_all
  have "dge (?sim (?cs ! 0)) (Finite 0)" unfolding nth sims by simp
  then have "\<exists>k<length ?cs. dge (?sim (?cs ! k)) (Finite 0)"
    unfolding len by (intro exI [of _ 0]) simp
  with selection_rule_binary64 [of ?f "[1]" "[Finite 1]" rampImage64 "[1]" "[Finite 42]"]
  obtain j where j: "j < length ?cs"
    and run: "searchPoint64 [Finite 42] (Some ?f) (Some rampImage64) [1] [1] (numberOfVoxelInBlock [1])
                [Finite 1] = Some (candidateMatch64 ?f rampImage64 [1] [Finite 1] (?cs ! j))"
    and ge: "\<forall>k<length ?cs. ?sim (?cs ! k) \<noteq> NaN \<longrightarrow> dge (?sim (?cs ! j)) (?sim (?cs ! k))"
    and later: "\<forall>k<length ?cs. j < k \<longrightarrow> \<not> dge (?sim (?cs ! k)) (?sim (?cs ! j))"
    by blast
  have "j = 0 \<or> j = 1 \<or> j = 2" using j len by auto
  moreover have "j \<noteq> 0"
  proof
    assume "j = 0"
    then have "\<not> dge (?sim (?cs ! 1)) (?sim (?cs ! 0))" using later len by simp
    then show False unfolding nth sims by simp
  qed
  moreover have "j \<noteq> 2"
  proof
    assume "j = 2"
    moreover have "?sim (?cs ! 1) \<noteq> NaN" unfolding nth sims by simp
    ultimately have "dge (?sim (?cs ! 2)) (?sim (?cs ! 1))" using ge len by simp
    then show False unfolding nth sims by simp
  qed
  ultimately have "j = 1" by blast
  have "map2 dsub (TransformIndexToPhysicalPoint64 ?f [1]) [Finite 1] = [Finite 0]"
    by (simp add: periodicImage64_def dsub_def)
  then have "candidateMatch64 ?f rampImage64 [1] [Finite 1] [1]
               = \<lparr>similarity64 = Finite 1, displacement64 = [Finite 0]\<rparr>"
    unfolding candidateMatch64_def sims by simp
  then show ?thesis
    using run cs sims unfolding \<open>j = 1\<close> nth by (intro conjI) simp_all
qed

text \<open>
  Claim C5 as stated fails in the arithmetic of the code. With a fixed image of constant
  intensity \<open>0.1\<close> and the moving block \<open>(2, 3, 1)\<close>, the three candidates of the window tie
  on the similarity \<open>-2\<^sup>-\<^sup>4\<^sup>9\<close>, which is the greatest similarity of the window. No
  candidate is retained: the search returns the initial similarity \<open>0\<close> and the content that
  the local \<open>displacement\<close> had before the search, not the match of the last candidate
  visited.
\<close>

theorem last_tied_candidate_counterexample:
  "windowCandidates64 (constantImage64 tenth) [1] [Finite 1] = [[0], [1], [2]]
   \<and> candidateMatch64 (constantImage64 tenth) (periodicImage64 [2, 3, 1]) [1] [Finite 1] [0]
       = \<lparr>similarity64 = Finite (- (1 / 562949953421312)), displacement64 = [Finite (- 1)]\<rparr>
   \<and> candidateMatch64 (constantImage64 tenth) (periodicImage64 [2, 3, 1]) [1] [Finite 1] [1]
       = \<lparr>similarity64 = Finite (- (1 / 562949953421312)), displacement64 = [Finite 0]\<rparr>
   \<and> candidateMatch64 (constantImage64 tenth) (periodicImage64 [2, 3, 1]) [1] [Finite 1] [2]
       = \<lparr>similarity64 = Finite (- (1 / 562949953421312)), displacement64 = [Finite 1]\<rparr>
   \<and> searchPoint64 [Finite 42] (Some (constantImage64 tenth)) (Some (periodicImage64 [2, 3, 1]))
        [1] [1] (numberOfVoxelInBlock [1]) [Finite 1]
       = Some \<lparr>similarity64 = Finite 0, displacement64 = [Finite 42]\<rparr>"
proof -
  have displacements:
    "map2 dsub (TransformIndexToPhysicalPoint64 (constantImage64 tenth) [0]) [Finite 1] = [Finite (- 1)]"
    "map2 dsub (TransformIndexToPhysicalPoint64 (constantImage64 tenth) [1]) [Finite 1] = [Finite 0]"
    "map2 dsub (TransformIndexToPhysicalPoint64 (constantImage64 tenth) [2]) [Finite 1] = [Finite 1]"
    by (simp_all add: constantImage64_def dsub_def)
  have matches:
    "candidateMatch64 (constantImage64 tenth) (periodicImage64 [2, 3, 1]) [1] [Finite 1] [0]
       = \<lparr>similarity64 = Finite (- (1 / 562949953421312)), displacement64 = [Finite (- 1)]\<rparr>"
    "candidateMatch64 (constantImage64 tenth) (periodicImage64 [2, 3, 1]) [1] [Finite 1] [1]
       = \<lparr>similarity64 = Finite (- (1 / 562949953421312)), displacement64 = [Finite 0]\<rparr>"
    "candidateMatch64 (constantImage64 tenth) (periodicImage64 [2, 3, 1]) [1] [Finite 1] [2]
       = \<lparr>similarity64 = Finite (- (1 / 562949953421312)), displacement64 = [Finite 1]\<rparr>"
    unfolding candidateMatch64_def candidateSimilarity64_negative displacements by simp_all
  have "searchPoint64 [Finite 42] (Some (constantImage64 tenth)) (Some (periodicImage64 [2, 3, 1]))
        [1] [1] (numberOfVoxelInBlock [1]) [Finite 1]
       = Some \<lparr>similarity64 = Finite 0, displacement64 = [Finite 42]\<rparr>"
    by (rule searchPoint64_unassigned) (simp add: candidateSimilarity64_negative [simplified])
  then show ?thesis
    using matches windowCandidates64_examples(1) [of tenth] by (intro conjI)
qed

section \<open>The blocks that the search reads\<close>

lemma visitCandidate_statistics:
  "visitCandidate fixedImage movingImage blockRadius (numberOfVoxelInBlock blockRadius) originalLocation
       centerIndex candidate best =
     do {
       sim \<leftarrow> blockSimilarity (numberOfVoxelInBlock blockRadius)
                \<lparr>fixedSum = sum_list (blockValues fixedImage blockRadius candidate),
                 fixedSumOfSquares = sum_list (map (\<lambda>a. a * a) (blockValues fixedImage blockRadius candidate)),
                 movingSum = sum_list (blockValues movingImage blockRadius centerIndex),
                 movingSumOfSquares = sum_list (map (\<lambda>a. a * a) (blockValues movingImage blockRadius centerIndex)),
                 covariance = sum_list (map2 (*) (blockValues fixedImage blockRadius candidate)
                                                 (blockValues movingImage blockRadius centerIndex))\<rparr>;
       Some (if sim \<ge> similarity best
             then \<lparr>similarity = sim,
                   displacement = Value (map2 (-) (TransformIndexToPhysicalPoint fixedImage candidate)
                                                originalLocation)\<rparr>
             else best)
     }"
  by (simp add: visitCandidate_def blockSums_eq)

lemma visitCandidate64_statistics:
  "visitCandidate64 fixedImage movingImage blockRadius (numberOfVoxelInBlock blockRadius) originalLocation
       centerIndex candidate best =
     do {
       sim \<leftarrow> blockSimilarity64 (numberOfVoxelInBlock blockRadius)
                \<lparr>fixedSum64 = accumulate64 (blockValues64 fixedImage blockRadius candidate),
                 fixedSumOfSquares64 = accumulate64 (map (\<lambda>a. dmul a a) (blockValues64 fixedImage blockRadius candidate)),
                 movingSum64 = accumulate64 (blockValues64 movingImage blockRadius centerIndex),
                 movingSumOfSquares64 = accumulate64 (map (\<lambda>b. dmul b b) (blockValues64 movingImage blockRadius centerIndex)),
                 covariance64 = accumulate64 (map2 dmul (blockValues64 fixedImage blockRadius candidate)
                                                        (blockValues64 movingImage blockRadius centerIndex))\<rparr>;
       Some (if dge sim (similarity64 best)
             then \<lparr>similarity64 = sim,
                   displacement64 = map2 dsub (TransformIndexToPhysicalPoint64 fixedImage candidate)
                                              originalLocation\<rparr>
             else best)
     }"
  by (simp add: visitCandidate64_def blockSums64_eq sums64_def)

lemma block_length:
  "numberOfVoxelInBlock blockRadius = prod_list (map (\<lambda>r. 1 + 2 * r) blockRadius)"
proof -
  have "(\<lambda>r::nat. r + 1 + r) = (\<lambda>r. 1 + 2 * r)" by auto
  then show ?thesis by (simp add: numberOfVoxelInBlock_prod)
qed

text \<open>
  Claim C1, amended. For every feature point the search visits the candidates of the
  window in order, and the body of the loop computes the similarity of the candidate from
  five sums: \<open>fixedSum\<close> and \<open>fixedSumOfSquares\<close> are the sums over the block of the first
  (fixed) image anchored at the candidate, so they vary with the candidate; \<open>movingSum\<close> and
  \<open>movingSumOfSquares\<close> are the sums over the block of the second (moving) image anchored
  at the point's mapped index in the moving image, the same block for all candidates; the
  cross term pairs the two blocks voxel by voxel; each block has
  \<open>product (1 + 2 * BlockRadius[i])\<close> voxels. This holds of the search in exact arithmetic
  and of the search in binary64 arithmetic, where each sum is accumulated from zero in the
  order of the voxels.
\<close>

theorem block_statistics:
  "blockSums fixedImage movingImage blockRadius (numberOfVoxelInBlock blockRadius) candidate centerIndex =
     Some \<lparr>fixedSum = sum_list (blockValues fixedImage blockRadius candidate),
           fixedSumOfSquares = sum_list (map (\<lambda>a. a * a) (blockValues fixedImage blockRadius candidate)),
           movingSum = sum_list (blockValues movingImage blockRadius centerIndex),
           movingSumOfSquares = sum_list (map (\<lambda>a. a * a) (blockValues movingImage blockRadius centerIndex)),
           covariance = sum_list (map2 (*) (blockValues fixedImage blockRadius candidate)
                                           (blockValues movingImage blockRadius centerIndex))\<rparr>
   \<and> length (blockValues fixedImage blockRadius candidate) = prod_list (map (\<lambda>r. 1 + 2 * r) blockRadius)
   \<and> length (blockValues movingImage blockRadius centerIndex) = prod_list (map (\<lambda>r. 1 + 2 * r) blockRadius)
   \<and> searchPoint (Some fixedImage) (Some movingImage) blockRadius searchRadius
         (numberOfVoxelInBlock blockRadius) originalLocation =
       forEach (windowCandidates fixedImage searchRadius originalLocation)
         (\<lambda>candidate best. do {
            sim \<leftarrow> blockSimilarity (numberOfVoxelInBlock blockRadius)
                     \<lparr>fixedSum = sum_list (blockValues fixedImage blockRadius candidate),
                      fixedSumOfSquares =
                        sum_list (map (\<lambda>a. a * a) (blockValues fixedImage blockRadius candidate)),
                      movingSum =
                        sum_list (blockValues movingImage blockRadius
                                    (TransformPhysicalPointToIndex movingImage originalLocation)),
                      movingSumOfSquares =
                        sum_list (map (\<lambda>a. a * a)
                                    (blockValues movingImage blockRadius
                                       (TransformPhysicalPointToIndex movingImage originalLocation))),
                      covariance =
                        sum_list (map2 (*) (blockValues fixedImage blockRadius candidate)
                                    (blockValues movingImage blockRadius
                                       (TransformPhysicalPointToIndex movingImage originalLocation)))\<rparr>;
            Some (if sim \<ge> similarity best
                  then \<lparr>similarity = sim,
                        displacement = Value (map2 (-) (TransformIndexToPhysicalPoint fixedImage candidate)
                                                     originalLocation)\<rparr>
                  else best)
          })
         \<lparr>similarity = 0, displacement = Indeterminate\<rparr>
   \<and> blockSums64 fixedImage' movingImage' blockRadius (numberOfVoxelInBlock blockRadius) candidate centerIndex =
     Some \<lparr>fixedSum64 = accumulate64 (blockValues64 fixedImage' blockRadius candidate),
           fixedSumOfSquares64 = accumulate64 (map (\<lambda>a. dmul a a) (blockValues64 fixedImage' blockRadius candidate)),
           movingSum64 = accumulate64 (blockValues64 movingImage' blockRadius centerIndex),
           movingSumOfSquares64 = accumulate64 (map (\<lambda>b. dmul b b) (blockValues64 movingImage' blockRadius centerIndex)),
           covariance64 = accumulate64 (map2 dmul (blockValues64 fixedImage' blockRadius candidate)
                                                  (blockValues64 movingImage' blockRadius centerIndex))\<rparr>
   \<and> length (blockValues64 fixedImage' blockRadius candidate) = prod_list (map (\<lambda>r. 1 + 2 * r) blockRadius)
   \<and> length (blockValues64 movingImage' blockRadius centerIndex) = prod_list (map (\<lambda>r. 1 + 2 * r) blockRadius)
   \<and> searchPoint64 uninitialised (Some fixedImage') (Some movingImage') blockRadius searchRadius
         (numberOfVoxelInBlock blockRadius) originalLocation' =
       forEach (windowCandidates64 fixedImage' searchRadius originalLocation')
         (\<lambda>candidate best. do {
            sim \<leftarrow> blockSimilarity64 (numberOfVoxelInBlock blockRadius)
                     \<lparr>fixedSum64 = accumulate64 (blockValues64 fixedImage' blockRadius candidate),
                      fixedSumOfSquares64 =
                        accumulate64 (map (\<lambda>a. dmul a a) (blockValues64 fixedImage' blockRadius candidate)),
                      movingSum64 =
                        accumulate64 (blockValues64 movingImage' blockRadius
                                        (TransformPhysicalPointToIndex64 movingImage' originalLocation')),
                      movingSumOfSquares64 =
                        accumulate64 (map (\<lambda>b. dmul b b)
                                        (blockValues64 movingImage' blockRadius
                                           (TransformPhysicalPointToIndex64 movingImage' originalLocation'))),
                      covariance64 =
                        accumulate64 (map2 dmul (blockValues64 fixedImage' blockRadius candidate)
                                        (blockValues64 movingImage' blockRadius
                                           (TransformPhysicalPointToIndex64 movingImage' originalLocation')))\<rparr>;
            Some (if dge sim (similarity64 best)
                  then \<lparr>similarity64 = sim,
                        displacement64 = map2 dsub (TransformIndexToPhysicalPoint64 fixedImage' candidate)
                                                   originalLocation'\<rparr>
                  else best)
          })
         \<lparr>similarity64 = Finite 0, displacement64 = uninitialised\<rparr>"
proof -
  have len: "length (blockValues img blockRadius c) = prod_list (map (\<lambda>r. 1 + 2 * r) blockRadius)"
    for img c
    by (simp only: length_blockValues block_length)
  have len64: "length (blockValues64 img blockRadius c) = prod_list (map (\<lambda>r. 1 + 2 * r) blockRadius)"
    for img c
    by (simp only: length_blockValues64 block_length)
  have sums64: "blockSums64 fixedImage' movingImage' blockRadius (numberOfVoxelInBlock blockRadius)
                  candidate centerIndex =
     Some \<lparr>fixedSum64 = accumulate64 (blockValues64 fixedImage' blockRadius candidate),
           fixedSumOfSquares64 = accumulate64 (map (\<lambda>a. dmul a a) (blockValues64 fixedImage' blockRadius candidate)),
           movingSum64 = accumulate64 (blockValues64 movingImage' blockRadius centerIndex),
           movingSumOfSquares64 = accumulate64 (map (\<lambda>b. dmul b b) (blockValues64 movingImage' blockRadius centerIndex)),
           covariance64 = accumulate64 (map2 dmul (blockValues64 fixedImage' blockRadius candidate)
                                                  (blockValues64 movingImage' blockRadius centerIndex))\<rparr>"
    by (simp add: blockSums64_eq sums64_def)
  have body: "visitCandidate fixedImage movingImage blockRadius (numberOfVoxelInBlock blockRadius)
                originalLocation (TransformPhysicalPointToIndex movingImage originalLocation)
              = (\<lambda>candidate best. do {
            sim \<leftarrow> blockSimilarity (numberOfVoxelInBlock blockRadius)
                     \<lparr>fixedSum = sum_list (blockValues fixedImage blockRadius candidate),
                      fixedSumOfSquares =
                        sum_list (map (\<lambda>a. a * a) (blockValues fixedImage blockRadius candidate)),
                      movingSum =
                        sum_list (blockValues movingImage blockRadius
                                    (TransformPhysicalPointToIndex movingImage originalLocation)),
                      movingSumOfSquares =
                        sum_list (map (\<lambda>a. a * a)
                                    (blockValues movingImage blockRadius
                                       (TransformPhysicalPointToIndex movingImage originalLocation))),
                      covariance =
                        sum_list (map2 (*) (blockValues fixedImage blockRadius candidate)
                                    (blockValues movingImage blockRadius
                                       (TransformPhysicalPointToIndex movingImage originalLocation)))\<rparr>;
            Some (if sim \<ge> similarity best
                  then \<lparr>similarity = sim,
                        displacement = Value (map2 (-) (TransformIndexToPhysicalPoint fixedImage candidate)
                                                     originalLocation)\<rparr>
                  else best)
          })"
    by (intro ext) (rule visitCandidate_statistics)
  have body64: "visitCandidate64 fixedImage' movingImage' blockRadius (numberOfVoxelInBlock blockRadius)
                originalLocation' (TransformPhysicalPointToIndex64 movingImage' originalLocation')
              = (\<lambda>candidate best. do {
            sim \<leftarrow> blockSimilarity64 (numberOfVoxelInBlock blockRadius)
                     \<lparr>fixedSum64 = accumulate64 (blockValues64 fixedImage' blockRadius candidate),
                      fixedSumOfSquares64 =
                        accumulate64 (map (\<lambda>a. dmul a a) (blockValues64 fixedImage' blockRadius candidate)),
                      movingSum64 =
                        accumulate64 (blockValues64 movingImage' blockRadius
                                        (TransformPhysicalPointToIndex64 movingImage' originalLocation')),
                      movingSumOfSquares64 =
                        accumulate64 (map (\<lambda>b. dmul b b)
                                        (blockValues64 movingImage' blockRadius
                                           (TransformPhysicalPointToIndex64 movingImage' originalLocation'))),
                      covariance64 =
                        accumulate64 (map2 dmul (blockValues64 fixedImage' blockRadius candidate)
                                        (blockValues64 movingImage' blockRadius
                                           (TransformPhysicalPointToIndex64 movingImage' originalLocation')))\<rparr>;
            Some (if dge sim (similarity64 best)
                  then \<lparr>similarity64 = sim,
                        displacement64 = map2 dsub (TransformIndexToPhysicalPoint64 fixedImage' candidate)
                                                   originalLocation'\<rparr>
                  else best)
          })"
    by (intro ext) (rule visitCandidate64_statistics)
  have search: "searchPoint (Some fixedImage) (Some movingImage) blockRadius searchRadius
         (numberOfVoxelInBlock blockRadius) originalLocation =
       forEach (windowCandidates fixedImage searchRadius originalLocation)
         (visitCandidate fixedImage movingImage blockRadius (numberOfVoxelInBlock blockRadius)
            originalLocation (TransformPhysicalPointToIndex movingImage originalLocation))
         \<lparr>similarity = 0, displacement = Indeterminate\<rparr>"
    by (simp add: searchPoint_def)
  have search64: "searchPoint64 uninitialised (Some fixedImage') (Some movingImage') blockRadius
         searchRadius (numberOfVoxelInBlock blockRadius) originalLocation' =
       forEach (windowCandidates64 fixedImage' searchRadius originalLocation')
         (visitCandidate64 fixedImage' movingImage' blockRadius (numberOfVoxelInBlock blockRadius)
            originalLocation' (TransformPhysicalPointToIndex64 movingImage' originalLocation'))
         \<lparr>similarity64 = Finite 0, displacement64 = uninitialised\<rparr>"
    by (simp add: searchPoint64_def)
  show ?thesis
    by (intro conjI blockSums_eq len len64 sums64 search [unfolded body] search64 [unfolded body64])
qed

theorem block_statistics_witness:
  "blockSums rampImage rampImage [1] (numberOfVoxelInBlock [1]) [1] [0] =
     Some \<lparr>fixedSum = 3, fixedSumOfSquares = 5, movingSum = 0, movingSumOfSquares = 2,
           covariance = 2\<rparr>
   \<and> blockSums64 (periodicImage64 [1, 2, 3, 1, 0]) rampImage64 [1] (numberOfVoxelInBlock [1]) [2] [1] =
     Some \<lparr>fixedSum64 = Finite 6, fixedSumOfSquares64 = Finite 14, movingSum64 = Finite 3,
           movingSumOfSquares64 = Finite 5, covariance64 = Finite 5\<rparr>"
proof -
  have "blockValues rampImage [1] [1] = [0, 1, 2]" "blockValues rampImage [1] [0] = [-1, 0, 1]"
    using blockValues_ramp [of 1] blockValues_ramp [of 0] by simp_all
  then have "blockSums rampImage rampImage [1] (numberOfVoxelInBlock [1]) [1] [0] =
     Some \<lparr>fixedSum = 3, fixedSumOfSquares = 5, movingSum = 0, movingSumOfSquares = 2,
           covariance = 2\<rparr>"
    using block_statistics [of rampImage rampImage "[1]" "[1]" "[0]", THEN conjunct1] by simp
  moreover have "blockSums64 (periodicImage64 [1, 2, 3, 1, 0]) rampImage64 [1] (numberOfVoxelInBlock [1]) [2] [1] =
     Some \<lparr>fixedSum64 = Finite 6, fixedSumOfSquares64 = Finite 14, movingSum64 = Finite 3,
           movingSumOfSquares64 = Finite 5, covariance64 = Finite 5\<rparr>"
    using block_statistics [where fixedImage' = "periodicImage64 [1, 2, 3, 1, 0]"
        and movingImage' = rampImage64 and blockRadius = "[1]" and candidate = "[2]"
        and centerIndex = "[1]", THEN conjunct2, THEN conjunct2, THEN conjunct2, THEN conjunct2,
        THEN conjunct1]
    unfolding blockValues64_periodic blockValues64_ramp by (simp add: accumulate64_def)
  ultimately show ?thesis by (rule conjI)
qed

text \<open>
  Claim C1 as stated fails: on a ramp image, at the candidate \<open>[1]\<close> of the window of the
  point mapped to \<open>[0]\<close>, the sum over the fixed image is not the sum of the fixed block
  anchored at the point's own index, and the sum over the moving image is not the sum of the
  moving block anchored at the candidate.
\<close>

theorem fixed_block_at_original_index_counterexample:
  "[1] \<in> set (windowCandidates rampImage [1] [0])
   \<and> map_option fixedSum
        (blockSums rampImage rampImage [1] (numberOfVoxelInBlock [1]) [1]
           (TransformPhysicalPointToIndex rampImage [0]))
       \<noteq> Some (sum_list (blockValues rampImage [1] (TransformPhysicalPointToIndex rampImage [0])))
   \<and> map_option movingSum
        (blockSums rampImage rampImage [1] (numberOfVoxelInBlock [1]) [1]
           (TransformPhysicalPointToIndex rampImage [0]))
       \<noteq> Some (sum_list (blockValues rampImage [1] [1]))"
proof -
  have "blockValues rampImage [1] [1] = [0, 1, 2]" "blockValues rampImage [1] [0] = [-1, 0, 1]"
    using blockValues_ramp [of 1] blockValues_ramp [of 0] by simp_all
  then show ?thesis
    unfolding windowCandidates_ramp index_ramp blockSums_eq by simp
qed

section \<open>The local displacement that is never assigned\<close>




end
